theory Spec2Isabelle
  imports Main "HOL-Library.AList"
begin

section \<open>Data model (shared/schema.ts)\<close>

text \<open>
  The four stored entities. Identifiers, rounds, phases and scores are JavaScript numbers
  and are modelled as \<open>int\<close>. \<open>currentWord\<close> is nullable in the schema. The text of a
  definition and the definitionId of a vote are copied from the message payload without a
  check, so they may be \<open>undefined\<close>: they are options.

  The word of a round and the text of a definition are typed by the players, and the router
  trims the word: they are JavaScript strings, that is sequences of UTF-16 code units, given
  here by the numbers of the units. \<open>utf16\<close> writes an ASCII literal as such a sequence.
  Session ids, roles, codes and messages are only compared, and stay \<open>string\<close>.
\<close>

type_synonym jsstring = "nat list"

definition utf16 :: "string \<Rightarrow> jsstring" where
  "utf16 t = map of_char t"

record Game =
  g_id :: int
  g_code :: string
  g_phase :: int
  g_currentWord :: "jsstring option"
  g_dictionary :: bool
  g_createdAt :: string
  g_currentRound :: int

record Player =
  p_id :: int
  p_gameId :: int
  p_name :: string
  p_sessionId :: string
  p_role :: string
  p_isAdmin :: bool
  p_isSpectator :: bool
  p_score :: int

record Definition =
  d_id :: int
  d_gameId :: int
  d_playerId :: int
  d_round :: int
  d_text :: "jsstring option"
  d_isCorrect :: bool

record Vote =
  v_id :: int
  v_gameId :: int
  v_playerId :: int
  v_definitionId :: "int option"
  v_round :: int

record InsertPlayer =
  ip_gameId :: int
  ip_name :: string
  ip_sessionId :: string
  ip_isSpectator :: "bool option"
  ip_role :: "string option"
  ip_isAdmin :: "bool option"

record InsertDefinition =
  id_gameId :: int
  id_playerId :: int
  id_text :: "jsstring option"
  id_isCorrect :: "bool option"
  id_round :: "int option"

record InsertVote =
  iv_gameId :: int
  iv_playerId :: int
  iv_definitionId :: "int option"
  iv_round :: "int option"

record GameState =
  gs_game :: Game
  gs_players :: "Player list"
  gs_definitions :: "Definition list"
  gs_votes :: "Vote list"

definition PLAYER :: string where "PLAYER = ''player''"
definition SPECTATOR :: string where "SPECTATOR = ''spectator''"
definition ADMIN :: string where "ADMIN = ''admin''"

datatype error = GameNotFound int | PlayerNotFound int

section \<open>MemStorage (server/storage.ts)\<close>

text \<open>
  A JavaScript \<open>Map<number, V>\<close> keeps its entries in insertion order; \<open>set\<close> on a present
  key replaces the value in place and on an absent key appends, \<open>delete\<close> removes the entry.
  That is an association list under \<open>AList.update\<close>, \<open>AList.delete\<close> and \<open>map_of\<close>, and
  \<open>values()\<close> is \<open>map snd\<close>.
\<close>

type_synonym 'v jsmap = "(int \<times> 'v) list"

definition vals :: "'v jsmap \<Rightarrow> 'v list" where
  "vals m = map snd m"

record MemStorage =
  games :: "Game jsmap"
  players :: "Player jsmap"
  definitions :: "Definition jsmap"
  votes :: "Vote jsmap"
  gameIdCounter :: int
  playerIdCounter :: int
  definitionIdCounter :: int
  voteIdCounter :: int

definition newMemStorage :: MemStorage where
  "newMemStorage = \<lparr>games = [], players = [], definitions = [], votes = [],
     gameIdCounter = 1, playerIdCounter = 1, definitionIdCounter = 1, voteIdCounter = 1\<rparr>"

text \<open>\<open>x || d\<close> on a number: 0 is falsy.\<close>

definition numOr :: "int \<Rightarrow> int \<Rightarrow> int" where
  "numOr x d = (if x = 0 then d else x)"

text \<open>\<open>x || d\<close> on a possibly undefined number.\<close>

definition optNumOr :: "int option \<Rightarrow> int \<Rightarrow> int" where
  "optNumOr x d = (case x of None \<Rightarrow> d | Some n \<Rightarrow> numOr n d)"

definition getGame :: "MemStorage \<Rightarrow> int \<Rightarrow> Game option" where
  "getGame s i = map_of (games s) i"

definition updateGamePhase :: "MemStorage \<Rightarrow> int \<Rightarrow> int \<Rightarrow> error + (MemStorage \<times> Game)" where
  "updateGamePhase s i ph =
     (case getGame s i of
        None \<Rightarrow> Inl (GameNotFound i)
      | Some game \<Rightarrow>
          (let updatedGame = game\<lparr>g_phase := ph\<rparr>
           in Inr (s\<lparr>games := AList.update i updatedGame (games s)\<rparr>, updatedGame)))"

definition updateGameWord :: "MemStorage \<Rightarrow> int \<Rightarrow> jsstring \<Rightarrow> error + (MemStorage \<times> Game)" where
  "updateGameWord s i word =
     (case getGame s i of
        None \<Rightarrow> Inl (GameNotFound i)
      | Some game \<Rightarrow>
          (let updatedGame = game\<lparr>g_currentWord := Some word\<rparr>
           in Inr (s\<lparr>games := AList.update i updatedGame (games s)\<rparr>, updatedGame)))"

definition startNewRound :: "MemStorage \<Rightarrow> int \<Rightarrow> error + (MemStorage \<times> Game)" where
  "startNewRound s gameId =
     (case getGame s gameId of
        None \<Rightarrow> Inl (GameNotFound gameId)
      | Some game \<Rightarrow>
          (let newRound = numOr (g_currentRound game) 1 + 1;
               updatedGame = game\<lparr>g_phase := 1, g_currentWord := Some [],
                                  g_currentRound := newRound\<rparr>
           in Inr (s\<lparr>games := AList.update gameId updatedGame (games s)\<rparr>, updatedGame)))"

text \<open>The two \<open>forEach\<close> passes collect the keys first and delete them afterwards.\<close>

definition clearDefinitionsAndVotesByRound :: "MemStorage \<Rightarrow> int \<Rightarrow> int \<Rightarrow> MemStorage" where
  "clearDefinitionsAndVotesByRound s gameId round =
     (let gameDefIds = map fst (filter (\<lambda>(k, d). d_gameId d = gameId \<and> d_round d = round)
                                  (definitions s));
          s1 = s\<lparr>definitions := fold AList.delete gameDefIds (definitions s)\<rparr>;
          gameVoteIds = map fst (filter (\<lambda>(k, v). v_gameId v = gameId \<and> v_round v = round)
                                  (votes s1))
      in s1\<lparr>votes := fold AList.delete gameVoteIds (votes s1)\<rparr>)"

definition cancelRound :: "MemStorage \<Rightarrow> int \<Rightarrow> error + (MemStorage \<times> Game)" where
  "cancelRound s gameId =
     (case getGame s gameId of
        None \<Rightarrow> Inl (GameNotFound gameId)
      | Some game \<Rightarrow>
          (let currentRound = numOr (g_currentRound game) 1;
               s1 = clearDefinitionsAndVotesByRound s gameId currentRound;
               updatedGame = game\<lparr>g_phase := 1, g_currentWord := Some []\<rparr>
           in Inr (s1\<lparr>games := AList.update gameId updatedGame (games s1)\<rparr>, updatedGame)))"

definition createPlayer :: "MemStorage \<Rightarrow> InsertPlayer \<Rightarrow> MemStorage \<times> Player" where
  "createPlayer s player =
     (let i = playerIdCounter s;
          newPlayer = \<lparr>p_id = i, p_gameId = ip_gameId player, p_name = ip_name player,
                       p_sessionId = ip_sessionId player,
                       p_role = (case ip_role player of
                                   None \<Rightarrow> PLAYER
                                 | Some r \<Rightarrow> if r = [] then PLAYER else r),
                       p_isAdmin = (case ip_isAdmin player of None \<Rightarrow> False | Some b \<Rightarrow> b),
                       p_isSpectator = (case ip_isSpectator player of None \<Rightarrow> False | Some b \<Rightarrow> b),
                       p_score = 0\<rparr>
      in (s\<lparr>playerIdCounter := i + 1, players := AList.update i newPlayer (players s)\<rparr>,
          newPlayer))"

definition getPlayer :: "MemStorage \<Rightarrow> int \<Rightarrow> Player option" where
  "getPlayer s i = map_of (players s) i"

definition getPlayerBySessionId :: "MemStorage \<Rightarrow> string \<Rightarrow> Player option" where
  "getPlayerBySessionId s sessionId =
     find (\<lambda>player. p_sessionId player = sessionId) (vals (players s))"

definition getPlayersByGameId :: "MemStorage \<Rightarrow> int \<Rightarrow> Player list" where
  "getPlayersByGameId s gameId =
     filter (\<lambda>player. p_gameId player = gameId) (vals (players s))"

definition updatePlayerScore :: "MemStorage \<Rightarrow> int \<Rightarrow> int \<Rightarrow> error + (MemStorage \<times> Player)" where
  "updatePlayerScore s i scoreIncrement =
     (case getPlayer s i of
        None \<Rightarrow> Inl (PlayerNotFound i)
      | Some player \<Rightarrow>
          (let updatedPlayer = player\<lparr>p_score := p_score player + scoreIncrement\<rparr>
           in Inr (s\<lparr>players := AList.update i updatedPlayer (players s)\<rparr>, updatedPlayer)))"

text \<open>
  \<open>removePlayer\<close> deletes the player under its key, then every definition and every vote of
  that player under the \<open>id\<close> field of the record (\<open>this.definitions.delete(def.id)\<close>).
\<close>

definition removePlayer :: "MemStorage \<Rightarrow> int \<Rightarrow> error + MemStorage" where
  "removePlayer s i =
     (case getPlayer s i of
        None \<Rightarrow> Inl (PlayerNotFound i)
      | Some player \<Rightarrow>
          (let s1 = s\<lparr>players := AList.delete i (players s)\<rparr>;
               playerDefinitions = filter (\<lambda>d. d_playerId d = i) (vals (definitions s1));
               s2 = s1\<lparr>definitions := fold (\<lambda>d. AList.delete (d_id d)) playerDefinitions
                                          (definitions s1)\<rparr>;
               playerVotes = filter (\<lambda>v. v_playerId v = i) (vals (votes s2))
           in Inr (s2\<lparr>votes := fold (\<lambda>v. AList.delete (v_id v)) playerVotes (votes s2)\<rparr>)))"

definition createDefinition :: "MemStorage \<Rightarrow> InsertDefinition \<Rightarrow> MemStorage \<times> Definition" where
  "createDefinition s definition =
     (let i = definitionIdCounter s;
          newDefinition = \<lparr>d_id = i, d_gameId = id_gameId definition,
                           d_playerId = id_playerId definition,
                           d_round = (case id_round definition of None \<Rightarrow> 1 | Some r \<Rightarrow> r),
                           d_text = id_text definition,
                           d_isCorrect = (case id_isCorrect definition of
                                            None \<Rightarrow> False | Some b \<Rightarrow> b)\<rparr>
      in (s\<lparr>definitionIdCounter := i + 1,
            definitions := AList.update i newDefinition (definitions s)\<rparr>, newDefinition))"

definition getDefinitionsByGameId :: "MemStorage \<Rightarrow> int \<Rightarrow> int \<Rightarrow> Definition list" where
  "getDefinitionsByGameId s gameId round =
     filter (\<lambda>d. d_gameId d = gameId \<and> d_round d = round) (vals (definitions s))"

definition createVote :: "MemStorage \<Rightarrow> InsertVote \<Rightarrow> MemStorage \<times> Vote" where
  "createVote s vote =
     (let i = voteIdCounter s;
          newVote = \<lparr>v_id = i, v_gameId = iv_gameId vote, v_playerId = iv_playerId vote,
                     v_definitionId = iv_definitionId vote,
                     v_round = optNumOr (iv_round vote) 1\<rparr>
      in (s\<lparr>voteIdCounter := i + 1, votes := AList.update i newVote (votes s)\<rparr>, newVote))"

definition getVotesByGameId :: "MemStorage \<Rightarrow> int \<Rightarrow> int \<Rightarrow> Vote list" where
  "getVotesByGameId s gameId round =
     filter (\<lambda>v. v_gameId v = gameId \<and> v_round v = round) (vals (votes s))"

definition getGameState :: "MemStorage \<Rightarrow> int \<Rightarrow> int \<Rightarrow> error + GameState" where
  "getGameState s gameId round =
     (case getGame s gameId of
        None \<Rightarrow> Inl (GameNotFound gameId)
      | Some game \<Rightarrow>
          (let currentRound = numOr round (numOr (g_currentRound game) 1)
           in Inr \<lparr>gs_game = game,
                   gs_players = getPlayersByGameId s gameId,
                   gs_definitions = getDefinitionsByGameId s gameId currentRound,
                   gs_votes = getVotesByGameId s gameId currentRound\<rparr>))"


section \<open>Scoring pass of endVoting (server/websocket.ts)\<close>

text \<open>
  The number of votes of the round that name a definition:
  \<open>votes.filter(vote => vote.definitionId === definition.id).length\<close>.
\<close>

definition voteCount :: "Vote list \<Rightarrow> Definition \<Rightarrow> int" where
  "voteCount vs definition =
     int (length (filter (\<lambda>vote. v_definitionId vote = Some (d_id definition)) vs))"

text \<open>First loop: every definition of the round, in store order, against the votes of the round.\<close>

fun awardAuthors :: "Vote list \<Rightarrow> Definition list \<Rightarrow> MemStorage \<Rightarrow> error + MemStorage" where
  "awardAuthors vs [] s = Inr s"
| "awardAuthors vs (definition # rest) s =
     (if \<not> d_isCorrect definition \<and> voteCount vs definition > 0 then
        (case getPlayer s (d_playerId definition) of
           None \<Rightarrow> awardAuthors vs rest s
         | Some player \<Rightarrow>
             if \<not> p_isSpectator player then
               (case updatePlayerScore s (d_playerId definition) (voteCount vs definition) of
                  Inl e \<Rightarrow> Inl e
                | Inr (s', _) \<Rightarrow> awardAuthors vs rest s')
             else awardAuthors vs rest s)
      else awardAuthors vs rest s)"

text \<open>Second loop: every vote for the correct definition.\<close>

fun awardVoters :: "Vote list \<Rightarrow> MemStorage \<Rightarrow> error + MemStorage" where
  "awardVoters [] s = Inr s"
| "awardVoters (vote # rest) s =
     (case getPlayer s (v_playerId vote) of
        None \<Rightarrow> awardVoters rest s
      | Some player \<Rightarrow>
          if \<not> p_isSpectator player then
            (case updatePlayerScore s (v_playerId vote) 2 of
               Inl e \<Rightarrow> Inl e
             | Inr (s', _) \<Rightarrow> awardVoters rest s')
          else awardVoters rest s)"

definition scoreRound :: "MemStorage \<Rightarrow> int \<Rightarrow> int \<Rightarrow> error + MemStorage" where
  "scoreRound s gameId round =
     (let ds = getDefinitionsByGameId s gameId round;
          vs = getVotesByGameId s gameId round
      in case awardAuthors vs ds s of
           Inl e \<Rightarrow> Inl e
         | Inr s1 \<Rightarrow>
             (case find d_isCorrect ds of
                None \<Rightarrow> Inr s1
              | Some correctDefinition \<Rightarrow>
                  awardVoters
                    (filter (\<lambda>vote. v_definitionId vote = Some (d_id correctDefinition)) vs) s1))"

subsection \<open>What the scoring pass is expected to award\<close>

text \<open>
  The points a player earns as an author: the votes received by each of the player's
  definitions of the round that is not marked correct.
\<close>

definition authorAward :: "MemStorage \<Rightarrow> int \<Rightarrow> int \<Rightarrow> int \<Rightarrow> int" where
  "authorAward s gameId round i =
     sum_list (map (voteCount (getVotesByGameId s gameId round))
                 (filter (\<lambda>d. \<not> d_isCorrect d \<and> d_playerId d = i)
                    (getDefinitionsByGameId s gameId round)))"

text \<open>
  The points a player earns as a voter: 2 for a vote of the round cast for the correct
  definition of the round.
\<close>

definition voterAward :: "MemStorage \<Rightarrow> int \<Rightarrow> int \<Rightarrow> int \<Rightarrow> int" where
  "voterAward s gameId round i =
     (case find d_isCorrect (getDefinitionsByGameId s gameId round) of
        None \<Rightarrow> 0
      | Some cd \<Rightarrow>
          2 * int (length (filter (\<lambda>v. v_definitionId v = Some (d_id cd) \<and> v_playerId v = i)
                             (getVotesByGameId s gameId round))))"

definition addPoints :: "int \<Rightarrow> Player \<Rightarrow> Player" where
  "addPoints n p = (if p_isSpectator p then p else p\<lparr>p_score := p_score p + n\<rparr>)"

subsection \<open>A round of the game, used to exercise the scoring pass\<close>

definition mkPlayer :: "int \<Rightarrow> string \<Rightarrow> bool \<Rightarrow> bool \<Rightarrow> int \<Rightarrow> Player" where
  "mkPlayer i sid admin spectator sc =
     \<lparr>p_id = i, p_gameId = 1, p_name = ''Player'', p_sessionId = sid,
      p_role = (if spectator then SPECTATOR else PLAYER), p_isAdmin = admin,
      p_isSpectator = spectator, p_score = sc\<rparr>"

definition mkDefinition :: "int \<Rightarrow> int \<Rightarrow> bool \<Rightarrow> Definition" where
  "mkDefinition i author correct =
     \<lparr>d_id = i, d_gameId = 1, d_playerId = author, d_round = 1,
      d_text = Some (utf16 ''a meaning''), d_isCorrect = correct\<rparr>"

definition mkVote :: "int \<Rightarrow> int \<Rightarrow> int \<Rightarrow> Vote" where
  "mkVote i voter target =
     \<lparr>v_id = i, v_gameId = 1, v_playerId = voter, v_definitionId = Some target, v_round = 1\<rparr>"

definition game1 :: "int \<Rightarrow> Game" where
  "game1 ph = \<lparr>g_id = 1, g_code = ''A1B2C3'', g_phase = ph, g_currentWord = Some (utf16 ''zarf''),
               g_dictionary = True, g_createdAt = ''2025'', g_currentRound = 1\<rparr>"

text \<open>
  Definition 1 (not correct, by player 1) has the votes of players 4, 5 and 6; definition 2
  (correct, by player 7) has the votes of players 2 and 3 and of the spectator 8.
\<close>

definition votingStore :: MemStorage where
  "votingStore =
     \<lparr>games = [(1, game1 3)],
      players = [(1, mkPlayer 1 ''s1'' True False 0), (2, mkPlayer 2 ''s2'' False False 0),
                 (3, mkPlayer 3 ''s3'' False False 5), (4, mkPlayer 4 ''s4'' False False 0),
                 (5, mkPlayer 5 ''s5'' False False 0), (6, mkPlayer 6 ''s6'' False False 0),
                 (7, mkPlayer 7 ''s7'' False False 1), (8, mkPlayer 8 ''s8'' False True 0)],
      definitions = [(1, mkDefinition 1 1 False), (2, mkDefinition 2 7 True)],
      votes = [(1, mkVote 1 4 1), (2, mkVote 2 5 1), (3, mkVote 3 6 1),
               (4, mkVote 4 2 2), (5, mkVote 5 3 2), (6, mkVote 6 8 2)],
      gameIdCounter = 2, playerIdCounter = 9, definitionIdCounter = 3, voteIdCounter = 7\<rparr>"

section \<open>The message router (server/websocket.ts)\<close>

text \<open>
  The parsed payload of an inbound message. The envelope carries a payload object, and every
  field of it may be missing. A message is handled to completion before the next one: every
  \<open>await\<close> in the handler waits for an in-memory call of MemStorage.
\<close>

record Payload =
  pl_sessionId :: "string option"
  pl_gameId :: "int option"
  pl_role :: "string option"
  pl_isSpectator :: "bool option"
  pl_round :: "int option"
  pl_word :: "jsstring option"
  pl_text :: "jsstring option"
  pl_isCorrect :: "bool option"
  pl_definitionId :: "int option"
  pl_playerId :: "int option"

record WebSocketMessage =
  m_type :: string
  m_payload :: Payload

text \<open>What the server sends: \<open>error\<close> with a message, or \<open>gameState\<close> with the shared state
  and the recipient's \<open>currentPlayer\<close>.\<close>

datatype ServerMessage = ErrorMessage string | GameStateMessage GameState Player

text \<open>
  A socket is named by a number; \<open>readyState\<close> belongs to the socket object, which the
  connection map shares with the handler, so it is kept per socket. \<open>gameRooms\<close> maps a game
  to a \<open>Set\<close> of session ids, kept in insertion order.
\<close>

definition OPEN :: nat where "OPEN = 1"

record Server =
  storage :: MemStorage
  connections :: "(string \<times> nat) list"
  gameRooms :: "(int \<times> string list) list"
  readyState :: "nat \<Rightarrow> nat"

text \<open>The variables captured by the handlers of one connection.\<close>

record Conn =
  c_ws :: nat
  c_sessionId :: "string option"
  c_gameId :: "int option"

type_synonym sent = "(nat \<times> ServerMessage) list"

definition truthyNum :: "int option \<Rightarrow> int option" where
  "truthyNum x = (case x of None \<Rightarrow> None | Some n \<Rightarrow> if n = 0 then None else Some n)"

definition truthyStr :: "'a list option \<Rightarrow> 'a list option" where
  "truthyStr x = (case x of None \<Rightarrow> None | Some t \<Rightarrow> if t = [] then None else Some t)"

definition setAdd :: "'a \<Rightarrow> 'a list \<Rightarrow> 'a list" where
  "setAdd x xs = (if x \<in> set xs then xs else xs @ [x])"

text \<open>
  \<open>String.prototype.trim\<close> removes from both ends the code units that are WhiteSpace or
  LineTerminator in ECMAScript: U+0009 to U+000D, U+0020, U+00A0, U+1680, U+2000 to U+200A,
  U+2028, U+2029, U+202F, U+205F, U+3000 and U+FEFF. All of them are single code units.
\<close>

definition isWhitespace :: "nat \<Rightarrow> bool" where
  "isWhitespace u =
     (u \<in> set [0x0009, 0x000A, 0x000B, 0x000C, 0x000D, 0x0020, 0x00A0, 0x1680,
                 0x2028, 0x2029, 0x202F, 0x205F, 0x3000, 0xFEFF] \<or>
      (0x2000 \<le> u \<and> u \<le> 0x200A))"

definition trim :: "jsstring \<Rightarrow> jsstring" where
  "trim t = rev (dropWhile isWhitespace (rev (dropWhile isWhitespace t)))"

text \<open>The \<open>catch\<close> of the message handler: whatever was done stays done, and the sender gets a
  generic error.\<close>

definition caught :: "Server \<Rightarrow> Conn \<Rightarrow> sent \<Rightarrow> Server \<times> Conn \<times> sent" where
  "caught srv c out = (srv, c, out @ [(c_ws c, ErrorMessage ''An error occurred'')])"

definition isSpectatorPlayer :: "Player \<Rightarrow> bool" where
  "isSpectatorPlayer player = (p_role player = SPECTATOR \<or> p_isSpectator player)"

fun broadcastLoop :: "Server \<Rightarrow> GameState \<Rightarrow> string list \<Rightarrow> sent" where
  "broadcastLoop srv gameState [] = []"
| "broadcastLoop srv gameState (sessionId # rest) =
     (case map_of (connections srv) sessionId of
        None \<Rightarrow> broadcastLoop srv gameState rest
      | Some connection \<Rightarrow>
          if readyState srv connection = OPEN then
            (case getPlayerBySessionId (storage srv) sessionId of
               None \<Rightarrow> broadcastLoop srv gameState rest
             | Some thisPlayer \<Rightarrow>
                 (connection, GameStateMessage gameState thisPlayer)
                   # broadcastLoop srv gameState rest)
          else broadcastLoop srv gameState rest)"

definition broadcastGameState :: "Server \<Rightarrow> int \<Rightarrow> GameState \<Rightarrow> sent" where
  "broadcastGameState srv gameId gameState =
     (case map_of (gameRooms srv) gameId of
        None \<Rightarrow> []
      | Some room \<Rightarrow> broadcastLoop srv gameState room)"

text \<open>The common tail of the handlers: read the state of the round and broadcast it.\<close>

definition stateAndBroadcast :: "Server \<Rightarrow> Conn \<Rightarrow> int \<Rightarrow> int \<Rightarrow> Server \<times> Conn \<times> sent" where
  "stateAndBroadcast srv c gameId round =
     (case getGameState (storage srv) gameId round of
        Inl e \<Rightarrow> caught srv c []
      | Inr gameState \<Rightarrow> (srv, c, broadcastGameState srv gameId gameState))"

text \<open>The room bookkeeping of join: create the room when it is missing, then add the session.\<close>

definition joinRoom :: "Server \<Rightarrow> int \<Rightarrow> string \<Rightarrow> Server" where
  "joinRoom srv gameId sessionId =
     (let rooms1 = (case map_of (gameRooms srv) gameId of
                      None \<Rightarrow> AList.update gameId [] (gameRooms srv)
                    | Some room \<Rightarrow> gameRooms srv);
          rooms2 = (case map_of rooms1 gameId of
                      None \<Rightarrow> rooms1
                    | Some room \<Rightarrow> AList.update gameId (setAdd sessionId room) rooms1)
      in srv\<lparr>gameRooms := rooms2\<rparr>)"

text \<open>The player of a joining session: the stored one, or a new one. \<open>randomId\<close> is the
  rendering of \<open>Math.floor(Math.random() * 100)\<close>.\<close>

definition joinPlayer ::
  "string \<Rightarrow> Payload \<Rightarrow> MemStorage \<Rightarrow> int \<Rightarrow> string \<Rightarrow> MemStorage \<times> Player" where
  "joinPlayer randomId pl st gameId sessionId =
     (case getPlayerBySessionId st sessionId of
        Some existing \<Rightarrow> (st, existing)
      | None \<Rightarrow>
          (let role = (case truthyStr (pl_role pl) of
                         Some r \<Rightarrow> r
                       | None \<Rightarrow> if pl_isSpectator pl = Some True then SPECTATOR else PLAYER);
               isSpectator = (role = SPECTATOR);
               existingPlayers = getPlayersByGameId st gameId;
               isFirstPlayer = (length existingPlayers = 0)
           in createPlayer st
                \<lparr>ip_gameId = gameId,
                 ip_name = (if isSpectator then ''Spectator '' else ''Player '') @ randomId,
                 ip_sessionId = sessionId,
                 ip_isSpectator = Some isSpectator,
                 ip_role = Some role,
                 ip_isAdmin = Some isFirstPlayer\<rparr>))"

definition handleJoin :: "string \<Rightarrow> Conn \<Rightarrow> Payload \<Rightarrow> Server \<Rightarrow> Server \<times> Conn \<times> sent" where
  "handleJoin randomId c pl srv =
     (let c1 = c\<lparr>c_sessionId := pl_sessionId pl, c_gameId := pl_gameId pl\<rparr>;
          srv1 = (case truthyStr (pl_sessionId pl) of
                    None \<Rightarrow> srv
                  | Some sessionId \<Rightarrow>
                      srv\<lparr>connections := AList.update sessionId (c_ws c) (connections srv)\<rparr>)
      in case (truthyNum (pl_gameId pl), truthyStr (pl_sessionId pl)) of
           (Some gameId, Some sessionId) \<Rightarrow>
             (let srv2 = joinRoom srv1 gameId sessionId
              in case getGame (storage srv2) gameId of
                   None \<Rightarrow>
                     (srv2, c1, [(c_ws c,
                        ErrorMessage ''Game not found. Please check your game code.'')])
                 | Some game \<Rightarrow>
                     (let joined = joinPlayer randomId pl (storage srv2) gameId sessionId;
                          player = snd joined;
                          srv3 = srv2\<lparr>storage := fst joined\<rparr>
                      in case getGameState (storage srv3) gameId (optNumOr (pl_round pl) 1) of
                           Inl e \<Rightarrow> caught srv3 c1 []
                         | Inr gameState \<Rightarrow>
                             (srv3, c1,
                              (c_ws c, GameStateMessage gameState player)
                                # broadcastGameState srv3 gameId gameState)))
         | _ \<Rightarrow> (srv1, c1, []))"

definition reply :: "Server \<Rightarrow> Conn \<Rightarrow> string \<Rightarrow> Server \<times> Conn \<times> sent" where
  "reply srv c message = (srv, c, [(c_ws c, ErrorMessage message)])"

text \<open>The first \<open>case "removePlayer"\<close> of the switch; the second one, further down in the
  source, has the same label and is never reached.\<close>

definition handleRemovePlayer :: "Conn \<Rightarrow> Payload \<Rightarrow> Server \<Rightarrow> Server \<times> Conn \<times> sent" where
  "handleRemovePlayer c pl srv =
     (case (truthyNum (c_gameId c), truthyStr (c_sessionId c)) of
        (Some gameId, Some sessionId) \<Rightarrow>
          (case getPlayerBySessionId (storage srv) sessionId of
             None \<Rightarrow> reply srv c ''Admin not found. Please rejoin the game.''
           | Some admin \<Rightarrow>
               if \<not> p_isAdmin admin then
                 reply srv c ''Only the game admin can remove players.''
               else
                 (case truthyNum (pl_playerId pl) of
                    None \<Rightarrow> reply srv c ''Invalid player ID.''
                  | Some playerIdToRemove \<Rightarrow>
                      (case removePlayer (storage srv) playerIdToRemove of
                         Inl e \<Rightarrow> caught srv c []
                       | Inr st1 \<Rightarrow>
                           stateAndBroadcast (srv\<lparr>storage := st1\<rparr>) c gameId
                             (optNumOr (pl_round pl) 1))))
      | _ \<Rightarrow> (srv, c, []))"

definition handleSubmitWord :: "Conn \<Rightarrow> Payload \<Rightarrow> Server \<Rightarrow> Server \<times> Conn \<times> sent" where
  "handleSubmitWord c pl srv =
     (case (truthyNum (c_gameId c), truthyStr (c_sessionId c)) of
        (Some gameId, Some sessionId) \<Rightarrow>
          (case getPlayerBySessionId (storage srv) sessionId of
             None \<Rightarrow> reply srv c ''Player not found. Please rejoin the game.''
           | Some player \<Rightarrow>
               if isSpectatorPlayer player then
                 reply srv c ''Spectators cannot submit words.''
               else
                 (case truthyStr (pl_word pl) of
                    None \<Rightarrow> reply srv c ''Please enter a valid word.''
                  | Some word \<Rightarrow>
                      if trim word = [] then reply srv c ''Please enter a valid word.''
                      else
                        (case updateGameWord (storage srv) gameId (trim word) of
                           Inl e \<Rightarrow> caught srv c []
                         | Inr (st1, _) \<Rightarrow>
                             (case updateGamePhase st1 gameId 2 of
                                Inl e \<Rightarrow> caught (srv\<lparr>storage := st1\<rparr>) c []
                              | Inr (st2, _) \<Rightarrow>
                                  stateAndBroadcast (srv\<lparr>storage := st2\<rparr>) c gameId
                                    (optNumOr (pl_round pl) 1)))))
      | _ \<Rightarrow> (srv, c, []))"

definition handleSubmitDefinition :: "Conn \<Rightarrow> Payload \<Rightarrow> Server \<Rightarrow> Server \<times> Conn \<times> sent" where
  "handleSubmitDefinition c pl srv =
     (case (truthyNum (c_gameId c), truthyStr (c_sessionId c)) of
        (Some gameId, Some sessionId) \<Rightarrow>
          (case getPlayerBySessionId (storage srv) sessionId of
             None \<Rightarrow> reply srv c ''Player not found. Please rejoin the game.''
           | Some player \<Rightarrow>
               if isSpectatorPlayer player then
                 reply srv c ''Spectators cannot submit definitions.''
               else
                 (let round = optNumOr (pl_round pl) 1;
                      existingDefinitions = getDefinitionsByGameId (storage srv) gameId round;
                      playerHasSubmitted =
                        list_ex (\<lambda>def. d_playerId def = p_id player) existingDefinitions
                  in if playerHasSubmitted then
                       reply srv c ''You have already submitted a definition for this round.''
                     else
                       (let (st1, _) =
                              createDefinition (storage srv)
                                \<lparr>id_gameId = gameId, id_playerId = p_id player,
                                 id_text = pl_text pl,
                                 id_isCorrect = Some (pl_isCorrect pl = Some True),
                                 id_round = Some round\<rparr>
                        in stateAndBroadcast (srv\<lparr>storage := st1\<rparr>) c gameId
                             (optNumOr (pl_round pl) 1))))
      | _ \<Rightarrow> (srv, c, []))"

definition handleEndSubmissions :: "Conn \<Rightarrow> Payload \<Rightarrow> Server \<Rightarrow> Server \<times> Conn \<times> sent" where
  "handleEndSubmissions c pl srv =
     (case (truthyNum (c_gameId c), truthyStr (c_sessionId c)) of
        (Some gameId, Some sessionId) \<Rightarrow>
          (case getPlayerBySessionId (storage srv) sessionId of
             None \<Rightarrow> reply srv c ''Player not found. Please rejoin the game.''
           | Some player \<Rightarrow>
               if isSpectatorPlayer player then
                 reply srv c ''Spectators cannot control game phases.''
               else
                 (case updateGamePhase (storage srv) gameId 3 of
                    Inl e \<Rightarrow> caught srv c []
                  | Inr (st1, _) \<Rightarrow>
                      stateAndBroadcast (srv\<lparr>storage := st1\<rparr>) c gameId
                        (optNumOr (pl_round pl) 1)))
      | _ \<Rightarrow> (srv, c, []))"

definition handleSubmitVote :: "Conn \<Rightarrow> Payload \<Rightarrow> Server \<Rightarrow> Server \<times> Conn \<times> sent" where
  "handleSubmitVote c pl srv =
     (case (truthyNum (c_gameId c), truthyStr (c_sessionId c)) of
        (Some gameId, Some sessionId) \<Rightarrow>
          (case getPlayerBySessionId (storage srv) sessionId of
             None \<Rightarrow> reply srv c ''Player not found. Please rejoin the game.''
           | Some player \<Rightarrow>
               if isSpectatorPlayer player then
                 reply srv c ''Spectators cannot vote.''
               else
                 (let voteRound = optNumOr (pl_round pl) 1;
                      existingVotes = getVotesByGameId (storage srv) gameId voteRound;
                      playerHasVoted =
                        list_ex (\<lambda>vote. v_playerId vote = p_id player) existingVotes
                  in if playerHasVoted then
                       reply srv c ''You have already voted for this round.''
                     else
                       (let (st1, _) =
                              createVote (storage srv)
                                \<lparr>iv_gameId = gameId, iv_playerId = p_id player,
                                 iv_definitionId = pl_definitionId pl,
                                 iv_round = Some voteRound\<rparr>
                        in stateAndBroadcast (srv\<lparr>storage := st1\<rparr>) c gameId
                             (optNumOr (pl_round pl) 1))))
      | _ \<Rightarrow> (srv, c, []))"

definition handleEndVoting :: "Conn \<Rightarrow> Payload \<Rightarrow> Server \<Rightarrow> Server \<times> Conn \<times> sent" where
  "handleEndVoting c pl srv =
     (case (truthyNum (c_gameId c), truthyStr (c_sessionId c)) of
        (Some gameId, Some sessionId) \<Rightarrow>
          (case getPlayerBySessionId (storage srv) sessionId of
             None \<Rightarrow> reply srv c ''Player not found. Please rejoin the game.''
           | Some player \<Rightarrow>
               if isSpectatorPlayer player then
                 reply srv c ''Spectators cannot control game phases.''
               else
                 (case updateGamePhase (storage srv) gameId 4 of
                    Inl e \<Rightarrow> caught srv c []
                  | Inr (st1, _) \<Rightarrow>
                      (let round = optNumOr (pl_round pl) 1
                       in case scoreRound st1 gameId round of
                            Inl e \<Rightarrow> caught (srv\<lparr>storage := st1\<rparr>) c []
                          | Inr st2 \<Rightarrow>
                              stateAndBroadcast (srv\<lparr>storage := st2\<rparr>) c gameId round)))
      | _ \<Rightarrow> (srv, c, []))"

definition handleNewRound :: "Conn \<Rightarrow> Payload \<Rightarrow> Server \<Rightarrow> Server \<times> Conn \<times> sent" where
  "handleNewRound c pl srv =
     (case (truthyNum (c_gameId c), truthyStr (c_sessionId c)) of
        (Some gameId, Some sessionId) \<Rightarrow>
          (case getPlayerBySessionId (storage srv) sessionId of
             None \<Rightarrow> reply srv c ''Player not found. Please rejoin the game.''
           | Some player \<Rightarrow>
               if isSpectatorPlayer player then
                 reply srv c ''Spectators cannot control game phases.''
               else
                 (case startNewRound (storage srv) gameId of
                    Inl e \<Rightarrow> caught srv c []
                  | Inr (st1, updatedGame) \<Rightarrow>
                      stateAndBroadcast (srv\<lparr>storage := st1\<rparr>) c gameId
                        (g_currentRound updatedGame)))
      | _ \<Rightarrow> (srv, c, []))"

definition handleCancelRound :: "Conn \<Rightarrow> Payload \<Rightarrow> Server \<Rightarrow> Server \<times> Conn \<times> sent" where
  "handleCancelRound c pl srv =
     (case (truthyNum (c_gameId c), truthyStr (c_sessionId c)) of
        (Some gameId, Some sessionId) \<Rightarrow>
          (case getPlayerBySessionId (storage srv) sessionId of
             None \<Rightarrow> reply srv c ''Player not found. Please rejoin the game.''
           | Some player \<Rightarrow>
               if \<not> p_isAdmin player then
                 reply srv c ''Only admins can cancel the current round.''
               else
                 (case cancelRound (storage srv) gameId of
                    Inl e \<Rightarrow> caught srv c []
                  | Inr (st1, updatedGame) \<Rightarrow>
                      stateAndBroadcast (srv\<lparr>storage := st1\<rparr>) c gameId
                        (numOr (g_currentRound updatedGame) 1)))
      | _ \<Rightarrow> (srv, c, []))"

definition handleAwardBonus :: "Conn \<Rightarrow> Payload \<Rightarrow> Server \<Rightarrow> Server \<times> Conn \<times> sent" where
  "handleAwardBonus c pl srv =
     (case (truthyNum (c_gameId c), truthyStr (c_sessionId c)) of
        (Some gameId, Some sessionId) \<Rightarrow>
          (case getPlayerBySessionId (storage srv) sessionId of
             None \<Rightarrow> reply srv c ''Player not found. Please rejoin the game.''
           | Some adminPlayer \<Rightarrow>
               if \<not> p_isAdmin adminPlayer then
                 reply srv c ''Only admins can award bonus points.''
               else
                 (case truthyNum (pl_playerId pl) of
                    None \<Rightarrow> reply srv c ''No player ID provided.''
                  | Some playerId \<Rightarrow>
                      (let afterAward = (\<lambda>st1.
                             case getGame st1 gameId of
                               None \<Rightarrow> caught (srv\<lparr>storage := st1\<rparr>) c []
                             | Some game \<Rightarrow>
                                 stateAndBroadcast (srv\<lparr>storage := st1\<rparr>) c gameId
                                   (numOr (g_currentRound game) 1))
                       in case getPlayer (storage srv) playerId of
                            None \<Rightarrow> afterAward (storage srv)
                          | Some playerToAward \<Rightarrow>
                              if \<not> p_isSpectator playerToAward then
                                (case updatePlayerScore (storage srv) playerId 3 of
                                   Inl e \<Rightarrow> caught srv c []
                                 | Inr (st1, _) \<Rightarrow> afterAward st1)
                              else reply srv c ''Cannot award points to spectators.'')))
      | _ \<Rightarrow> (srv, c, []))"

text \<open>The \<open>switch\<close> on the message type.\<close>

definition handleMessage ::
  "string \<Rightarrow> Conn \<Rightarrow> WebSocketMessage \<Rightarrow> Server \<Rightarrow> Server \<times> Conn \<times> sent" where
  "handleMessage randomId c m srv =
     (let t = m_type m; pl = m_payload m
      in if t = ''join'' then handleJoin randomId c pl srv
         else if t = ''removePlayer'' then handleRemovePlayer c pl srv
         else if t = ''submitWord'' then handleSubmitWord c pl srv
         else if t = ''submitDefinition'' then handleSubmitDefinition c pl srv
         else if t = ''endSubmissions'' then handleEndSubmissions c pl srv
         else if t = ''submitVote'' then handleSubmitVote c pl srv
         else if t = ''endVoting'' then handleEndVoting c pl srv
         else if t = ''newRound'' then handleNewRound c pl srv
         else if t = ''cancelRound'' then handleCancelRound c pl srv
         else if t = ''awardBonus'' then handleAwardBonus c pl srv
         else (srv, c, []))"

subsection \<open>A running server, used to exercise the router\<close>

text \<open>Three sockets: 1 and 2 are open, 3 is closing.\<close>

definition sockets :: "nat \<Rightarrow> nat" where
  "sockets w = (if w = 3 then 2 else OPEN)"

definition votingServer :: Server where
  "votingServer =
     \<lparr>storage = votingStore,
      connections = [(''s1'', 1), (''s2'', 2), (''s8'', 3)],
      gameRooms = [(1, [''s1'', ''s2'', ''s8'', ''s9''])],
      readyState = sockets\<rparr>"

definition emptyPayload :: Payload where
  "emptyPayload =
     \<lparr>pl_sessionId = None, pl_gameId = None, pl_role = None, pl_isSpectator = None,
      pl_round = None, pl_word = None, pl_text = None, pl_isCorrect = None,
      pl_definitionId = None, pl_playerId = None\<rparr>"

definition conn :: "nat \<Rightarrow> string \<Rightarrow> int \<Rightarrow> Conn" where
  "conn w sid gid = \<lparr>c_ws = w, c_sessionId = Some sid, c_gameId = Some gid\<rparr>"

subsection \<open>Well-formed tables and dangling votes\<close>

text \<open>
  Every record is stored under its own id (\<open>this.definitions.set(id, newDefinition)\<close> with
  \<open>id\<close> also written into the record), and a \<open>Map\<close> holds a key once.
\<close>

definition keysMatch :: "('v \<Rightarrow> int) \<Rightarrow> 'v jsmap \<Rightarrow> bool" where
  "keysMatch idOf m = (distinct (map fst m) \<and> list_all (\<lambda>(k, v). idOf v = k) m)"

text \<open>A vote names a definition written by player \<open>i\<close> in store \<open>s\<close>.\<close>

definition namesDefinitionOf :: "MemStorage \<Rightarrow> int \<Rightarrow> Vote \<Rightarrow> bool" where
  "namesDefinitionOf s i v =
     list_ex (\<lambda>d. d_playerId d = i \<and> v_definitionId v = Some (d_id d)) (vals (definitions s))"

text \<open>Players 2 and 3 voted for the definition of player 1, who voted for that of player 2.\<close>

definition removalStore :: MemStorage where
  "removalStore =
     \<lparr>games = [(1, game1 3)],
      players = [(1, mkPlayer 1 ''s1'' True False 0), (2, mkPlayer 2 ''s2'' False False 0),
                 (3, mkPlayer 3 ''s3'' False False 0)],
      definitions = [(1, mkDefinition 1 1 False), (2, mkDefinition 2 2 False)],
      votes = [(1, mkVote 1 1 2), (2, mkVote 2 2 1), (3, mkVote 3 3 1)],
      gameIdCounter = 2, playerIdCounter = 4, definitionIdCounter = 3, voteIdCounter = 4\<rparr>"

subsection \<open>Recipients of a broadcast\<close>

text \<open>A session of a room is served when its socket is registered and open and its session
  id resolves to a player.\<close>

definition liveRecipient :: "Server \<Rightarrow> string \<Rightarrow> bool" where
  "liveRecipient srv sessionId =
     (case map_of (connections srv) sessionId of
        None \<Rightarrow> False
      | Some connection \<Rightarrow>
          readyState srv connection = OPEN \<and>
          getPlayerBySessionId (storage srv) sessionId \<noteq> None)"

definition votingState :: GameState where
  "votingState =
     \<lparr>gs_game = game1 3, gs_players = vals (players votingStore),
      gs_definitions = vals (definitions votingStore), gs_votes = vals (votes votingStore)\<rparr>"

definition wordPayload :: Payload where
  "wordPayload = emptyPayload\<lparr>pl_word := Some (utf16 ''quux'')\<rparr>"

subsection \<open>One definition and one vote per player and round\<close>

definition oneDefinitionPer :: "MemStorage \<Rightarrow> bool" where
  "oneDefinitionPer s =
     distinct (map (\<lambda>d. (d_gameId d, d_playerId d, d_round d)) (vals (definitions s)))"

definition oneVotePer :: "MemStorage \<Rightarrow> bool" where
  "oneVotePer s =
     distinct (map (\<lambda>v. (v_gameId v, v_playerId v, v_round v)) (vals (votes s)))"

subsection \<open>Messages used to exercise submitDefinition and submitVote\<close>

fun isError :: "ServerMessage \<Rightarrow> bool" where
  "isError (ErrorMessage t) = True"
| "isError (GameStateMessage gameState player) = False"

definition blankPayload :: Payload where
  "blankPayload = emptyPayload\<lparr>pl_text := Some (utf16 ''   ''), pl_round := Some 1\<rparr>"

definition strayVotePayload :: Payload where
  "strayVotePayload = emptyPayload\<lparr>pl_definitionId := Some 99, pl_round := Some 1\<rparr>"

subsection \<open>A stored player survives a message unchanged, or is removed\<close>

definition keeps :: "MemStorage \<Rightarrow> int \<Rightarrow> Player \<Rightarrow> bool" where
  "keeps st' i p = (getPlayer st' i = Some p \<or> getPlayer st' i = None)"

subsection \<open>A server with two games, used to exercise join\<close>

definition game2 :: Game where
  "game2 = \<lparr>g_id = 2, g_code = ''D4E5F6'', g_phase = 1, g_currentWord = Some [],
             g_dictionary = True, g_createdAt = ''2025'', g_currentRound = 1\<rparr>"

text \<open>Game 1 has player 1 (session s1); game 2 has no player yet.\<close>

definition twoGamesStore :: MemStorage where
  "twoGamesStore =
     \<lparr>games = [(1, game1 1), (2, game2)],
      players = [(1, mkPlayer 1 ''s1'' True False 0)],
      definitions = [], votes = [],
      gameIdCounter = 3, playerIdCounter = 2, definitionIdCounter = 1, voteIdCounter = 1\<rparr>"

definition twoGamesServer :: Server where
  "twoGamesServer =
     \<lparr>storage = twoGamesStore, connections = [], gameRooms = [], readyState = sockets\<rparr>"

definition newConn :: "nat \<Rightarrow> Conn" where
  "newConn w = \<lparr>c_ws = w, c_sessionId = None, c_gameId = None\<rparr>"

definition joinPayload :: "string \<Rightarrow> int \<Rightarrow> Payload" where
  "joinPayload sid gid = emptyPayload\<lparr>pl_sessionId := Some sid, pl_gameId := Some gid\<rparr>"

definition joinMsg :: "string \<Rightarrow> int \<Rightarrow> WebSocketMessage" where
  "joinMsg sid gid = \<lparr>m_type = ''join'', m_payload = joinPayload sid gid\<rparr>"

definition removeMsg :: "int \<Rightarrow> WebSocketMessage" where
  "removeMsg i = \<lparr>m_type = ''removePlayer'', m_payload = emptyPayload\<lparr>pl_playerId := Some i\<rparr>\<rparr>"

text \<open>Session a joins game 2, removes its own player, and then session b joins game 2.\<close>

definition serverA :: Server where
  "serverA = fst (handleMessage ''7'' (newConn 2) (joinMsg ''a'' 2) twoGamesServer)"

definition serverB :: Server where
  "serverB = fst (handleMessage ''7'' (conn 2 ''a'' 2) (removeMsg 2) serverA)"

definition serverC :: Server where
  "serverC = fst (handleMessage ''8'' (newConn 3) (joinMsg ''b'' 2) serverB)"

text \<open>A word made of a no-break space, a line separator and a byte order mark.\<close>

definition nbspPayload :: Payload where
  "nbspPayload = emptyPayload\<lparr>pl_word := Some [0x00A0, 0x2028, 0xFEFF]\<rparr>"

subsection \<open>A server with history, used to exercise cancelRound and newRound\<close>

text \<open>
  Game 1 is in round 2 and has players 1 (admin) and 2; game 2 is in round 1 and has player 3
  (its admin). Definition 1 and vote 1 belong to round 1 of game 1, definition 2 and vote 2
  to round 2 of game 1, definition 3 and vote 3 to round 1 of game 2.
\<close>

definition historyStore :: MemStorage where
  "historyStore =
     \<lparr>games = [(1, game1 3\<lparr>g_currentRound := 2\<rparr>),
               (2, game2\<lparr>g_phase := 2, g_currentWord := Some (utf16 ''zarf'')\<rparr>)],
      players = [(1, mkPlayer 1 ''s1'' True False 0), (2, mkPlayer 2 ''s2'' False False 0),
                 (3, mkPlayer 3 ''s3'' True False 0\<lparr>p_gameId := 2\<rparr>)],
      definitions = [(1, mkDefinition 1 1 False), (2, mkDefinition 2 2 False\<lparr>d_round := 2\<rparr>),
                     (3, mkDefinition 3 3 False\<lparr>d_gameId := 2\<rparr>)],
      votes = [(1, mkVote 1 2 1), (2, mkVote 2 1 2\<lparr>v_round := 2\<rparr>),
               (3, mkVote 3 3 3\<lparr>v_gameId := 2\<rparr>)],
      gameIdCounter = 3, playerIdCounter = 4, definitionIdCounter = 4, voteIdCounter = 4\<rparr>"

definition historyServer :: Server where
  "historyServer =
     \<lparr>storage = historyStore, connections = [(''s1'', 1), (''s2'', 2)],
      gameRooms = [(1, [''s1'', ''s2''])], readyState = sockets\<rparr>"

text \<open>Session s1, whose player belongs to game 1, joins game 2 on a new connection.\<close>

definition crossServer :: Server where
  "crossServer = fst (handleMessage ''7'' (newConn 1) (joinMsg ''s1'' 2) historyServer)"

definition cancelMsg :: WebSocketMessage where
  "cancelMsg = \<lparr>m_type = ''cancelRound'', m_payload = emptyPayload\<rparr>"

section \<open>Properties of the store\<close>

lemma addPoints_0: "addPoints 0 p = p"
  by (simp add: addPoints_def)

lemma addPoints_add: "addPoints m (addPoints n p) = addPoints (n + m) p"
  by (simp add: addPoints_def)

lemma updatePlayerScore_players:
  "getPlayer s i = Some p \<Longrightarrow>
   \<exists>s' q. updatePlayerScore s i n = Inr (s', q) \<and>
     map_of (players s') = (map_of (players s))(i \<mapsto> p\<lparr>p_score := p_score p + n\<rparr>) \<and>
     games s' = games s \<and> definitions s' = definitions s \<and> votes s' = votes s"
  by (simp add: updatePlayerScore_def getPlayer_def update_conv' Let_def)

lemma awardAuthors_spec:
  "\<exists>s'. awardAuthors vs ds s = Inr s' \<and>
     (\<forall>i. getPlayer s' i =
        map_option (addPoints (sum_list (map (voteCount vs)
                      (filter (\<lambda>d. \<not> d_isCorrect d \<and> d_playerId d = i) ds))))
          (getPlayer s i)) \<and>
     games s' = games s \<and> definitions s' = definitions s \<and> votes s' = votes s"
proof (induction ds arbitrary: s)
  case Nil
  show ?case by (simp add: addPoints_0 option.map_ident)
next
  case (Cons d rest)
  let ?c = "voteCount vs d"
  let ?a = "d_playerId d"
  have zero: "0 \<le> ?c" by (simp add: voteCount_def)
  show ?case
  proof (cases "\<not> d_isCorrect d \<and> ?c > 0")
    case False
    then have skip: "awardAuthors vs (d # rest) s = awardAuthors vs rest s"
      by (simp only: awardAuthors.simps if_False)
    from False zero have "d_isCorrect d \<or> ?c = 0" by auto
    then have same: "\<And>i. sum_list (map (voteCount vs)
                 (filter (\<lambda>d. \<not> d_isCorrect d \<and> d_playerId d = i) (d # rest)))
               = sum_list (map (voteCount vs)
                 (filter (\<lambda>d. \<not> d_isCorrect d \<and> d_playerId d = i) rest))"
      by auto
    from Cons.IH [of s] show ?thesis unfolding skip same .
  next
    case True
    show ?thesis
    proof (cases "getPlayer s ?a")
      case None
      with True have skip: "awardAuthors vs (d # rest) s = awardAuthors vs rest s" by simp
      from Cons.IH [of s] obtain s' where
        r: "awardAuthors vs rest s = Inr s'" and
        p: "\<And>i. getPlayer s' i =
              map_option (addPoints (sum_list (map (voteCount vs)
                (filter (\<lambda>d. \<not> d_isCorrect d \<and> d_playerId d = i) rest)))) (getPlayer s i)" and
        f: "games s' = games s" "definitions s' = definitions s" "votes s' = votes s"
        by blast
      have "\<And>i. getPlayer s' i =
              map_option (addPoints (sum_list (map (voteCount vs)
                (filter (\<lambda>d. \<not> d_isCorrect d \<and> d_playerId d = i) (d # rest))))) (getPlayer s i)"
        using p None by (case_tac "i = d_playerId d") simp_all
      with r f skip show ?thesis by simp
    next
      case (Some pl)
      show ?thesis
      proof (cases "p_isSpectator pl")
        case True
        with Some \<open>\<not> d_isCorrect d \<and> ?c > 0\<close>
        have skip: "awardAuthors vs (d # rest) s = awardAuthors vs rest s" by simp
        from Cons.IH [of s] obtain s' where
          r: "awardAuthors vs rest s = Inr s'" and
          p: "\<And>i. getPlayer s' i =
                map_option (addPoints (sum_list (map (voteCount vs)
                  (filter (\<lambda>d. \<not> d_isCorrect d \<and> d_playerId d = i) rest)))) (getPlayer s i)" and
          f: "games s' = games s" "definitions s' = definitions s" "votes s' = votes s"
          by blast
        have "\<And>i. getPlayer s' i =
                map_option (addPoints (sum_list (map (voteCount vs)
                  (filter (\<lambda>d. \<not> d_isCorrect d \<and> d_playerId d = i) (d # rest))))) (getPlayer s i)"
          using p Some True by (case_tac "i = d_playerId d") (simp_all add: addPoints_def)
        with r f skip show ?thesis by simp
      next
        case False
        from updatePlayerScore_players [OF Some, of ?c] obtain s1 q where
          u: "updatePlayerScore s ?a ?c = Inr (s1, q)" and
          m: "map_of (players s1) = (map_of (players s))(?a \<mapsto> pl\<lparr>p_score := p_score pl + ?c\<rparr>)" and
          g: "games s1 = games s" "definitions s1 = definitions s" "votes s1 = votes s"
          by blast
        from Some False \<open>\<not> d_isCorrect d \<and> ?c > 0\<close> u
        have step: "awardAuthors vs (d # rest) s = awardAuthors vs rest s1" by simp
        from Cons.IH [of s1] obtain s' where
          r: "awardAuthors vs rest s1 = Inr s'" and
          p: "\<And>i. getPlayer s' i =
                map_option (addPoints (sum_list (map (voteCount vs)
                  (filter (\<lambda>d. \<not> d_isCorrect d \<and> d_playerId d = i) rest)))) (getPlayer s1 i)" and
          f: "games s' = games s1" "definitions s' = definitions s1" "votes s' = votes s1"
          by blast
        have "\<And>i. getPlayer s' i =
                map_option (addPoints (sum_list (map (voteCount vs)
                  (filter (\<lambda>d. \<not> d_isCorrect d \<and> d_playerId d = i) (d # rest))))) (getPlayer s i)"
          using p m Some False \<open>\<not> d_isCorrect d \<and> ?c > 0\<close>
          by (case_tac "i = d_playerId d") (simp_all add: getPlayer_def addPoints_def)
        with r f g step show ?thesis by simp
      qed
    qed
  qed
qed

lemma awardVoters_spec:
  "\<exists>s'. awardVoters vs s = Inr s' \<and>
     (\<forall>i. getPlayer s' i =
        map_option (addPoints (2 * int (length (filter (\<lambda>v. v_playerId v = i) vs))))
          (getPlayer s i)) \<and>
     games s' = games s \<and> definitions s' = definitions s \<and> votes s' = votes s"
proof (induction vs arbitrary: s)
  case Nil
  show ?case by (simp add: addPoints_0 option.map_ident)
next
  case (Cons v rest)
  let ?a = "v_playerId v"
  show ?case
  proof (cases "getPlayer s ?a")
    case None
    then have skip: "awardVoters (v # rest) s = awardVoters rest s" by simp
    from Cons.IH [of s] obtain s' where
      r: "awardVoters rest s = Inr s'" and
      p: "\<And>i. getPlayer s' i =
            map_option (addPoints (2 * int (length (filter (\<lambda>v. v_playerId v = i) rest))))
              (getPlayer s i)" and
      f: "games s' = games s" "definitions s' = definitions s" "votes s' = votes s"
      by blast
    have "\<And>i. getPlayer s' i =
            map_option (addPoints (2 * int (length (filter (\<lambda>v. v_playerId v = i) (v # rest)))))
              (getPlayer s i)"
      using p None by (case_tac "i = v_playerId v") simp_all
    with r f skip show ?thesis by simp
  next
    case (Some pl)
    show ?thesis
    proof (cases "p_isSpectator pl")
      case True
      with Some have skip: "awardVoters (v # rest) s = awardVoters rest s" by simp
      from Cons.IH [of s] obtain s' where
        r: "awardVoters rest s = Inr s'" and
        p: "\<And>i. getPlayer s' i =
              map_option (addPoints (2 * int (length (filter (\<lambda>v. v_playerId v = i) rest))))
                (getPlayer s i)" and
        f: "games s' = games s" "definitions s' = definitions s" "votes s' = votes s"
        by blast
      have "\<And>i. getPlayer s' i =
              map_option (addPoints (2 * int (length (filter (\<lambda>v. v_playerId v = i) (v # rest)))))
                (getPlayer s i)"
        using p Some True by (case_tac "i = v_playerId v") (simp_all add: addPoints_def)
      with r f skip show ?thesis by simp
    next
      case False
      from updatePlayerScore_players [OF Some, of 2] obtain s1 q where
        u: "updatePlayerScore s ?a 2 = Inr (s1, q)" and
        m: "map_of (players s1) = (map_of (players s))(?a \<mapsto> pl\<lparr>p_score := p_score pl + 2\<rparr>)" and
        g: "games s1 = games s" "definitions s1 = definitions s" "votes s1 = votes s"
        by blast
      from Some False u
      have step: "awardVoters (v # rest) s = awardVoters rest s1" by simp
      from Cons.IH [of s1] obtain s' where
        r: "awardVoters rest s1 = Inr s'" and
        p: "\<And>i. getPlayer s' i =
              map_option (addPoints (2 * int (length (filter (\<lambda>v. v_playerId v = i) rest))))
                (getPlayer s1 i)" and
        f: "games s' = games s1" "definitions s' = definitions s1" "votes s' = votes s1"
        by blast
      have "\<And>i. getPlayer s' i =
              map_option (addPoints (2 * int (length (filter (\<lambda>v. v_playerId v = i) (v # rest)))))
                (getPlayer s i)"
        using p m Some False
        by (case_tac "i = v_playerId v") (simp_all add: getPlayer_def addPoints_def)
      with r f g step show ?thesis by simp
    qed
  qed
qed

lemma map_option_addPoints:
  "map_option (addPoints m) (map_option (addPoints n) x) = map_option (addPoints (n + m)) x"
  by (cases x) (simp_all add: addPoints_add)

lemma scoreRound_spec:
  "\<exists>s'. scoreRound s gameId round = Inr s' \<and>
     (\<forall>i. getPlayer s' i =
        map_option (addPoints (authorAward s gameId round i + voterAward s gameId round i))
          (getPlayer s i)) \<and>
     games s' = games s \<and> definitions s' = definitions s \<and> votes s' = votes s"
proof -
  let ?ds = "getDefinitionsByGameId s gameId round"
  let ?vs = "getVotesByGameId s gameId round"
  from awardAuthors_spec [of ?vs ?ds s] obtain s1 where
    a: "awardAuthors ?vs ?ds s = Inr s1" and
    pa: "\<And>i. getPlayer s1 i = map_option (addPoints (authorAward s gameId round i)) (getPlayer s i)" and
    fa: "games s1 = games s" "definitions s1 = definitions s" "votes s1 = votes s"
    unfolding authorAward_def by blast
  show ?thesis
  proof (cases "find d_isCorrect ?ds")
    case None
    then have "scoreRound s gameId round = Inr s1"
      using a by (simp add: scoreRound_def)
    moreover from None have "\<And>i. voterAward s gameId round i = 0"
      by (simp add: voterAward_def)
    ultimately show ?thesis using pa fa by simp
  next
    case (Some cd)
    let ?cv = "filter (\<lambda>vote. v_definitionId vote = Some (d_id cd)) ?vs"
    from awardVoters_spec [of ?cv s1] obtain s2 where
      v: "awardVoters ?cv s1 = Inr s2" and
      pv: "\<And>i. getPlayer s2 i =
             map_option (addPoints (2 * int (length (filter (\<lambda>v. v_playerId v = i) ?cv))))
               (getPlayer s1 i)" and
      fv: "games s2 = games s1" "definitions s2 = definitions s1" "votes s2 = votes s1"
      by blast
    from Some a v have run: "scoreRound s gameId round = Inr s2"
      by (simp add: scoreRound_def)
    have va: "\<And>i. voterAward s gameId round i =
                2 * int (length (filter (\<lambda>v. v_playerId v = i) ?cv))"
      using Some by (simp add: voterAward_def conj_commute)
    have "\<And>i. getPlayer s2 i =
             map_option (addPoints (authorAward s gameId round i + voterAward s gameId round i))
               (getPlayer s i)"
      unfolding va pv pa map_option_addPoints ..
    with run fa fv show ?thesis by simp
  qed
qed

section \<open>C1: the scoring pass of endVoting\<close>


lemma votingStore_awards:
  "authorAward votingStore 1 1 1 = 3" "voterAward votingStore 1 1 1 = 0"
  "authorAward votingStore 1 1 2 = 0" "voterAward votingStore 1 1 2 = 2"
  "authorAward votingStore 1 1 3 = 0" "voterAward votingStore 1 1 3 = 2"
  "authorAward votingStore 1 1 4 = 0" "voterAward votingStore 1 1 4 = 0"
  "authorAward votingStore 1 1 7 = 0" "voterAward votingStore 1 1 7 = 0"
  "authorAward votingStore 1 1 8 = 0" "voterAward votingStore 1 1 8 = 2"
  by (simp_all add: authorAward_def voterAward_def votingStore_def getDefinitionsByGameId_def
      getVotesByGameId_def vals_def mkDefinition_def mkVote_def voteCount_def)


section \<open>Deleting entries, cancelRound and startNewRound\<close>

lemma fold_delete_filter:
  "fold (\<lambda>x. AList.delete (f x)) xs al = filter (\<lambda>e. fst e \<notin> f ` set xs) al"
proof (induction xs arbitrary: al)
  case Nil
  show ?case by simp
next
  case (Cons x xs)
  have "AList.delete (f x) al = filter (\<lambda>e. fst e \<noteq> f x) al"
    by (simp add: AList.delete_eq case_prod_unfold eq_commute)
  then show ?case
    by (simp add: Cons.IH conj_commute)
qed

lemma fold_delete_keys_filter:
  "fold AList.delete ks al = filter (\<lambda>e. fst e \<notin> set ks) al"
  using fold_delete_filter [of "\<lambda>k. k" ks al] by simp

lemma clear_definitions_empty:
  "getDefinitionsByGameId (clearDefinitionsAndVotesByRound s gameId round) gameId round = []"
  by (auto simp: getDefinitionsByGameId_def clearDefinitionsAndVotesByRound_def Let_def vals_def
      fold_delete_keys_filter filter_empty_conv image_iff)

lemma clear_votes_empty:
  "getVotesByGameId (clearDefinitionsAndVotesByRound s gameId round) gameId round = []"
  by (auto simp: getVotesByGameId_def clearDefinitionsAndVotesByRound_def Let_def vals_def
      fold_delete_keys_filter filter_empty_conv image_iff)

lemma cancelRound_spec:
  assumes "getGame s gameId = Some game"
  shows "\<exists>s1. cancelRound s gameId = Inr (s1, game\<lparr>g_phase := 1, g_currentWord := Some []\<rparr>) \<and>
           getGame s1 gameId = Some (game\<lparr>g_phase := 1, g_currentWord := Some []\<rparr>) \<and>
           getDefinitionsByGameId s1 gameId (numOr (g_currentRound game) 1) = [] \<and>
           getVotesByGameId s1 gameId (numOr (g_currentRound game) 1) = []"
proof -
  let ?s0 = "clearDefinitionsAndVotesByRound s gameId (numOr (g_currentRound game) 1)"
  let ?g = "game\<lparr>g_phase := 1, g_currentWord := Some []\<rparr>"
  let ?s1 = "?s0\<lparr>games := AList.update gameId ?g (games ?s0)\<rparr>"
  have run: "cancelRound s gameId = Inr (?s1, ?g)"
    using assms by (simp add: cancelRound_def Let_def)
  have "getGame ?s1 gameId = Some ?g"
    by (simp add: getGame_def update_conv')
  moreover have "getDefinitionsByGameId ?s1 gameId (numOr (g_currentRound game) 1) = []"
    using clear_definitions_empty [of s gameId "numOr (g_currentRound game) 1"]
    by (simp add: getDefinitionsByGameId_def)
  moreover have "getVotesByGameId ?s1 gameId (numOr (g_currentRound game) 1) = []"
    using clear_votes_empty [of s gameId "numOr (g_currentRound game) 1"]
    by (simp add: getVotesByGameId_def)
  ultimately show ?thesis using run by blast
qed

lemma startNewRound_spec:
  assumes "getGame s gameId = Some game"
  shows "\<exists>s2. startNewRound s gameId =
             Inr (s2, game\<lparr>g_phase := 1, g_currentWord := Some [],
                          g_currentRound := numOr (g_currentRound game) 1 + 1\<rparr>) \<and>
           getGame s2 gameId =
             Some (game\<lparr>g_phase := 1, g_currentWord := Some [],
                        g_currentRound := numOr (g_currentRound game) 1 + 1\<rparr>) \<and>
           definitions s2 = definitions s \<and> votes s2 = votes s \<and> players s2 = players s"
  using assms by (simp add: startNewRound_def Let_def getGame_def update_conv')

lemma handleCancelRound_not_admin:
  assumes "truthyNum (c_gameId c) = Some gameId" and "truthyStr (c_sessionId c) = Some sid"
    and "getPlayerBySessionId (storage srv) sid = Some player" and "\<not> p_isAdmin player"
  shows "handleCancelRound c pl srv =
           (srv, c, [(c_ws c, ErrorMessage ''Only admins can cancel the current round.'')])"
  using assms by (simp add: handleCancelRound_def reply_def)

lemma votingStore_game: "getGame votingStore 1 = Some (game1 3)"
  by (simp add: getGame_def votingStore_def)

lemma votingStore_sessions:
  "getPlayerBySessionId votingStore ''s1'' = Some (mkPlayer 1 ''s1'' True False 0)"
  "getPlayerBySessionId votingStore ''s2'' = Some (mkPlayer 2 ''s2'' False False 0)"
  "getPlayerBySessionId votingStore ''s8'' = Some (mkPlayer 8 ''s8'' False True 0)"
  "getPlayerBySessionId votingStore ''s9'' = None"
  by (simp_all add: getPlayerBySessionId_def votingStore_def vals_def mkPlayer_def)

section \<open>C10: removePlayer and the votes it leaves dangling\<close>

lemma keysMatch_filter_by_owner:
  assumes "keysMatch idOf m"
  shows "fold (\<lambda>x. AList.delete (idOf x)) (filter (\<lambda>x. owner x = i) (vals m)) m
           = filter (\<lambda>(k, x). owner x \<noteq> i) m"
proof -
  from assms have dist: "distinct (map fst m)" and ids: "\<And>k x. (k, x) \<in> set m \<Longrightarrow> idOf x = k"
    by (auto simp: keysMatch_def list_all_iff)
  have "filter (\<lambda>e. fst e \<notin> idOf ` set (filter (\<lambda>x. owner x = i) (vals m))) m
          = filter (\<lambda>(k, x). owner x \<noteq> i) m"
  proof (rule filter_cong [OF refl])
    fix e assume e: "e \<in> set m"
    obtain k x where kx: "e = (k, x)" by (cases e)
    show "(fst e \<notin> idOf ` set (filter (\<lambda>x. owner x = i) (vals m)))
            = (case e of (k, x) \<Rightarrow> owner x \<noteq> i)"
    proof (cases "owner x = i")
      case True
      with e kx have "x \<in> set (filter (\<lambda>x. owner x = i) (vals m))"
        by (force simp: vals_def)
      moreover from e kx have "idOf x = k" by (simp add: ids)
      ultimately show ?thesis using True kx by force
    next
      case False
      have "k \<notin> idOf ` set (filter (\<lambda>x. owner x = i) (vals m))"
      proof
        assume "k \<in> idOf ` set (filter (\<lambda>x. owner x = i) (vals m))"
        then obtain k' y where y: "(k', y) \<in> set m" "owner y = i" "idOf y = k"
          by (auto simp: vals_def)
        then have "k' = k" using ids by blast
        with y e kx dist have "y = x" by (metis eq_key_imp_eq_value)
        with y False show False by simp
      qed
      with False kx show ?thesis by simp
    qed
  qed
  then show ?thesis by (simp add: fold_delete_filter)
qed

lemma removePlayer_spec:
  assumes d: "keysMatch d_id (definitions s)" and v: "keysMatch v_id (votes s)"
    and p: "getPlayer s i = Some player"
  shows "removePlayer s i =
           Inr (s\<lparr>players := AList.delete i (players s),
                  definitions := filter (\<lambda>(k, d). d_playerId d \<noteq> i) (definitions s),
                  votes := filter (\<lambda>(k, v). v_playerId v \<noteq> i) (votes s)\<rparr>)"
  using p
  by (simp add: removePlayer_def Let_def keysMatch_filter_by_owner [OF d]
      keysMatch_filter_by_owner [OF v])

lemma keysMatch_no_shared_id:
  assumes "keysMatch idOf m" and "(k, x) \<in> set m" and "(k', y) \<in> set m" and "idOf x = idOf y"
  shows "x = y"
proof -
  from assms(1) have ids: "\<And>k x. (k, x) \<in> set m \<Longrightarrow> idOf x = k"
    and dist: "distinct (map fst m)"
    by (auto simp: keysMatch_def list_all_iff)
  from ids [OF assms(2)] ids [OF assms(3)] assms(4) have "k = k'" by simp
  with assms(2,3) dist show ?thesis by (metis eq_key_imp_eq_value)
qed

text \<open>
  C10. In a store whose definitions and votes sit under their own ids, removePlayer of a
  stored player \<open>i\<close> returns the store with exactly the entry of key \<open>i\<close> deleted from the
  players, exactly the definitions written by \<open>i\<close> deleted, exactly the votes cast by \<open>i\<close>
  deleted, and the games as they were. The round-scoped vote query afterwards returns every
  vote of another player that it returned before, also the votes that name a deleted
  definition. No surviving definition carries the id such a vote names, so the vote count of
  a surviving definition is the count without those votes, and the scoring pass on the
  new store completes.
\<close>

theorem C10_removePlayer_cascade:
  assumes "keysMatch d_id (definitions s)" and "keysMatch v_id (votes s)"
    and "getPlayer s i = Some player"
  shows "\<exists>s'. removePlayer s i = Inr s' \<and>
           players s' = AList.delete i (players s) \<and>
           getPlayer s' i = None \<and>
           (\<forall>j. j \<noteq> i \<longrightarrow> getPlayer s' j = getPlayer s j) \<and>
           definitions s' = filter (\<lambda>(k, d). d_playerId d \<noteq> i) (definitions s) \<and>
           votes s' = filter (\<lambda>(k, v). v_playerId v \<noteq> i) (votes s) \<and>
           games s' = games s \<and>
           (\<forall>g r. getVotesByGameId s' g r
                    = filter (\<lambda>v. v_playerId v \<noteq> i) (getVotesByGameId s g r)) \<and>
           (\<forall>g r. \<forall>d \<in> set (vals (definitions s')).
                    voteCount (getVotesByGameId s' g r) d
                    = voteCount (filter (\<lambda>v. \<not> namesDefinitionOf s i v)
                                   (getVotesByGameId s' g r)) d) \<and>
           (\<forall>g r. \<exists>s''. scoreRound s' g r = Inr s'')"
proof -
  let ?s' = "s\<lparr>players := AList.delete i (players s),
                definitions := filter (\<lambda>(k, d). d_playerId d \<noteq> i) (definitions s),
                votes := filter (\<lambda>(k, v). v_playerId v \<noteq> i) (votes s)\<rparr>"
  have run: "removePlayer s i = Inr ?s'"
    by (rule removePlayer_spec [OF assms])
  have gone: "getPlayer ?s' i = None"
    by (simp add: getPlayer_def delete_conv')
  have kept: "\<forall>j. j \<noteq> i \<longrightarrow> getPlayer ?s' j = getPlayer s j"
    by (simp add: getPlayer_def)
  have vq: "\<forall>g r. getVotesByGameId ?s' g r
                   = filter (\<lambda>v. v_playerId v \<noteq> i) (getVotesByGameId s g r)"
    by (simp add: getVotesByGameId_def vals_def filter_map comp_def case_prod_unfold
        conj_commute)
  have cnt: "\<forall>g r. \<forall>d \<in> set (vals (definitions ?s')).
               voteCount (getVotesByGameId ?s' g r) d
               = voteCount (filter (\<lambda>v. \<not> namesDefinitionOf s i v) (getVotesByGameId ?s' g r)) d"
  proof (intro allI ballI)
    fix g r d assume "d \<in> set (vals (definitions ?s'))"
    then obtain k where k: "(k, d) \<in> set (definitions s)" and own: "d_playerId d \<noteq> i"
      by (auto simp: vals_def)
    have "\<And>v. v_definitionId v = Some (d_id d) \<Longrightarrow> \<not> namesDefinitionOf s i v"
    proof
      fix v assume m: "v_definitionId v = Some (d_id d)" and n: "namesDefinitionOf s i v"
      from n obtain k0 d0 where d0: "(k0, d0) \<in> set (definitions s)" "d_playerId d0 = i"
          "v_definitionId v = Some (d_id d0)"
        by (auto simp: namesDefinitionOf_def list_ex_iff vals_def)
      with m have "d_id d0 = d_id d" by simp
      from keysMatch_no_shared_id [OF assms(1) d0(1) k this] d0(2) own show False by simp
    qed
    then have "filter (\<lambda>v. v_definitionId v = Some (d_id d))
                 (filter (\<lambda>v. \<not> namesDefinitionOf s i v) (getVotesByGameId ?s' g r))
               = filter (\<lambda>v. v_definitionId v = Some (d_id d)) (getVotesByGameId ?s' g r)"
      by (auto simp: filter_filter intro: filter_cong)
    then show "voteCount (getVotesByGameId ?s' g r) d
               = voteCount (filter (\<lambda>v. \<not> namesDefinitionOf s i v) (getVotesByGameId ?s' g r)) d"
      by (simp add: voteCount_def)
  qed
  have sc: "\<forall>g r. \<exists>s''. scoreRound ?s' g r = Inr s''"
    using scoreRound_spec by blast
  from run gone kept vq cnt sc show ?thesis
    by (intro exI [of _ ?s']) simp
qed

lemma removalStore_wf:
  "keysMatch d_id (definitions removalStore)" "keysMatch v_id (votes removalStore)"
  "getPlayer removalStore 1 = Some (mkPlayer 1 ''s1'' True False 0)"
  by (simp_all add: keysMatch_def removalStore_def mkDefinition_def mkVote_def getPlayer_def)

theorem C10_removePlayer_cascade_witness:
  "keysMatch d_id (definitions removalStore) \<and> keysMatch v_id (votes removalStore) \<and>
   getPlayer removalStore 1 = Some (mkPlayer 1 ''s1'' True False 0) \<and>
   (\<exists>s'. removePlayer removalStore 1 = Inr s' \<and>
      map fst (players s') = [2, 3] \<and>
      vals (definitions s') = [mkDefinition 2 2 False] \<and>
      getVotesByGameId s' 1 1 = [mkVote 2 2 1, mkVote 3 3 1] \<and>
      voteCount (getVotesByGameId s' 1 1) (mkDefinition 2 2 False) = 0 \<and>
      (\<exists>s''. scoreRound s' 1 1 = Inr s''))"
proof -
  from C10_removePlayer_cascade [OF removalStore_wf] obtain s' where
    run: "removePlayer removalStore 1 = Inr s'" and
    ps: "players s' = AList.delete 1 (players removalStore)" and
    ds: "definitions s' = filter (\<lambda>(k, d). d_playerId d \<noteq> 1) (definitions removalStore)" and
    vs: "\<forall>g r. getVotesByGameId s' g r
                 = filter (\<lambda>v. v_playerId v \<noteq> 1) (getVotesByGameId removalStore g r)" and
    cnt: "\<forall>g r. \<forall>d \<in> set (vals (definitions s')).
            voteCount (getVotesByGameId s' g r) d
            = voteCount (filter (\<lambda>v. \<not> namesDefinitionOf removalStore 1 v)
                           (getVotesByGameId s' g r)) d" and
    sc: "\<forall>g r. \<exists>s''. scoreRound s' g r = Inr s''"
    by blast
  have p': "map fst (players s') = [2, 3]"
    by (simp add: ps removalStore_def AList.delete_eq)
  have d': "vals (definitions s') = [mkDefinition 2 2 False]"
    by (simp add: ds removalStore_def vals_def mkDefinition_def)
  have "getVotesByGameId s' 1 1
        = filter (\<lambda>v. v_playerId v \<noteq> 1) (getVotesByGameId removalStore 1 1)"
    using vs by blast
  also have "\<dots> = [mkVote 2 2 1, mkVote 3 3 1]"
    by (simp add: getVotesByGameId_def removalStore_def vals_def mkVote_def)
  finally have v': "getVotesByGameId s' 1 1 = [mkVote 2 2 1, mkVote 3 3 1]" .
  have "voteCount (getVotesByGameId s' 1 1) (mkDefinition 2 2 False)
        = voteCount (filter (\<lambda>v. \<not> namesDefinitionOf removalStore 1 v)
                       (getVotesByGameId s' 1 1)) (mkDefinition 2 2 False)"
    using cnt d' by simp
  also have "\<dots> = 0"
    by (simp add: v' namesDefinitionOf_def removalStore_def vals_def mkVote_def
        mkDefinition_def voteCount_def)
  finally have c': "voteCount (getVotesByGameId s' 1 1) (mkDefinition 2 2 False) = 0" .
  from run p' d' v' c' sc show ?thesis
    using removalStore_wf by simp
qed

section \<open>C9: personalised broadcast\<close>

lemma broadcastLoop_spec:
  "broadcastLoop srv gs room =
     map (\<lambda>sid. (the (map_of (connections srv) sid),
                  GameStateMessage gs (the (getPlayerBySessionId (storage srv) sid))))
       (filter (liveRecipient srv) room)"
  by (induction room) (auto simp: liveRecipient_def split: option.splits)

lemma getPlayerBySessionId_own:
  "getPlayerBySessionId s sid = Some p \<Longrightarrow> p_sessionId p = sid"
  by (auto simp: getPlayerBySessionId_def find_Some_iff)

text \<open>
  C9. A broadcast of a game state to a room sends one \<open>gameState\<close> message for each session
  of the room whose socket is registered and open and whose session id resolves to a player,
  in the order of the room, to that session's socket; all of them carry the same game state
  and each carries as \<open>currentPlayer\<close> the player found for the recipient's own session id.
  So with N such sessions exactly N messages are sent, and a session without a socket, with
  a socket that is not open, or without a player is passed over while the others are served.
\<close>

theorem C9_broadcast_personalised:
  assumes "map_of (gameRooms srv) gameId = Some room"
  shows "broadcastGameState srv gameId gs =
           map (\<lambda>sid. (the (map_of (connections srv) sid),
                        GameStateMessage gs (the (getPlayerBySessionId (storage srv) sid))))
             (filter (liveRecipient srv) room) \<and>
         length (broadcastGameState srv gameId gs) = length (filter (liveRecipient srv) room) \<and>
         (\<forall>sid \<in> set (filter (liveRecipient srv) room).
            \<exists>w p. map_of (connections srv) sid = Some w \<and> readyState srv w = OPEN \<and>
                  getPlayerBySessionId (storage srv) sid = Some p \<and> p_sessionId p = sid)"
proof -
  have run: "broadcastGameState srv gameId gs =
           map (\<lambda>sid. (the (map_of (connections srv) sid),
                        GameStateMessage gs (the (getPlayerBySessionId (storage srv) sid))))
             (filter (liveRecipient srv) room)"
    using assms by (simp add: broadcastGameState_def broadcastLoop_spec)
  have own: "\<forall>sid \<in> set (filter (liveRecipient srv) room).
            \<exists>w p. map_of (connections srv) sid = Some w \<and> readyState srv w = OPEN \<and>
                  getPlayerBySessionId (storage srv) sid = Some p \<and> p_sessionId p = sid"
    by (auto simp: liveRecipient_def getPlayerBySessionId_own split: option.splits)
  from run own show ?thesis by simp
qed

theorem C9_broadcast_personalised_witness:
  "map_of (gameRooms votingServer) 1 = Some [''s1'', ''s2'', ''s8'', ''s9''] \<and>
   filter (liveRecipient votingServer) [''s1'', ''s2'', ''s8'', ''s9''] = [''s1'', ''s2''] \<and>
   broadcastGameState votingServer 1 votingState =
     [(1, GameStateMessage votingState (mkPlayer 1 ''s1'' True False 0)),
      (2, GameStateMessage votingState (mkPlayer 2 ''s2'' False False 0))]"
proof -
  have room: "map_of (gameRooms votingServer) 1 = Some [''s1'', ''s2'', ''s8'', ''s9'']"
    by (simp add: votingServer_def)
  have live: "filter (liveRecipient votingServer) [''s1'', ''s2'', ''s8'', ''s9''] = [''s1'', ''s2'']"
    by (simp add: liveRecipient_def votingServer_def votingStore_sessions sockets_def OPEN_def)
  from C9_broadcast_personalised [OF room, of votingState]
  have "broadcastGameState votingServer 1 votingState =
           map (\<lambda>sid. (the (map_of (connections votingServer) sid),
                        GameStateMessage votingState
                          (the (getPlayerBySessionId (storage votingServer) sid))))
             (filter (liveRecipient votingServer) [''s1'', ''s2'', ''s8'', ''s9''])"
    by blast
  also have "\<dots> = [(1, GameStateMessage votingState (mkPlayer 1 ''s1'' True False 0)),
      (2, GameStateMessage votingState (mkPlayer 2 ''s2'' False False 0))]"
    unfolding live by (simp add: votingServer_def votingStore_sessions)
  finally show ?thesis using room live by simp
qed

section \<open>The router, command by command\<close>

lemma stateAndBroadcast_state:
  "fst (stateAndBroadcast srv c gameId round) = srv"
  "fst (snd (stateAndBroadcast srv c gameId round)) = c"
  by (simp_all add: stateAndBroadcast_def caught_def split: sum.splits)

lemma stateAndBroadcast_sent:
  assumes "getGame (storage srv) gameId = Some game"
  shows "\<exists>gameState. stateAndBroadcast srv c gameId round =
           (srv, c, broadcastGameState srv gameId gameState)"
  using assms by (auto simp: stateAndBroadcast_def getGameState_def Let_def)

lemma handleSubmitWord_accepted:
  assumes "truthyNum (c_gameId c) = Some gameId" and "truthyStr (c_sessionId c) = Some sid"
    and "getPlayerBySessionId (storage srv) sid = Some player" and "\<not> isSpectatorPlayer player"
    and "getGame (storage srv) gameId = Some game"
    and "truthyStr (pl_word pl) = Some w" and "trim w \<noteq> []"
  shows "getGame (storage (fst (handleSubmitWord c pl srv))) gameId
           = Some (game\<lparr>g_currentWord := Some (trim w), g_phase := 2\<rparr>)"
  using assms
  by (simp add: handleSubmitWord_def updateGameWord_def updateGamePhase_def Let_def getGame_def
      update_conv' stateAndBroadcast_state)

lemma handleEndSubmissions_accepted:
  assumes "truthyNum (c_gameId c) = Some gameId" and "truthyStr (c_sessionId c) = Some sid"
    and "getPlayerBySessionId (storage srv) sid = Some player" and "\<not> isSpectatorPlayer player"
    and "getGame (storage srv) gameId = Some game"
  shows "getGame (storage (fst (handleEndSubmissions c pl srv))) gameId
           = Some (game\<lparr>g_phase := 3\<rparr>)"
  using assms
  by (simp add: handleEndSubmissions_def updateGamePhase_def Let_def getGame_def
      update_conv' stateAndBroadcast_state)

lemma handleEndVoting_accepted:
  assumes "truthyNum (c_gameId c) = Some gameId" and "truthyStr (c_sessionId c) = Some sid"
    and "getPlayerBySessionId (storage srv) sid = Some player" and "\<not> isSpectatorPlayer player"
    and "getGame (storage srv) gameId = Some game"
  shows "\<exists>st2. scoreRound ((storage srv)\<lparr>games := AList.update gameId (game\<lparr>g_phase := 4\<rparr>)
                                             (games (storage srv))\<rparr>)
                 gameId (optNumOr (pl_round pl) 1) = Inr st2 \<and>
           storage (fst (handleEndVoting c pl srv)) = st2"
proof -
  let ?st1 = "(storage srv)\<lparr>games := AList.update gameId (game\<lparr>g_phase := 4\<rparr>)
                                        (games (storage srv))\<rparr>"
  from scoreRound_spec [of ?st1 gameId "optNumOr (pl_round pl) 1"] obtain st2 where
    "scoreRound ?st1 gameId (optNumOr (pl_round pl) 1) = Inr st2" by blast
  with assms show ?thesis
    by (simp add: handleEndVoting_def updateGamePhase_def Let_def stateAndBroadcast_state)
qed

lemma handleEndVoting_phase:
  assumes "truthyNum (c_gameId c) = Some gameId" and "truthyStr (c_sessionId c) = Some sid"
    and "getPlayerBySessionId (storage srv) sid = Some player" and "\<not> isSpectatorPlayer player"
    and "getGame (storage srv) gameId = Some game"
  shows "getGame (storage (fst (handleEndVoting c pl srv))) gameId = Some (game\<lparr>g_phase := 4\<rparr>)"
proof -
  let ?st1 = "(storage srv)\<lparr>games := AList.update gameId (game\<lparr>g_phase := 4\<rparr>)
                                        (games (storage srv))\<rparr>"
  from handleEndVoting_accepted [OF assms] obtain st2 where
    r: "scoreRound ?st1 gameId (optNumOr (pl_round pl) 1) = Inr st2" and
    s: "storage (fst (handleEndVoting c pl srv)) = st2" by blast
  from scoreRound_spec [of ?st1 gameId "optNumOr (pl_round pl) 1"] r
  have "games st2 = games ?st1" by auto
  then show ?thesis by (simp add: s getGame_def update_conv')
qed

lemma handleNewRound_accepted:
  assumes "truthyNum (c_gameId c) = Some gameId" and "truthyStr (c_sessionId c) = Some sid"
    and "getPlayerBySessionId (storage srv) sid = Some player" and "\<not> isSpectatorPlayer player"
    and "getGame (storage srv) gameId = Some game"
  shows "getGame (storage (fst (handleNewRound c pl srv))) gameId
           = Some (game\<lparr>g_phase := 1, g_currentWord := Some [],
                        g_currentRound := numOr (g_currentRound game) 1 + 1\<rparr>)"
  using assms
  by (simp add: handleNewRound_def startNewRound_def Let_def getGame_def
      update_conv' stateAndBroadcast_state)

section \<open>C2: the source phase of a transition\<close>

lemma votingServer_sender:
  "truthyNum (c_gameId (conn w ''s1'' 1)) = Some 1"
  "truthyStr (c_sessionId (conn w ''s1'' 1)) = Some ''s1''"
  "getPlayerBySessionId (storage votingServer) ''s1'' = Some (mkPlayer 1 ''s1'' True False 0)"
  "\<not> isSpectatorPlayer (mkPlayer 1 ''s1'' True False 0)"
  "getGame (storage votingServer) 1 = Some (game1 3)"
  by (simp_all add: conn_def truthyNum_def truthyStr_def votingServer_def votingStore_sessions
      votingStore_game isSpectatorPlayer_def mkPlayer_def SPECTATOR_def PLAYER_def)

lemma wordPayload_word:
  "truthyStr (pl_word wordPayload) = Some (utf16 ''quux'')"
  "trim (utf16 ''quux'') = utf16 ''quux''"
  "utf16 ''quux'' \<noteq> []"
  by (simp_all add: wordPayload_def emptyPayload_def truthyStr_def trim_def isWhitespace_def
      utf16_def)

lemma nbspPayload_word:
  "truthyStr (pl_word nbspPayload) = Some [0x00A0, 0x2028, 0xFEFF]"
  "trim [0x00A0, 0x2028, 0xFEFF] = []"
  by (simp_all add: nbspPayload_def emptyPayload_def truthyStr_def trim_def isWhitespace_def)

lemma handleSubmitWord_blank:
  assumes "truthyNum (c_gameId c) = Some gameId" and "truthyStr (c_sessionId c) = Some sid"
    and "getPlayerBySessionId (storage srv) sid = Some player" and "\<not> isSpectatorPlayer player"
    and "truthyStr (pl_word pl) = None \<or> (\<exists>w. truthyStr (pl_word pl) = Some w \<and> trim w = [])"
  shows "handleSubmitWord c pl srv =
           (srv, c, [(c_ws c, ErrorMessage ''Please enter a valid word.'')])"
  using assms by (auto simp: handleSubmitWord_def reply_def)

text \<open>
  C2, as stated, fails: the game of \<open>votingServer\<close> is in the Voting phase (3), not in
  WordEntry (1), and a submitWord command of player 1 moves it to the Definition phase (2).
\<close>

theorem C2_source_phase_counterexample:
  "getGame (storage votingServer) 1 = Some (game1 3) \<and> g_phase (game1 3) = 3 \<and>
   map_option g_phase
     (getGame (storage (fst (handleMessage ''7'' (conn 1 ''s1'' 1)
                               \<lparr>m_type = ''submitWord'', m_payload = wordPayload\<rparr>
                               votingServer))) 1) = Some 2"
proof -
  have "handleMessage ''7'' (conn 1 ''s1'' 1)
          \<lparr>m_type = ''submitWord'', m_payload = wordPayload\<rparr> votingServer
        = handleSubmitWord (conn 1 ''s1'' 1) wordPayload votingServer"
    by (simp add: handleMessage_def)
  moreover have "getGame (storage (fst (handleSubmitWord (conn 1 ''s1'' 1) wordPayload
                                          votingServer))) 1
                 = Some (game1 3\<lparr>g_currentWord := Some (trim (utf16 ''quux'')), g_phase := 2\<rparr>)"
    by (rule handleSubmitWord_accepted [OF votingServer_sender wordPayload_word(1)])
       (simp add: wordPayload_word)
  ultimately show ?thesis
    by (simp add: votingServer_sender game1_def)
qed

text \<open>
  C2, amended. The router checks no phase. When the sender's session resolves to a player who
  is not a spectator and the game of the connection exists, then from whatever phase the
  game is in: submitWord with a word that is not blank stores the trimmed word and sets the
  phase to Definition (2), while a word that is missing, empty or white space only (in the
  sense of \<open>String.prototype.trim\<close>) is refused with an error and nothing changes;
  endSubmissions sets the phase to Voting (3); endVoting sets it to Results (4); newRound
  sets it to WordEntry (1), empties the word and advances the round.
\<close>

theorem C2_transitions_from_any_phase:
  assumes "truthyNum (c_gameId c) = Some gameId" and "truthyStr (c_sessionId c) = Some sid"
    and "getPlayerBySessionId (storage srv) sid = Some player" and "\<not> isSpectatorPlayer player"
    and "getGame (storage srv) gameId = Some game"
  shows "(\<forall>w. truthyStr (pl_word pl) = Some w \<and> trim w \<noteq> [] \<longrightarrow>
            getGame (storage (fst (handleSubmitWord c pl srv))) gameId
              = Some (game\<lparr>g_currentWord := Some (trim w), g_phase := 2\<rparr>)) \<and>
         (truthyStr (pl_word pl) = None \<or>
            (\<exists>w. truthyStr (pl_word pl) = Some w \<and> trim w = []) \<longrightarrow>
            handleSubmitWord c pl srv =
              (srv, c, [(c_ws c, ErrorMessage ''Please enter a valid word.'')])) \<and>
         getGame (storage (fst (handleEndSubmissions c pl srv))) gameId
           = Some (game\<lparr>g_phase := 3\<rparr>) \<and>
         getGame (storage (fst (handleEndVoting c pl srv))) gameId
           = Some (game\<lparr>g_phase := 4\<rparr>) \<and>
         getGame (storage (fst (handleNewRound c pl srv))) gameId
           = Some (game\<lparr>g_phase := 1, g_currentWord := Some [],
                        g_currentRound := numOr (g_currentRound game) 1 + 1\<rparr>)"
  using handleSubmitWord_accepted [OF assms] handleSubmitWord_blank [OF assms(1-4)]
    handleEndSubmissions_accepted [OF assms]
    handleEndVoting_phase [OF assms] handleNewRound_accepted [OF assms]
  by blast

theorem C2_transitions_from_any_phase_witness:
  "g_phase (game1 3) = 3 \<and>
   getGame (storage (fst (handleSubmitWord (conn 1 ''s1'' 1) wordPayload votingServer))) 1
     = Some (game1 2\<lparr>g_currentWord := Some (utf16 ''quux'')\<rparr>) \<and>
   trim [0x00A0, 0x2028, 0xFEFF] = [] \<and>
   handleSubmitWord (conn 1 ''s1'' 1) nbspPayload votingServer
     = (votingServer, conn 1 ''s1'' 1, [(1, ErrorMessage ''Please enter a valid word.'')]) \<and>
   getGame (storage (fst (handleEndSubmissions (conn 1 ''s1'' 1) wordPayload votingServer))) 1
     = Some (game1 3) \<and>
   getGame (storage (fst (handleEndVoting (conn 1 ''s1'' 1) wordPayload votingServer))) 1
     = Some (game1 4) \<and>
   getGame (storage (fst (handleNewRound (conn 1 ''s1'' 1) wordPayload votingServer))) 1
     = Some (game1 1\<lparr>g_currentWord := Some [], g_currentRound := 2\<rparr>)"
proof -
  note c2 = C2_transitions_from_any_phase [OF votingServer_sender(1) [of 1]
      votingServer_sender(2) [of 1] votingServer_sender(3,4,5), where pl = wordPayload]
  note c2n = C2_transitions_from_any_phase [OF votingServer_sender(1) [of 1]
      votingServer_sender(2) [of 1] votingServer_sender(3,4,5), where pl = nbspPayload]
  from c2 wordPayload_word
  have word: "getGame (storage (fst (handleSubmitWord (conn 1 ''s1'' 1) wordPayload
                                       votingServer))) 1
          = Some (game1 3\<lparr>g_currentWord := Some (trim (utf16 ''quux'')), g_phase := 2\<rparr>)"
    by simp
  from c2n nbspPayload_word
  have "handleSubmitWord (conn 1 ''s1'' 1) nbspPayload votingServer
     = (votingServer, conn 1 ''s1'' 1,
        [(c_ws (conn 1 ''s1'' 1), ErrorMessage ''Please enter a valid word.'')])"
    by blast
  then have blank: "handleSubmitWord (conn 1 ''s1'' 1) nbspPayload votingServer
     = (votingServer, conn 1 ''s1'' 1, [(1, ErrorMessage ''Please enter a valid word.'')])"
    by (simp add: conn_def)
  from c2 word blank nbspPayload_word(2) show ?thesis
    by (simp add: game1_def wordPayload_word numOr_def)
qed

section \<open>What a message can do to the tables\<close>

lemma joinRoom_storage: "storage (joinRoom srv gameId sid) = storage srv"
  by (simp add: joinRoom_def Let_def)

lemma handleJoin_storage:
  "storage (fst (handleJoin r c pl srv)) = storage srv \<or>
   (\<exists>gameId sid game.
      truthyNum (pl_gameId pl) = Some gameId \<and> truthyStr (pl_sessionId pl) = Some sid \<and>
      getGame (storage srv) gameId = Some game \<and>
      storage (fst (handleJoin r c pl srv)) = fst (joinPlayer r pl (storage srv) gameId sid))"
proof (cases "truthyNum (pl_gameId pl)")
  case None
  then show ?thesis by (simp add: handleJoin_def Let_def split: option.splits)
next
  case g: (Some gameId)
  show ?thesis
  proof (cases "truthyStr (pl_sessionId pl)")
    case None
    with g show ?thesis by (simp add: handleJoin_def Let_def)
  next
    case s: (Some sid)
    show ?thesis
    proof (cases "getGame (storage srv) gameId")
      case None
      with g s show ?thesis by (simp add: handleJoin_def Let_def joinRoom_storage)
    next
      case (Some game)
      with g s show ?thesis
        by (simp add: handleJoin_def Let_def joinRoom_storage caught_def split: sum.splits)
    qed
  qed
qed

lemma joinPlayer_tables:
  "definitions (fst (joinPlayer r pl st g sid)) = definitions st"
  "votes (fst (joinPlayer r pl st g sid)) = votes st"
  "games (fst (joinPlayer r pl st g sid)) = games st"
  by (simp_all add: joinPlayer_def createPlayer_def Let_def split: option.splits)

lemma handleJoin_tables:
  "definitions (storage (fst (handleJoin r c pl srv))) = definitions (storage srv) \<and>
   votes (storage (fst (handleJoin r c pl srv))) = votes (storage srv)"
  using handleJoin_storage [of r c pl srv] by (auto simp: joinPlayer_tables)

lemma removePlayer_tables:
  assumes "removePlayer st i = Inr st1"
  shows "\<exists>P Q. definitions st1 = filter P (definitions st) \<and> votes st1 = filter Q (votes st)"
  using assms
  by (auto simp: removePlayer_def Let_def fold_delete_filter split: option.splits)

lemma cancelRound_tables:
  assumes "cancelRound st g = Inr (st1, ug)"
  shows "\<exists>P Q. definitions st1 = filter P (definitions st) \<and> votes st1 = filter Q (votes st)"
  using assms
  by (auto simp: cancelRound_def clearDefinitionsAndVotesByRound_def Let_def
      fold_delete_keys_filter split: option.splits)

lemma filter_True_tables:
  "\<exists>P Q. definitions st = filter P (definitions st) \<and> votes st = filter Q (votes st)"
  by (intro exI [of _ "\<lambda>_. True"]) simp

lemma handleRemovePlayer_tables:
  "\<exists>P Q. definitions (storage (fst (handleRemovePlayer c pl srv)))
            = filter P (definitions (storage srv)) \<and>
          votes (storage (fst (handleRemovePlayer c pl srv))) = filter Q (votes (storage srv))"
  using filter_True_tables [of "storage srv"] removePlayer_tables [of "storage srv"]
  by (auto simp: handleRemovePlayer_def reply_def caught_def stateAndBroadcast_state
      split: option.splits sum.splits)

lemma handleCancelRound_tables:
  "\<exists>P Q. definitions (storage (fst (handleCancelRound c pl srv)))
            = filter P (definitions (storage srv)) \<and>
          votes (storage (fst (handleCancelRound c pl srv))) = filter Q (votes (storage srv))"
  using filter_True_tables [of "storage srv"] cancelRound_tables [of "storage srv"]
  by (auto simp: handleCancelRound_def reply_def caught_def stateAndBroadcast_state
      split: option.splits sum.splits)

lemma handleSubmitWord_tables:
  "definitions (storage (fst (handleSubmitWord c pl srv))) = definitions (storage srv) \<and>
   votes (storage (fst (handleSubmitWord c pl srv))) = votes (storage srv)"
  by (auto simp: handleSubmitWord_def reply_def caught_def stateAndBroadcast_state
      updateGameWord_def updateGamePhase_def Let_def getGame_def
      split: option.splits sum.splits prod.splits)

lemma handleEndSubmissions_tables:
  "definitions (storage (fst (handleEndSubmissions c pl srv))) = definitions (storage srv) \<and>
   votes (storage (fst (handleEndSubmissions c pl srv))) = votes (storage srv)"
  by (auto simp: handleEndSubmissions_def reply_def caught_def stateAndBroadcast_state
      updateGamePhase_def Let_def getGame_def
      split: option.splits sum.splits prod.splits)

lemma handleNewRound_tables:
  "definitions (storage (fst (handleNewRound c pl srv))) = definitions (storage srv) \<and>
   votes (storage (fst (handleNewRound c pl srv))) = votes (storage srv)"
  by (auto simp: handleNewRound_def reply_def caught_def stateAndBroadcast_state
      startNewRound_def Let_def getGame_def
      split: option.splits sum.splits prod.splits)

lemma handleAwardBonus_tables:
  "definitions (storage (fst (handleAwardBonus c pl srv))) = definitions (storage srv) \<and>
   votes (storage (fst (handleAwardBonus c pl srv))) = votes (storage srv)"
  by (auto simp: handleAwardBonus_def reply_def caught_def stateAndBroadcast_state
      updatePlayerScore_def Let_def getPlayer_def
      split: option.splits sum.splits prod.splits)

lemma scoreRound_frame:
  assumes "scoreRound st g r = Inr st2"
  shows "definitions st2 = definitions st \<and> votes st2 = votes st \<and> games st2 = games st"
  using scoreRound_spec [of st g r] assms by auto

lemma handleEndVoting_tables:
  "definitions (storage (fst (handleEndVoting c pl srv))) = definitions (storage srv) \<and>
   votes (storage (fst (handleEndVoting c pl srv))) = votes (storage srv)"
  by (auto simp: handleEndVoting_def reply_def caught_def stateAndBroadcast_state
      updateGamePhase_def Let_def getGame_def dest!: scoreRound_frame
      split: option.splits sum.splits prod.splits)

lemma handleSubmitDefinition_duplicate:
  assumes "truthyNum (c_gameId c) = Some gameId" and "truthyStr (c_sessionId c) = Some sid"
    and "getPlayerBySessionId (storage srv) sid = Some player"
    and "list_ex (\<lambda>d. d_playerId d = p_id player)
           (getDefinitionsByGameId (storage srv) gameId (optNumOr (pl_round pl) 1))"
  shows "handleSubmitDefinition c pl srv =
           (srv, c, [(c_ws c, ErrorMessage
              (if isSpectatorPlayer player then ''Spectators cannot submit definitions.''
               else ''You have already submitted a definition for this round.''))])"
  using assms by (simp add: handleSubmitDefinition_def reply_def Let_def)

lemma handleSubmitVote_duplicate:
  assumes "truthyNum (c_gameId c) = Some gameId" and "truthyStr (c_sessionId c) = Some sid"
    and "getPlayerBySessionId (storage srv) sid = Some player"
    and "list_ex (\<lambda>v. v_playerId v = p_id player)
           (getVotesByGameId (storage srv) gameId (optNumOr (pl_round pl) 1))"
  shows "handleSubmitVote c pl srv =
           (srv, c, [(c_ws c, ErrorMessage
              (if isSpectatorPlayer player then ''Spectators cannot vote.''
               else ''You have already voted for this round.''))])"
  using assms by (simp add: handleSubmitVote_def reply_def Let_def)

lemma handleSubmitDefinition_storage:
  "storage (fst (handleSubmitDefinition c pl srv)) = storage srv \<or>
   (\<exists>gameId sid player.
      truthyNum (c_gameId c) = Some gameId \<and> truthyStr (c_sessionId c) = Some sid \<and>
      getPlayerBySessionId (storage srv) sid = Some player \<and> \<not> isSpectatorPlayer player \<and>
      \<not> list_ex (\<lambda>d. d_playerId d = p_id player)
           (getDefinitionsByGameId (storage srv) gameId (optNumOr (pl_round pl) 1)) \<and>
      storage (fst (handleSubmitDefinition c pl srv)) =
        fst (createDefinition (storage srv)
               \<lparr>id_gameId = gameId, id_playerId = p_id player, id_text = pl_text pl,
                id_isCorrect = Some (pl_isCorrect pl = Some True),
                id_round = Some (optNumOr (pl_round pl) 1)\<rparr>))"
  by (auto simp: handleSubmitDefinition_def reply_def Let_def stateAndBroadcast_state
      split: option.splits prod.splits)

lemma handleSubmitVote_storage:
  "storage (fst (handleSubmitVote c pl srv)) = storage srv \<or>
   (\<exists>gameId sid player.
      truthyNum (c_gameId c) = Some gameId \<and> truthyStr (c_sessionId c) = Some sid \<and>
      getPlayerBySessionId (storage srv) sid = Some player \<and> \<not> isSpectatorPlayer player \<and>
      \<not> list_ex (\<lambda>v. v_playerId v = p_id player)
           (getVotesByGameId (storage srv) gameId (optNumOr (pl_round pl) 1)) \<and>
      storage (fst (handleSubmitVote c pl srv)) =
        fst (createVote (storage srv)
               \<lparr>iv_gameId = gameId, iv_playerId = p_id player,
                iv_definitionId = pl_definitionId pl,
                iv_round = Some (optNumOr (pl_round pl) 1)\<rparr>))"
  by (auto simp: handleSubmitVote_def reply_def Let_def stateAndBroadcast_state
      split: option.splits prod.splits)

lemma set_update_subset: "set (AList.update k v al) \<subseteq> insert (k, v) (set al)"
  by (induction al) auto

lemma distinct_update_fresh:
  assumes "distinct (map (f \<circ> snd) al)" and "f v \<notin> f ` snd ` set al"
  shows "distinct (map (f \<circ> snd) (AList.update k v al))"
  using assms
proof (induction al)
  case Nil
  show ?case by simp
next
  case (Cons p ps)
  show ?case
  proof (cases "fst p = k")
    case True
    with Cons.prems show ?thesis by (auto simp: image_iff)
  next
    case False
    from Cons.prems have ih: "distinct (map (f \<circ> snd) (AList.update k v ps))"
      by (intro Cons.IH) auto
    have "f (snd p) \<notin> f ` snd ` set (AList.update k v ps)"
    proof
      assume "f (snd p) \<in> f ` snd ` set (AList.update k v ps)"
      then obtain e where e: "e \<in> set (AList.update k v ps)" "f (snd p) = f (snd e)" by auto
      with set_update_subset [of k v ps] have "e = (k, v) \<or> e \<in> set ps" by auto
      with e Cons.prems show False by (auto simp: image_iff)
    qed
    with ih False show ?thesis by (simp add: image_iff comp_def)
  qed
qed

lemma optNumOr_idem: "optNumOr (Some (optNumOr x 1)) 1 = optNumOr x 1"
  by (simp add: optNumOr_def numOr_def split: option.splits)

lemma handleSubmitDefinition_one:
  assumes "oneDefinitionPer (storage srv)"
  shows "oneDefinitionPer (storage (fst (handleSubmitDefinition c pl srv)))"
  using handleSubmitDefinition_storage [of c pl srv]
proof (elim disjE exE conjE)
  assume "storage (fst (handleSubmitDefinition c pl srv)) = storage srv"
  with assms show ?thesis by simp
next
  fix gameId sid player
  assume fresh: "\<not> list_ex (\<lambda>d. d_playerId d = p_id player)
           (getDefinitionsByGameId (storage srv) gameId (optNumOr (pl_round pl) 1))"
    and st: "storage (fst (handleSubmitDefinition c pl srv)) =
        fst (createDefinition (storage srv)
               \<lparr>id_gameId = gameId, id_playerId = p_id player, id_text = pl_text pl,
                id_isCorrect = Some (pl_isCorrect pl = Some True),
                id_round = Some (optNumOr (pl_round pl) 1)\<rparr>)"
  let ?f = "\<lambda>d. (d_gameId d, d_playerId d, d_round d)"
  let ?new = "\<lparr>d_id = definitionIdCounter (storage srv), d_gameId = gameId,
               d_playerId = p_id player, d_round = optNumOr (pl_round pl) 1,
               d_text = pl_text pl, d_isCorrect = (pl_isCorrect pl = Some True)\<rparr>"
  from fresh have "?f ?new \<notin> ?f ` snd ` set (definitions (storage srv))"
    by (auto simp: list_ex_iff getDefinitionsByGameId_def vals_def)
  moreover from assms have "distinct (map (?f \<circ> snd) (definitions (storage srv)))"
    by (simp add: oneDefinitionPer_def vals_def)
  ultimately have "distinct (map (?f \<circ> snd)
      (AList.update (definitionIdCounter (storage srv)) ?new (definitions (storage srv))))"
    by (rule distinct_update_fresh [rotated])
  then show ?thesis
    unfolding st oneDefinitionPer_def vals_def
    by (simp add: createDefinition_def Let_def)
qed

lemma handleSubmitVote_one:
  assumes "oneVotePer (storage srv)"
  shows "oneVotePer (storage (fst (handleSubmitVote c pl srv)))"
  using handleSubmitVote_storage [of c pl srv]
proof (elim disjE exE conjE)
  assume "storage (fst (handleSubmitVote c pl srv)) = storage srv"
  with assms show ?thesis by simp
next
  fix gameId sid player
  assume fresh: "\<not> list_ex (\<lambda>v. v_playerId v = p_id player)
           (getVotesByGameId (storage srv) gameId (optNumOr (pl_round pl) 1))"
    and st: "storage (fst (handleSubmitVote c pl srv)) =
        fst (createVote (storage srv)
               \<lparr>iv_gameId = gameId, iv_playerId = p_id player,
                iv_definitionId = pl_definitionId pl,
                iv_round = Some (optNumOr (pl_round pl) 1)\<rparr>)"
  let ?f = "\<lambda>v. (v_gameId v, v_playerId v, v_round v)"
  let ?new = "\<lparr>v_id = voteIdCounter (storage srv), v_gameId = gameId,
               v_playerId = p_id player, v_definitionId = pl_definitionId pl,
               v_round = optNumOr (pl_round pl) 1\<rparr>"
  from fresh have "?f ?new \<notin> ?f ` snd ` set (votes (storage srv))"
    by (auto simp: list_ex_iff getVotesByGameId_def vals_def)
  moreover from assms have "distinct (map (?f \<circ> snd) (votes (storage srv)))"
    by (simp add: oneVotePer_def vals_def)
  ultimately have "distinct (map (?f \<circ> snd)
      (AList.update (voteIdCounter (storage srv)) ?new (votes (storage srv))))"
    by (rule distinct_update_fresh [rotated])
  then show ?thesis
    unfolding st oneVotePer_def vals_def
    by (simp add: createVote_def Let_def optNumOr_idem)
qed

lemma handleSubmitDefinition_votes:
  "votes (storage (fst (handleSubmitDefinition c pl srv))) = votes (storage srv)"
  using handleSubmitDefinition_storage [of c pl srv]
  by (auto simp: createDefinition_def Let_def)

lemma handleSubmitVote_definitions:
  "definitions (storage (fst (handleSubmitVote c pl srv))) = definitions (storage srv)"
  using handleSubmitVote_storage [of c pl srv]
  by (auto simp: createVote_def Let_def)

lemma oneDefinitionPer_filter:
  assumes "oneDefinitionPer st" and "definitions st' = filter P (definitions st)"
  shows "oneDefinitionPer st'"
  using assms by (simp add: oneDefinitionPer_def vals_def distinct_map_filter)

lemma oneVotePer_filter:
  assumes "oneVotePer st" and "votes st' = filter Q (votes st)"
  shows "oneVotePer st'"
  using assms by (simp add: oneVotePer_def vals_def distinct_map_filter)

lemma handleMessage_one:
  assumes "oneDefinitionPer (storage srv)" and "oneVotePer (storage srv)"
  shows "oneDefinitionPer (storage (fst (handleMessage r c m srv))) \<and>
         oneVotePer (storage (fst (handleMessage r c m srv)))"
proof -
  have same: "\<And>st'. definitions st' = definitions (storage srv) \<and> votes st' = votes (storage srv)
                \<Longrightarrow> oneDefinitionPer st' \<and> oneVotePer st'"
    using assms by (simp add: oneDefinitionPer_def oneVotePer_def)
  have less: "\<And>st'. \<exists>P Q. definitions st' = filter P (definitions (storage srv)) \<and>
                           votes st' = filter Q (votes (storage srv))
                \<Longrightarrow> oneDefinitionPer st' \<and> oneVotePer st'"
    using assms oneDefinitionPer_filter oneVotePer_filter by blast
  have d: "oneDefinitionPer (storage (fst (handleSubmitDefinition c (m_payload m) srv))) \<and>
           oneVotePer (storage (fst (handleSubmitDefinition c (m_payload m) srv)))"
    using assms handleSubmitDefinition_one [of srv c "m_payload m"]
    by (simp add: oneVotePer_def handleSubmitDefinition_votes)
  have v: "oneDefinitionPer (storage (fst (handleSubmitVote c (m_payload m) srv))) \<and>
           oneVotePer (storage (fst (handleSubmitVote c (m_payload m) srv)))"
    using assms handleSubmitVote_one [of srv c "m_payload m"]
    by (simp add: oneDefinitionPer_def handleSubmitVote_definitions)
  show ?thesis
    unfolding handleMessage_def Let_def
    using assms d v
      same [OF handleJoin_tables] less [OF handleRemovePlayer_tables]
      same [OF handleSubmitWord_tables] same [OF handleEndSubmissions_tables]
      same [OF handleEndVoting_tables] same [OF handleNewRound_tables]
      less [OF handleCancelRound_tables] same [OF handleAwardBonus_tables]
    by simp
qed

section \<open>C5: a second definition or vote of the same player and round\<close>

text \<open>
  C5. When the sender's session resolves to a player who already has a definition
  (respectively a vote) stored for the connection's game and the round of the command,
  submitDefinition (respectively submitVote) changes nothing on the server and sends the
  sender one error message: "You have already submitted a definition for this round."
  (respectively "You have already voted for this round."), or the spectator refusal when the
  player is a spectator. And no message of any type breaks the rule of one definition and
  one vote per (gameId, playerId, round): a store that satisfies it before the message
  satisfies it afterwards.
\<close>

theorem C5_duplicates_rejected:
  assumes "truthyNum (c_gameId c) = Some gameId" and "truthyStr (c_sessionId c) = Some sid"
    and "getPlayerBySessionId (storage srv) sid = Some player"
  shows "(list_ex (\<lambda>d. d_playerId d = p_id player)
            (getDefinitionsByGameId (storage srv) gameId (optNumOr (pl_round pl) 1)) \<longrightarrow>
          handleSubmitDefinition c pl srv =
            (srv, c, [(c_ws c, ErrorMessage
               (if isSpectatorPlayer player then ''Spectators cannot submit definitions.''
                else ''You have already submitted a definition for this round.''))])) \<and>
         (list_ex (\<lambda>v. v_playerId v = p_id player)
            (getVotesByGameId (storage srv) gameId (optNumOr (pl_round pl) 1)) \<longrightarrow>
          handleSubmitVote c pl srv =
            (srv, c, [(c_ws c, ErrorMessage
               (if isSpectatorPlayer player then ''Spectators cannot vote.''
                else ''You have already voted for this round.''))])) \<and>
         (\<forall>r c' m srv'.
            oneDefinitionPer (storage srv') \<and> oneVotePer (storage srv') \<longrightarrow>
            oneDefinitionPer (storage (fst (handleMessage r c' m srv'))) \<and>
            oneVotePer (storage (fst (handleMessage r c' m srv'))))"
  using handleSubmitDefinition_duplicate [OF assms] handleSubmitVote_duplicate [OF assms]
    handleMessage_one
  by blast

lemma votingStore_one: "oneDefinitionPer votingStore" "oneVotePer votingStore"
  by (simp_all add: oneDefinitionPer_def oneVotePer_def votingStore_def vals_def
      mkDefinition_def mkVote_def)

lemma votingServer_sender2:
  "truthyNum (c_gameId (conn w ''s2'' 1)) = Some 1"
  "truthyStr (c_sessionId (conn w ''s2'' 1)) = Some ''s2''"
  "getPlayerBySessionId (storage votingServer) ''s2'' = Some (mkPlayer 2 ''s2'' False False 0)"
  by (simp_all add: conn_def truthyNum_def truthyStr_def votingServer_def votingStore_sessions)

theorem C5_duplicates_rejected_witness:
  "handleSubmitDefinition (conn 1 ''s1'' 1) emptyPayload votingServer =
     (votingServer, conn 1 ''s1'' 1,
      [(1, ErrorMessage ''You have already submitted a definition for this round.'')]) \<and>
   handleSubmitVote (conn 2 ''s2'' 1) emptyPayload votingServer =
     (votingServer, conn 2 ''s2'' 1,
      [(2, ErrorMessage ''You have already voted for this round.'')]) \<and>
   oneDefinitionPer (storage votingServer) \<and> oneVotePer (storage votingServer) \<and>
   oneDefinitionPer (storage (fst (handleMessage ''7'' (conn 2 ''s2'' 1)
       \<lparr>m_type = ''submitDefinition'', m_payload = emptyPayload\<rparr> votingServer))) \<and>
   oneVotePer (storage (fst (handleMessage ''7'' (conn 2 ''s2'' 1)
       \<lparr>m_type = ''submitDefinition'', m_payload = emptyPayload\<rparr> votingServer)))"
proof -
  have r: "optNumOr (pl_round emptyPayload) 1 = 1"
    by (simp add: emptyPayload_def optNumOr_def)
  have d1: "list_ex (\<lambda>d. d_playerId d = p_id (mkPlayer 1 ''s1'' True False 0))
              (getDefinitionsByGameId (storage votingServer) 1
                 (optNumOr (pl_round emptyPayload) 1))"
    unfolding r
    by (simp add: votingServer_def votingStore_def getDefinitionsByGameId_def vals_def
        mkDefinition_def mkPlayer_def)
  have v2: "list_ex (\<lambda>v. v_playerId v = p_id (mkPlayer 2 ''s2'' False False 0))
              (getVotesByGameId (storage votingServer) 1 (optNumOr (pl_round emptyPayload) 1))"
    unfolding r
    by (simp add: votingServer_def votingStore_def getVotesByGameId_def vals_def
        mkVote_def mkPlayer_def)
  have inv: "oneDefinitionPer (storage votingServer) \<and> oneVotePer (storage votingServer)"
    by (simp add: votingServer_def votingStore_one)
  have ns: "\<not> isSpectatorPlayer (mkPlayer 1 ''s1'' True False 0)"
    "\<not> isSpectatorPlayer (mkPlayer 2 ''s2'' False False 0)"
    by (simp_all add: isSpectatorPlayer_def mkPlayer_def SPECTATOR_def PLAYER_def)
  have w: "c_ws (conn 1 ''s1'' 1) = 1" "c_ws (conn 2 ''s2'' 1) = 2"
    by (simp_all add: conn_def)
  note one = C5_duplicates_rejected [OF votingServer_sender(1) [of 1]
      votingServer_sender(2) [of 1] votingServer_sender(3), where pl = emptyPayload]
  note two = C5_duplicates_rejected [OF votingServer_sender2(1) [of 2]
      votingServer_sender2(2) [of 2] votingServer_sender2(3), where pl = emptyPayload]
  from one d1 ns w
  have a: "handleSubmitDefinition (conn 1 ''s1'' 1) emptyPayload votingServer =
     (votingServer, conn 1 ''s1'' 1,
      [(1, ErrorMessage ''You have already submitted a definition for this round.'')])"
    by simp
  from two v2 ns w
  have b: "handleSubmitVote (conn 2 ''s2'' 1) emptyPayload votingServer =
     (votingServer, conn 2 ''s2'' 1,
      [(2, ErrorMessage ''You have already voted for this round.'')])"
    by simp
  from two inv
  have c: "oneDefinitionPer (storage (fst (handleMessage ''7'' (conn 2 ''s2'' 1)
       \<lparr>m_type = ''submitDefinition'', m_payload = emptyPayload\<rparr> votingServer))) \<and>
   oneVotePer (storage (fst (handleMessage ''7'' (conn 2 ''s2'' 1)
       \<lparr>m_type = ''submitDefinition'', m_payload = emptyPayload\<rparr> votingServer)))"
    by blast
  from a b c inv show ?thesis by simp
qed

section \<open>submitDefinition and submitVote when they are accepted\<close>

lemma broadcast_no_isError:
  "\<not> list_ex (\<lambda>(w, msg). isError msg) (broadcastGameState srv gameId gameState)"
proof -
  have "\<not> list_ex (\<lambda>(w, msg). isError msg) (broadcastLoop srv gameState room)" for room
    by (induction room) (auto split: option.splits)
  then show ?thesis by (simp add: broadcastGameState_def split: option.splits)
qed

lemma handleSubmitDefinition_accepted:
  assumes "truthyNum (c_gameId c) = Some gameId" and "truthyStr (c_sessionId c) = Some sid"
    and "getPlayerBySessionId (storage srv) sid = Some player" and "\<not> isSpectatorPlayer player"
    and "\<not> list_ex (\<lambda>d. d_playerId d = p_id player)
             (getDefinitionsByGameId (storage srv) gameId (optNumOr (pl_round pl) 1))"
    and "getGame (storage srv) gameId = Some game"
  shows "storage (fst (handleSubmitDefinition c pl srv)) =
           (storage srv)\<lparr>definitionIdCounter := definitionIdCounter (storage srv) + 1,
              definitions := AList.update (definitionIdCounter (storage srv))
                \<lparr>d_id = definitionIdCounter (storage srv), d_gameId = gameId,
                 d_playerId = p_id player, d_round = optNumOr (pl_round pl) 1,
                 d_text = pl_text pl, d_isCorrect = (pl_isCorrect pl = Some True)\<rparr>
                (definitions (storage srv))\<rparr> \<and>
         \<not> list_ex (\<lambda>(w, msg). isError msg) (snd (snd (handleSubmitDefinition c pl srv)))"
proof -
  let ?st1 = "(storage srv)\<lparr>definitionIdCounter := definitionIdCounter (storage srv) + 1,
              definitions := AList.update (definitionIdCounter (storage srv))
                \<lparr>d_id = definitionIdCounter (storage srv), d_gameId = gameId,
                 d_playerId = p_id player, d_round = optNumOr (pl_round pl) 1,
                 d_text = pl_text pl, d_isCorrect = (pl_isCorrect pl = Some True)\<rparr>
                (definitions (storage srv))\<rparr>"
  have run: "handleSubmitDefinition c pl srv =
          stateAndBroadcast (srv\<lparr>storage := ?st1\<rparr>) c gameId (optNumOr (pl_round pl) 1)"
    using assms by (simp add: handleSubmitDefinition_def Let_def createDefinition_def)
  have "getGame (storage (srv\<lparr>storage := ?st1\<rparr>)) gameId = Some game"
    using assms(6) by (simp add: getGame_def)
  from stateAndBroadcast_sent [OF this, of c "optNumOr (pl_round pl) 1"] obtain gs where
    "stateAndBroadcast (srv\<lparr>storage := ?st1\<rparr>) c gameId (optNumOr (pl_round pl) 1) =
       (srv\<lparr>storage := ?st1\<rparr>, c, broadcastGameState (srv\<lparr>storage := ?st1\<rparr>) gameId gs)"
    by blast
  with run show ?thesis by (simp add: broadcast_no_isError)
qed

lemma handleSubmitVote_accepted:
  assumes "truthyNum (c_gameId c) = Some gameId" and "truthyStr (c_sessionId c) = Some sid"
    and "getPlayerBySessionId (storage srv) sid = Some player" and "\<not> isSpectatorPlayer player"
    and "\<not> list_ex (\<lambda>v. v_playerId v = p_id player)
             (getVotesByGameId (storage srv) gameId (optNumOr (pl_round pl) 1))"
    and "getGame (storage srv) gameId = Some game"
  shows "storage (fst (handleSubmitVote c pl srv)) =
           (storage srv)\<lparr>voteIdCounter := voteIdCounter (storage srv) + 1,
              votes := AList.update (voteIdCounter (storage srv))
                \<lparr>v_id = voteIdCounter (storage srv), v_gameId = gameId,
                 v_playerId = p_id player, v_definitionId = pl_definitionId pl,
                 v_round = optNumOr (pl_round pl) 1\<rparr>
                (votes (storage srv))\<rparr> \<and>
         \<not> list_ex (\<lambda>(w, msg). isError msg) (snd (snd (handleSubmitVote c pl srv)))"
proof -
  let ?st1 = "(storage srv)\<lparr>voteIdCounter := voteIdCounter (storage srv) + 1,
              votes := AList.update (voteIdCounter (storage srv))
                \<lparr>v_id = voteIdCounter (storage srv), v_gameId = gameId,
                 v_playerId = p_id player, v_definitionId = pl_definitionId pl,
                 v_round = optNumOr (pl_round pl) 1\<rparr>
                (votes (storage srv))\<rparr>"
  have run: "handleSubmitVote c pl srv =
          stateAndBroadcast (srv\<lparr>storage := ?st1\<rparr>) c gameId (optNumOr (pl_round pl) 1)"
    using assms by (simp add: handleSubmitVote_def Let_def createVote_def optNumOr_idem)
  have "getGame (storage (srv\<lparr>storage := ?st1\<rparr>)) gameId = Some game"
    using assms(6) by (simp add: getGame_def)
  from stateAndBroadcast_sent [OF this, of c "optNumOr (pl_round pl) 1"] obtain gs where
    "stateAndBroadcast (srv\<lparr>storage := ?st1\<rparr>) c gameId (optNumOr (pl_round pl) 1) =
       (srv\<lparr>storage := ?st1\<rparr>, c, broadcastGameState (srv\<lparr>storage := ?st1\<rparr>) gameId gs)"
    by blast
  with run show ?thesis by (simp add: broadcast_no_isError)
qed

section \<open>C3: a blank definition text\<close>

text \<open>
  C3 does not hold on the code. submitDefinition never looks at the text: player 2, who has
  no definition in round 1 yet, sends a text of three spaces; the router stores definition 3
  with that text and sends no error message. The sibling command submitWord refuses such a
  word.
\<close>

theorem C3_blank_definition_stored:
  "trim (utf16 ''   '') = [] \<and>
   map_of (definitions (storage (fst (handleMessage ''7'' (conn 2 ''s2'' 1)
       \<lparr>m_type = ''submitDefinition'', m_payload = blankPayload\<rparr> votingServer)))) 3
     = Some \<lparr>d_id = 3, d_gameId = 1, d_playerId = 2, d_round = 1, d_text = Some (utf16 ''   ''),
             d_isCorrect = False\<rparr> \<and>
   \<not> list_ex (\<lambda>(w, msg). isError msg)
       (snd (snd (handleMessage ''7'' (conn 2 ''s2'' 1)
          \<lparr>m_type = ''submitDefinition'', m_payload = blankPayload\<rparr> votingServer))) \<and>
   snd (snd (handleSubmitWord (conn 2 ''s2'' 1) (emptyPayload\<lparr>pl_word := Some (utf16 ''   '')\<rparr>)
               votingServer))
     = [(2, ErrorMessage ''Please enter a valid word.'')]"
proof -
  have t: "trim (utf16 ''   '') = []"
    by (simp add: trim_def isWhitespace_def utf16_def)
  have m: "handleMessage ''7'' (conn 2 ''s2'' 1)
             \<lparr>m_type = ''submitDefinition'', m_payload = blankPayload\<rparr> votingServer
           = handleSubmitDefinition (conn 2 ''s2'' 1) blankPayload votingServer"
    by (simp add: handleMessage_def)
  have r: "optNumOr (pl_round blankPayload) 1 = 1"
    by (simp add: blankPayload_def emptyPayload_def optNumOr_def numOr_def)
  have ns: "\<not> isSpectatorPlayer (mkPlayer 2 ''s2'' False False 0)"
    by (simp add: isSpectatorPlayer_def mkPlayer_def SPECTATOR_def PLAYER_def)
  have fresh: "\<not> list_ex (\<lambda>d. d_playerId d = p_id (mkPlayer 2 ''s2'' False False 0))
                 (getDefinitionsByGameId (storage votingServer) 1
                    (optNumOr (pl_round blankPayload) 1))"
    unfolding r
    by (simp add: votingServer_def votingStore_def getDefinitionsByGameId_def vals_def
        mkDefinition_def mkPlayer_def)
  note acc = handleSubmitDefinition_accepted [OF votingServer_sender2(1) [of 2]
      votingServer_sender2(2) [of 2] votingServer_sender2(3) ns fresh votingServer_sender(5)]
  have stored: "map_of (definitions (storage (fst (handleSubmitDefinition
        (conn 2 ''s2'' 1) blankPayload votingServer)))) 3
     = Some \<lparr>d_id = 3, d_gameId = 1, d_playerId = 2, d_round = 1, d_text = Some (utf16 ''   ''),
             d_isCorrect = False\<rparr>"
    by (subst acc [THEN conjunct1])
       (simp add: optNumOr_def numOr_def update_conv' votingServer_def votingStore_def mkPlayer_def blankPayload_def
        emptyPayload_def)
  have word: "snd (snd (handleSubmitWord (conn 2 ''s2'' 1)
                 (emptyPayload\<lparr>pl_word := Some (utf16 ''   '')\<rparr>) votingServer))
     = [(2, ErrorMessage ''Please enter a valid word.'')]"
    using votingServer_sender2(1) [of 2] votingServer_sender2(2) [of 2]
      votingServer_sender2(3) ns t
    by (simp add: handleSubmitWord_def conn_def truthyStr_def emptyPayload_def)
       (simp add: reply_def)
  from t stored acc word show ?thesis by (simp add: m)
qed

section \<open>C4: a vote for a definition that does not exist\<close>

lemma votingServer_sender7:
  "truthyNum (c_gameId (conn w ''s7'' 1)) = Some 1"
  "truthyStr (c_sessionId (conn w ''s7'' 1)) = Some ''s7''"
  "getPlayerBySessionId (storage votingServer) ''s7'' = Some (mkPlayer 7 ''s7'' False False 1)"
  "\<not> isSpectatorPlayer (mkPlayer 7 ''s7'' False False 1)"
  by (simp_all add: conn_def truthyNum_def truthyStr_def votingServer_def votingStore_def
      getPlayerBySessionId_def vals_def isSpectatorPlayer_def mkPlayer_def SPECTATOR_def
      PLAYER_def)

lemma strayVote_fresh:
  "optNumOr (pl_round strayVotePayload) 1 = 1"
  "\<not> list_ex (\<lambda>v. v_playerId v = p_id (mkPlayer 7 ''s7'' False False 1))
       (getVotesByGameId (storage votingServer) 1 (optNumOr (pl_round strayVotePayload) 1))"
  by (simp_all add: strayVotePayload_def emptyPayload_def optNumOr_def numOr_def
      votingServer_def votingStore_def getVotesByGameId_def vals_def mkVote_def mkPlayer_def)

text \<open>
  C4, as stated, fails: the definitions of game 1, round 1 have the ids 1 and 2; player 7,
  who has not voted, sends a vote for definition 99; the router stores vote 7 with
  definitionId 99 and sends no error message.
\<close>

theorem C4_stray_vote_counterexample:
  "map d_id (getDefinitionsByGameId (storage votingServer) 1 1) = [1, 2] \<and>
   map d_id (vals (definitions (storage votingServer))) = [1, 2] \<and>
   map_of (votes (storage (fst (handleMessage ''7'' (conn 4 ''s7'' 1)
       \<lparr>m_type = ''submitVote'', m_payload = strayVotePayload\<rparr> votingServer)))) 7
     = Some \<lparr>v_id = 7, v_gameId = 1, v_playerId = 7, v_definitionId = Some 99, v_round = 1\<rparr> \<and>
   \<not> list_ex (\<lambda>(w, msg). isError msg)
       (snd (snd (handleMessage ''7'' (conn 4 ''s7'' 1)
          \<lparr>m_type = ''submitVote'', m_payload = strayVotePayload\<rparr> votingServer)))"
proof -
  have m: "handleMessage ''7'' (conn 4 ''s7'' 1)
             \<lparr>m_type = ''submitVote'', m_payload = strayVotePayload\<rparr> votingServer
           = handleSubmitVote (conn 4 ''s7'' 1) strayVotePayload votingServer"
    by (simp add: handleMessage_def)
  have ds: "map d_id (getDefinitionsByGameId (storage votingServer) 1 1) = [1, 2]"
    "map d_id (vals (definitions (storage votingServer))) = [1, 2]"
    by (simp_all add: votingServer_def votingStore_def getDefinitionsByGameId_def vals_def
        mkDefinition_def)
  note acc = handleSubmitVote_accepted [OF votingServer_sender7(1) [of 4]
      votingServer_sender7(2) [of 4] votingServer_sender7(3,4) strayVote_fresh(2)
      votingServer_sender(5)]
  have "map_of (votes (storage (fst (handleSubmitVote (conn 4 ''s7'' 1)
        strayVotePayload votingServer)))) 7
     = Some \<lparr>v_id = 7, v_gameId = 1, v_playerId = 7, v_definitionId = Some 99, v_round = 1\<rparr>"
    by (subst acc [THEN conjunct1])
       (simp add: optNumOr_def numOr_def update_conv' votingServer_def votingStore_def mkPlayer_def
        strayVotePayload_def emptyPayload_def)
  with acc ds show ?thesis by (simp add: m)
qed

text \<open>
  C4, amended. submitVote does not check the definitionId. When the sender's session resolves
  to a player who is not a spectator and has no vote yet for the connection's game and the
  round of the command, and that game exists, the router stores one vote under the next vote
  id, with that game, that player, that round and the definitionId of the payload as it came
  (whatever it names, or none), and sends no error message.
\<close>

theorem C4_vote_stored_unchecked:
  assumes "truthyNum (c_gameId c) = Some gameId" and "truthyStr (c_sessionId c) = Some sid"
    and "getPlayerBySessionId (storage srv) sid = Some player" and "\<not> isSpectatorPlayer player"
    and "\<not> list_ex (\<lambda>v. v_playerId v = p_id player)
             (getVotesByGameId (storage srv) gameId (optNumOr (pl_round pl) 1))"
    and "getGame (storage srv) gameId = Some game"
  shows "storage (fst (handleSubmitVote c pl srv)) =
           (storage srv)\<lparr>voteIdCounter := voteIdCounter (storage srv) + 1,
              votes := AList.update (voteIdCounter (storage srv))
                \<lparr>v_id = voteIdCounter (storage srv), v_gameId = gameId,
                 v_playerId = p_id player, v_definitionId = pl_definitionId pl,
                 v_round = optNumOr (pl_round pl) 1\<rparr>
                (votes (storage srv))\<rparr> \<and>
         \<not> list_ex (\<lambda>(w, msg). isError msg) (snd (snd (handleSubmitVote c pl srv)))"
  by (rule handleSubmitVote_accepted [OF assms])

theorem C4_vote_stored_unchecked_witness:
  "getPlayerBySessionId (storage votingServer) ''s7'' = Some (mkPlayer 7 ''s7'' False False 1) \<and>
   getGame (storage votingServer) 1 = Some (game1 3) \<and>
   pl_definitionId strayVotePayload = Some 99 \<and>
   vals (votes (storage (fst (handleSubmitVote (conn 4 ''s7'' 1) strayVotePayload
                                votingServer))))
     = vals (votes votingStore) @ [mkVote 7 7 99] \<and>
   \<not> list_ex (\<lambda>(w, msg). isError msg)
       (snd (snd (handleSubmitVote (conn 4 ''s7'' 1) strayVotePayload votingServer)))"
proof -
  note c4 = C4_vote_stored_unchecked [OF votingServer_sender7(1) [of 4]
      votingServer_sender7(2) [of 4] votingServer_sender7(3,4) strayVote_fresh(2)
      votingServer_sender(5)]
  have "vals (votes (storage (fst (handleSubmitVote (conn 4 ''s7'' 1) strayVotePayload
                                votingServer))))
     = vals (votes votingStore) @ [mkVote 7 7 99]"
    by (subst c4 [THEN conjunct1])
       (simp add: optNumOr_def numOr_def votingServer_def votingStore_def mkPlayer_def
        strayVotePayload_def emptyPayload_def vals_def mkVote_def)
  with c4 show ?thesis
    by (simp add: votingServer_sender7 votingServer_sender strayVotePayload_def
        emptyPayload_def)
qed

section \<open>What a message can do to a spectator\<close>

lemma keeps_same: "getPlayer st i = Some p \<Longrightarrow> players st' = players st \<Longrightarrow> keeps st' i p"
  by (simp add: keeps_def getPlayer_def)

lemma handleSubmitWord_players:
  "players (storage (fst (handleSubmitWord c pl srv))) = players (storage srv)"
  by (auto simp: handleSubmitWord_def reply_def caught_def stateAndBroadcast_state
      updateGameWord_def updateGamePhase_def Let_def getGame_def
      split: option.splits sum.splits prod.splits)

lemma handleEndSubmissions_players:
  "players (storage (fst (handleEndSubmissions c pl srv))) = players (storage srv)"
  by (auto simp: handleEndSubmissions_def reply_def caught_def stateAndBroadcast_state
      updateGamePhase_def Let_def getGame_def
      split: option.splits sum.splits prod.splits)

lemma handleNewRound_players:
  "players (storage (fst (handleNewRound c pl srv))) = players (storage srv)"
  by (auto simp: handleNewRound_def reply_def caught_def stateAndBroadcast_state
      startNewRound_def Let_def getGame_def
      split: option.splits sum.splits prod.splits)

lemma handleCancelRound_players:
  "players (storage (fst (handleCancelRound c pl srv))) = players (storage srv)"
  by (auto simp: handleCancelRound_def reply_def caught_def stateAndBroadcast_state
      cancelRound_def clearDefinitionsAndVotesByRound_def Let_def getGame_def
      split: option.splits sum.splits prod.splits)

lemma handleSubmitDefinition_players:
  "players (storage (fst (handleSubmitDefinition c pl srv))) = players (storage srv)"
  using handleSubmitDefinition_storage [of c pl srv]
  by (auto simp: createDefinition_def Let_def)

lemma handleSubmitVote_players:
  "players (storage (fst (handleSubmitVote c pl srv))) = players (storage srv)"
  using handleSubmitVote_storage [of c pl srv]
  by (auto simp: createVote_def Let_def)

lemma handleJoin_keeps:
  assumes "getPlayer (storage srv) i = Some p" and "i \<noteq> playerIdCounter (storage srv)"
  shows "keeps (storage (fst (handleJoin r c pl srv))) i p"
  using handleJoin_storage [of r c pl srv] assms
  by (auto simp: keeps_def getPlayer_def joinPlayer_def createPlayer_def Let_def update_conv'
      split: option.splits)

lemma handleRemovePlayer_keeps:
  assumes "getPlayer (storage srv) i = Some p"
  shows "keeps (storage (fst (handleRemovePlayer c pl srv))) i p"
proof -
  have rem: "\<And>j st1. removePlayer (storage srv) j = Inr st1 \<Longrightarrow> keeps st1 i p"
    using assms
    by (auto simp: removePlayer_def Let_def keeps_def getPlayer_def delete_conv'
        split: option.splits if_splits)
  from assms have "keeps (storage srv) i p" by (simp add: keeps_def)
  with rem show ?thesis
    by (auto simp: handleRemovePlayer_def reply_def caught_def stateAndBroadcast_state
        split: option.splits sum.splits)
qed

lemma scoreRound_keeps:
  assumes "getPlayer st i = Some p" and "p_isSpectator p" and "scoreRound st g r = Inr st2"
  shows "getPlayer st2 i = Some p"
  using scoreRound_spec [of st g r] assms by (auto simp: addPoints_def)

lemma handleEndVoting_keeps:
  assumes "getPlayer (storage srv) i = Some p" and "p_isSpectator p"
  shows "keeps (storage (fst (handleEndVoting c pl srv))) i p"
proof -
  have sc: "\<And>game g r st2.
      scoreRound ((storage srv)\<lparr>games := AList.update g (game\<lparr>g_phase := 4\<rparr>)
                                          (games (storage srv))\<rparr>) g r = Inr st2 \<Longrightarrow>
      keeps st2 i p"
    using assms by (intro disjI1 scoreRound_keeps [THEN keeps_def [THEN iffD2, OF disjI1]])
      (auto simp: getPlayer_def)
  from assms have "keeps (storage srv) i p" by (simp add: keeps_def)
  with sc show ?thesis
    by (auto simp: handleEndVoting_def reply_def caught_def stateAndBroadcast_state
      updateGamePhase_def Let_def getGame_def keeps_def getPlayer_def
      split: option.splits sum.splits prod.splits)
qed

lemma handleAwardBonus_keeps:
  assumes "getPlayer (storage srv) i = Some p" and "p_isSpectator p"
  shows "keeps (storage (fst (handleAwardBonus c pl srv))) i p"
  using assms
  by (auto simp: handleAwardBonus_def reply_def caught_def stateAndBroadcast_state
      updatePlayerScore_def Let_def getPlayer_def keeps_def update_conv'
      split: option.splits sum.splits prod.splits)

lemma handleMessage_keeps:
  assumes "getPlayer (storage srv) i = Some p" and "p_isSpectator p"
    and "i \<noteq> playerIdCounter (storage srv)"
  shows "keeps (storage (fst (handleMessage r c m srv))) i p"
proof -
  from assms(1) have "keeps (storage srv) i p" by (simp add: keeps_def)
  then show ?thesis
    unfolding handleMessage_def Let_def
    using handleJoin_keeps [OF assms(1,3)] handleRemovePlayer_keeps [OF assms(1)]
      handleEndVoting_keeps [OF assms(1,2)] handleAwardBonus_keeps [OF assms(1,2)]
      keeps_same [OF assms(1) handleSubmitWord_players]
      keeps_same [OF assms(1) handleEndSubmissions_players]
      keeps_same [OF assms(1) handleNewRound_players]
      keeps_same [OF assms(1) handleCancelRound_players]
      keeps_same [OF assms(1) handleSubmitDefinition_players]
      keeps_same [OF assms(1) handleSubmitVote_players]
    by simp
qed

lemma handleAwardBonus_spectator:
  assumes "truthyNum (c_gameId c) = Some gameId" and "truthyStr (c_sessionId c) = Some sid"
    and "getPlayerBySessionId (storage srv) sid = Some adminPlayer"
    and "truthyNum (pl_playerId pl) = Some i"
    and "getPlayer (storage srv) i = Some p" and "p_isSpectator p"
  shows "handleAwardBonus c pl srv =
           (srv, c, [(c_ws c, ErrorMessage
              (if p_isAdmin adminPlayer then ''Cannot award points to spectators.''
               else ''Only admins can award bonus points.''))])"
  using assms by (simp add: handleAwardBonus_def reply_def Let_def)

section \<open>C8: spectators never score\<close>

text \<open>
  C8. Take a stored player whose role is spectator, with the isSpectator flag that join
  stores for that role, and whose id was handed out by the player counter. Whatever message
  the router handles, of any type and from any connection, that player's record afterwards
  is the same record, score included, unless the message removed the player. In particular
  the scoring pass returns the record unchanged whatever definitions the player wrote and
  votes the player cast, and an awardBonus command that names the player changes nothing on
  the server and sends the sender one error message.
\<close>

theorem C8_spectator_score_untouched:
  assumes "getPlayer (storage srv) i = Some p"
    and "p_role p = SPECTATOR" and "p_isSpectator p = (p_role p = SPECTATOR)"
    and "i < playerIdCounter (storage srv)"
  shows "(getPlayer (storage (fst (handleMessage r c m srv))) i = Some p \<or>
          getPlayer (storage (fst (handleMessage r c m srv))) i = None) \<and>
         (\<forall>g rd st2. scoreRound (storage srv) g rd = Inr st2 \<longrightarrow> getPlayer st2 i = Some p) \<and>
         (\<forall>c' pl gameId sid adminPlayer.
            truthyNum (c_gameId c') = Some gameId \<and> truthyStr (c_sessionId c') = Some sid \<and>
            getPlayerBySessionId (storage srv) sid = Some adminPlayer \<and>
            truthyNum (pl_playerId pl) = Some i \<longrightarrow>
            handleAwardBonus c' pl srv =
              (srv, c', [(c_ws c', ErrorMessage
                 (if p_isAdmin adminPlayer then ''Cannot award points to spectators.''
                  else ''Only admins can award bonus points.''))]))"
proof -
  from assms(2,3) have sp: "p_isSpectator p" by simp
  from assms(4) have ne: "i \<noteq> playerIdCounter (storage srv)" by simp
  from handleMessage_keeps [OF assms(1) sp ne, of r c m]
  have a: "getPlayer (storage (fst (handleMessage r c m srv))) i = Some p \<or>
           getPlayer (storage (fst (handleMessage r c m srv))) i = None"
    by (simp add: keeps_def)
  have b: "\<forall>g rd st2. scoreRound (storage srv) g rd = Inr st2 \<longrightarrow> getPlayer st2 i = Some p"
    using scoreRound_keeps [OF assms(1) sp] by blast
  from a b show ?thesis
    using handleAwardBonus_spectator [OF _ _ _ _ assms(1) sp] by blast
qed

lemma votingServer_spectator:
  "getPlayer (storage votingServer) 8 = Some (mkPlayer 8 ''s8'' False True 0)"
  "p_role (mkPlayer 8 ''s8'' False True 0) = SPECTATOR"
  "p_isSpectator (mkPlayer 8 ''s8'' False True 0)
     = (p_role (mkPlayer 8 ''s8'' False True 0) = SPECTATOR)"
  "8 < playerIdCounter (storage votingServer)"
  by (simp_all add: votingServer_def votingStore_def getPlayer_def mkPlayer_def)

theorem C8_spectator_score_untouched_witness:
  "getPlayer (storage votingServer) 8 = Some (mkPlayer 8 ''s8'' False True 0) \<and>
   p_role (mkPlayer 8 ''s8'' False True 0) = SPECTATOR \<and>
   8 < playerIdCounter (storage votingServer) \<and>
   voterAward votingStore 1 1 8 = 2 \<and>
   (\<exists>st2. scoreRound (storage votingServer) 1 1 = Inr st2 \<and>
      getPlayer st2 8 = Some (mkPlayer 8 ''s8'' False True 0)) \<and>
   (getPlayer (storage (fst (handleMessage ''7'' (conn 1 ''s1'' 1)
        \<lparr>m_type = ''endVoting'', m_payload = emptyPayload\<rparr> votingServer))) 8
      = Some (mkPlayer 8 ''s8'' False True 0) \<or>
    getPlayer (storage (fst (handleMessage ''7'' (conn 1 ''s1'' 1)
        \<lparr>m_type = ''endVoting'', m_payload = emptyPayload\<rparr> votingServer))) 8 = None) \<and>
   handleAwardBonus (conn 1 ''s1'' 1) (emptyPayload\<lparr>pl_playerId := Some 8\<rparr>) votingServer
     = (votingServer, conn 1 ''s1'' 1,
        [(1, ErrorMessage ''Cannot award points to spectators.'')])"
proof -
  note c8 = C8_spectator_score_untouched [OF votingServer_spectator, of "''7''"
      "conn 1 ''s1'' 1" "\<lparr>m_type = ''endVoting'', m_payload = emptyPayload\<rparr>"]
  from scoreRound_spec [of "storage votingServer" 1 1] obtain st2 where
    run: "scoreRound (storage votingServer) 1 1 = Inr st2" by blast
  with c8 have kept: "getPlayer st2 8 = Some (mkPlayer 8 ''s8'' False True 0)" by blast
  have target: "truthyNum (pl_playerId (emptyPayload\<lparr>pl_playerId := Some 8\<rparr>)) = Some 8"
    by (simp add: truthyNum_def)
  from c8 votingServer_sender(1) [of 1] votingServer_sender(2) [of 1] votingServer_sender(3)
    target
  have "handleAwardBonus (conn 1 ''s1'' 1) (emptyPayload\<lparr>pl_playerId := Some 8\<rparr>) votingServer
     = (votingServer, conn 1 ''s1'' 1,
        [(c_ws (conn 1 ''s1'' 1), ErrorMessage
           (if p_isAdmin (mkPlayer 1 ''s1'' True False 0)
            then ''Cannot award points to spectators.''
            else ''Only admins can award bonus points.''))])"
    by blast
  then have bonus: "handleAwardBonus (conn 1 ''s1'' 1) (emptyPayload\<lparr>pl_playerId := Some 8\<rparr>)
       votingServer
     = (votingServer, conn 1 ''s1'' 1,
        [(1, ErrorMessage ''Cannot award points to spectators.'')])"
    by (simp add: conn_def mkPlayer_def)
  from c8 have msg:
    "getPlayer (storage (fst (handleMessage ''7'' (conn 1 ''s1'' 1)
        \<lparr>m_type = ''endVoting'', m_payload = emptyPayload\<rparr> votingServer))) 8
      = Some (mkPlayer 8 ''s8'' False True 0) \<or>
    getPlayer (storage (fst (handleMessage ''7'' (conn 1 ''s1'' 1)
        \<lparr>m_type = ''endVoting'', m_payload = emptyPayload\<rparr> votingServer))) 8 = None"
    by (rule conjunct1)
  have award: "voterAward votingStore 1 1 8 = 2"
    by (rule votingStore_awards)
  from run kept have sc: "\<exists>st2. scoreRound (storage votingServer) 1 1 = Inr st2 \<and>
      getPlayer st2 8 = Some (mkPlayer 8 ''s8'' False True 0)"
    by blast
  show ?thesis
    by (intro conjI votingServer_spectator(1,2,4) award sc msg bonus)
qed

section \<open>C7: join\<close>

lemma handleJoin_existing_game:
  assumes "truthyNum (pl_gameId pl) = Some gameId" and "truthyStr (pl_sessionId pl) = Some sid"
    and "getGame (storage srv) gameId = Some game"
  shows "storage (fst (handleJoin r c pl srv)) = fst (joinPlayer r pl (storage srv) gameId sid)"
    and "fst (snd (handleJoin r c pl srv))
           = c\<lparr>c_sessionId := pl_sessionId pl, c_gameId := pl_gameId pl\<rparr>"
  using assms
  by (simp_all add: handleJoin_def Let_def joinRoom_storage caught_def split: sum.splits)

lemma joinPlayer_existing:
  "getPlayerBySessionId st sid = Some p \<Longrightarrow> joinPlayer r pl st g sid = (st, p)"
  by (simp add: joinPlayer_def)

lemma joinPlayer_new:
  assumes "getPlayerBySessionId st sid = None"
  shows "\<exists>newPlayer.
           joinPlayer r pl st g sid =
             (st\<lparr>playerIdCounter := playerIdCounter st + 1,
                 players := AList.update (playerIdCounter st) newPlayer (players st)\<rparr>,
              newPlayer) \<and>
           p_id newPlayer = playerIdCounter st \<and> p_gameId newPlayer = g \<and>
           p_sessionId newPlayer = sid \<and> p_score newPlayer = 0 \<and>
           p_isAdmin newPlayer = (getPlayersByGameId st g = []) \<and>
           p_isSpectator newPlayer = (p_role newPlayer = SPECTATOR)"
  using assms
  by (auto simp: joinPlayer_def createPlayer_def Let_def truthyStr_def SPECTATOR_def PLAYER_def
      split: option.splits if_splits)

lemma handleRemovePlayer_accepted:
  assumes "truthyNum (c_gameId c) = Some gameId" and "truthyStr (c_sessionId c) = Some sid"
    and "getPlayerBySessionId (storage srv) sid = Some admin" and "p_isAdmin admin"
    and "truthyNum (pl_playerId pl) = Some i" and "removePlayer (storage srv) i = Inr st1"
  shows "storage (fst (handleRemovePlayer c pl srv)) = st1"
  using assms
  by (simp add: handleRemovePlayer_def stateAndBroadcast_state)

lemma join_truthy:
  "truthyNum (pl_gameId (joinPayload sid 2)) = Some 2"
  "sid \<noteq> [] \<Longrightarrow> truthyStr (pl_sessionId (joinPayload sid 2)) = Some sid"
  by (simp_all add: joinPayload_def truthyNum_def truthyStr_def)

lemma twoGames_game2: "games st = games twoGamesStore \<Longrightarrow> getGame st 2 = Some game2"
  by (simp add: getGame_def twoGamesStore_def)

lemma twoGamesServer_storage: "storage twoGamesServer = twoGamesStore"
  by (simp add: twoGamesServer_def)

lemma joined_elsewhere:
  "storage (fst (handleMessage ''7'' (newConn 1) (joinMsg ''s1'' 2) twoGamesServer))
     = twoGamesStore"
proof -
  have g: "getGame (storage twoGamesServer) 2 = Some game2"
    by (simp add: twoGamesServer_def twoGames_game2)
  have p: "getPlayerBySessionId twoGamesStore ''s1'' = Some (mkPlayer 1 ''s1'' True False 0)"
    by (simp add: twoGamesStore_def getPlayerBySessionId_def vals_def mkPlayer_def)
  have "handleMessage ''7'' (newConn 1) (joinMsg ''s1'' 2) twoGamesServer
          = handleJoin ''7'' (newConn 1) (joinPayload ''s1'' 2) twoGamesServer"
    by (simp add: handleMessage_def joinMsg_def)
  then show ?thesis
    using handleJoin_existing_game(1) [OF join_truthy(1) join_truthy(2) g, of "''s1''"]
    by (simp add: twoGamesServer_storage joinPlayer_existing [OF p])
qed

lemma serverA_storage:
  "storage serverA =
     twoGamesStore\<lparr>playerIdCounter := 3,
       players := [(1, mkPlayer 1 ''s1'' True False 0),
                   (2, \<lparr>p_id = 2, p_gameId = 2, p_name = ''Player 7'', p_sessionId = ''a'',
                        p_role = PLAYER, p_isAdmin = True, p_isSpectator = False,
                        p_score = 0\<rparr>)]\<rparr>"
proof -
  have g: "getGame (storage twoGamesServer) 2 = Some game2"
    by (simp add: twoGamesServer_def twoGames_game2)
  have "handleMessage ''7'' (newConn 2) (joinMsg ''a'' 2) twoGamesServer
          = handleJoin ''7'' (newConn 2) (joinPayload ''a'' 2) twoGamesServer"
    by (simp add: handleMessage_def joinMsg_def)
  then have "storage serverA
      = fst (joinPlayer ''7'' (joinPayload ''a'' 2) (storage twoGamesServer) 2 ''a'')"
    using handleJoin_existing_game(1) [OF join_truthy(1) join_truthy(2) g, of "''a''"]
    by (simp add: serverA_def)
  also have "\<dots> = twoGamesStore\<lparr>playerIdCounter := 3,
       players := [(1, mkPlayer 1 ''s1'' True False 0),
                   (2, \<lparr>p_id = 2, p_gameId = 2, p_name = ''Player 7'', p_sessionId = ''a'',
                        p_role = PLAYER, p_isAdmin = True, p_isSpectator = False,
                        p_score = 0\<rparr>)]\<rparr>"
    by (simp add: joinPlayer_def createPlayer_def Let_def twoGamesServer_def twoGamesStore_def
        getPlayerBySessionId_def getPlayersByGameId_def vals_def mkPlayer_def joinPayload_def
        emptyPayload_def truthyStr_def PLAYER_def SPECTATOR_def)
  finally show ?thesis .
qed

lemma serverB_storage:
  "storage serverB =
     twoGamesStore\<lparr>playerIdCounter := 3, players := [(1, mkPlayer 1 ''s1'' True False 0)]\<rparr>"
proof -
  let ?p2 = "\<lparr>p_id = 2, p_gameId = 2, p_name = ''Player 7'', p_sessionId = ''a'',
               p_role = PLAYER, p_isAdmin = True, p_isSpectator = False, p_score = 0\<rparr>"
  have c: "truthyNum (c_gameId (conn 2 ''a'' 2)) = Some 2"
    "truthyStr (c_sessionId (conn 2 ''a'' 2)) = Some ''a''"
    by (simp_all add: conn_def truthyNum_def truthyStr_def)
  have a: "getPlayerBySessionId (storage serverA) ''a'' = Some ?p2" "p_isAdmin ?p2"
    by (simp_all add: serverA_storage getPlayerBySessionId_def vals_def mkPlayer_def)
  have t: "truthyNum (pl_playerId (emptyPayload\<lparr>pl_playerId := Some 2\<rparr>)) = Some 2"
    by (simp add: truthyNum_def)
  have r: "removePlayer (storage serverA) 2
      = Inr (twoGamesStore\<lparr>playerIdCounter := 3,
               players := [(1, mkPlayer 1 ''s1'' True False 0)]\<rparr>)"
    by (simp add: serverA_storage removePlayer_def getPlayer_def Let_def twoGamesStore_def
        vals_def AList.delete_eq)
  have "handleMessage ''7'' (conn 2 ''a'' 2) (removeMsg 2) serverA
          = handleRemovePlayer (conn 2 ''a'' 2) (emptyPayload\<lparr>pl_playerId := Some 2\<rparr>) serverA"
    by (simp add: handleMessage_def removeMsg_def)
  then show ?thesis
    using handleRemovePlayer_accepted [OF c a t r] by (simp add: serverB_def)
qed

lemma serverC_storage:
  "storage serverC =
     twoGamesStore\<lparr>playerIdCounter := 4,
       players := [(1, mkPlayer 1 ''s1'' True False 0),
                   (3, \<lparr>p_id = 3, p_gameId = 2, p_name = ''Player 8'', p_sessionId = ''b'',
                        p_role = PLAYER, p_isAdmin = True, p_isSpectator = False,
                        p_score = 0\<rparr>)]\<rparr>"
proof -
  have g: "getGame (storage serverB) 2 = Some game2"
    by (simp add: serverB_storage twoGames_game2)
  have "handleMessage ''8'' (newConn 3) (joinMsg ''b'' 2) serverB
          = handleJoin ''8'' (newConn 3) (joinPayload ''b'' 2) serverB"
    by (simp add: handleMessage_def joinMsg_def)
  then have "storage serverC
      = fst (joinPlayer ''8'' (joinPayload ''b'' 2) (storage serverB) 2 ''b'')"
    using handleJoin_existing_game(1) [OF join_truthy(1) join_truthy(2) g, of "''b''"]
    by (simp add: serverC_def)
  also have "\<dots> = twoGamesStore\<lparr>playerIdCounter := 4,
       players := [(1, mkPlayer 1 ''s1'' True False 0),
                   (3, \<lparr>p_id = 3, p_gameId = 2, p_name = ''Player 8'', p_sessionId = ''b'',
                        p_role = PLAYER, p_isAdmin = True, p_isSpectator = False,
                        p_score = 0\<rparr>)]\<rparr>"
    by (simp add: joinPlayer_def createPlayer_def Let_def serverB_storage twoGamesStore_def
        getPlayerBySessionId_def getPlayersByGameId_def vals_def mkPlayer_def joinPayload_def
        emptyPayload_def truthyStr_def PLAYER_def SPECTATOR_def)
  finally show ?thesis .
qed

text \<open>
  C7, as stated, fails twice. First, session s1 has a player in game 1 and none in game 2;
  when it joins game 2, which exists and has no player at all, no player is created: the
  store is unchanged. Second, session a joins game 2 and becomes its first player (id 2,
  admin), removes that player, and then session b joins game 2: its player (id 3), created
  later for the same game, is marked admin too.
\<close>

theorem C7_join_counterexample:
  "getGame twoGamesStore 2 = Some game2 \<and>
   getPlayersByGameId twoGamesStore 2 = [] \<and>
   storage (fst (handleMessage ''7'' (newConn 1) (joinMsg ''s1'' 2) twoGamesServer))
     = twoGamesStore \<and>
   map p_id (getPlayersByGameId (storage serverA) 2) = [2] \<and>
   map p_isAdmin (getPlayersByGameId (storage serverA) 2) = [True] \<and>
   fst (snd (handleMessage ''7'' (newConn 2) (joinMsg ''a'' 2) twoGamesServer))
     = conn 2 ''a'' 2 \<and>
   getPlayersByGameId (storage serverB) 2 = [] \<and>
   map p_id (getPlayersByGameId (storage serverC) 2) = [3] \<and>
   map p_isAdmin (getPlayersByGameId (storage serverC) 2) = [True]"
proof -
  have g: "getGame (storage twoGamesServer) 2 = Some game2"
    by (simp add: twoGamesServer_def twoGames_game2)
  have "handleMessage ''7'' (newConn 2) (joinMsg ''a'' 2) twoGamesServer
          = handleJoin ''7'' (newConn 2) (joinPayload ''a'' 2) twoGamesServer"
    by (simp add: handleMessage_def joinMsg_def)
  then have c: "fst (snd (handleMessage ''7'' (newConn 2) (joinMsg ''a'' 2) twoGamesServer))
     = conn 2 ''a'' 2"
    using handleJoin_existing_game(2) [OF join_truthy(1) join_truthy(2) g, of "''a''"]
    by (simp add: newConn_def conn_def joinPayload_def)
  show ?thesis
    using c joined_elsewhere
    by (simp add: serverA_storage serverB_storage serverC_storage twoGames_game2)
       (simp add: getPlayersByGameId_def twoGamesStore_def vals_def mkPlayer_def)
qed

text \<open>
  C7, amended. When a connection joins with a gameId and a sessionId and the game exists:
  if some player of the store, of whatever game, has that sessionId, no player is created
  and the store is unchanged; if no player of the store has it, one player is created under
  the next player id, for that game and session, with score 0, with the isSpectator flag set
  exactly when the role is spectator, and marked admin exactly when the game has no player
  at that moment. So the first player created for a game is admin, and a player created
  while the game still has a player is not.
\<close>

theorem C7_join_creates_player:
  assumes "truthyNum (pl_gameId pl) = Some gameId" and "truthyStr (pl_sessionId pl) = Some sid"
    and "getGame (storage srv) gameId = Some game"
  shows "(\<forall>p. getPlayerBySessionId (storage srv) sid = Some p \<longrightarrow>
            storage (fst (handleJoin r c pl srv)) = storage srv) \<and>
         (getPlayerBySessionId (storage srv) sid = None \<longrightarrow>
            (\<exists>newPlayer.
               storage (fst (handleJoin r c pl srv)) =
                 (storage srv)\<lparr>playerIdCounter := playerIdCounter (storage srv) + 1,
                    players := AList.update (playerIdCounter (storage srv)) newPlayer
                                 (players (storage srv))\<rparr> \<and>
               p_id newPlayer = playerIdCounter (storage srv) \<and>
               p_gameId newPlayer = gameId \<and> p_sessionId newPlayer = sid \<and>
               p_score newPlayer = 0 \<and>
               p_isAdmin newPlayer = (getPlayersByGameId (storage srv) gameId = []) \<and>
               p_isSpectator newPlayer = (p_role newPlayer = SPECTATOR)))"
proof (intro conjI allI impI)
  fix p assume "getPlayerBySessionId (storage srv) sid = Some p"
  then show "storage (fst (handleJoin r c pl srv)) = storage srv"
    by (simp add: handleJoin_existing_game(1) [OF assms] joinPlayer_existing)
next
  assume "getPlayerBySessionId (storage srv) sid = None"
  from joinPlayer_new [OF this, of r pl gameId]
  show "\<exists>newPlayer.
               storage (fst (handleJoin r c pl srv)) =
                 (storage srv)\<lparr>playerIdCounter := playerIdCounter (storage srv) + 1,
                    players := AList.update (playerIdCounter (storage srv)) newPlayer
                                 (players (storage srv))\<rparr> \<and>
               p_id newPlayer = playerIdCounter (storage srv) \<and>
               p_gameId newPlayer = gameId \<and> p_sessionId newPlayer = sid \<and>
               p_score newPlayer = 0 \<and>
               p_isAdmin newPlayer = (getPlayersByGameId (storage srv) gameId = []) \<and>
               p_isSpectator newPlayer = (p_role newPlayer = SPECTATOR)"
    by (auto simp: handleJoin_existing_game(1) [OF assms])
qed

theorem C7_join_creates_player_witness:
  "getGame (storage twoGamesServer) 2 = Some game2 \<and>
   getGame (storage twoGamesServer) 1 = Some (game1 1) \<and>
   getPlayerBySessionId (storage twoGamesServer) ''s1'' = Some (mkPlayer 1 ''s1'' True False 0) \<and>
   getPlayerBySessionId (storage twoGamesServer) ''a'' = None \<and>
   storage (fst (handleJoin ''7'' (newConn 1) (joinPayload ''s1'' 1) twoGamesServer))
     = storage twoGamesServer \<and>
   (\<exists>newPlayer.
      players (storage (fst (handleJoin ''7'' (newConn 2) (joinPayload ''a'' 2) twoGamesServer)))
        = players twoGamesStore @ [(2, newPlayer)] \<and>
      p_gameId newPlayer = 2 \<and> p_sessionId newPlayer = ''a'' \<and> p_isAdmin newPlayer) \<and>
   (\<exists>newPlayer.
      players (storage (fst (handleJoin ''7'' (newConn 2) (joinPayload ''a'' 1) twoGamesServer)))
        = players twoGamesStore @ [(2, newPlayer)] \<and>
      p_gameId newPlayer = 1 \<and> p_sessionId newPlayer = ''a'' \<and> \<not> p_isAdmin newPlayer)"
proof -
  have g2: "getGame (storage twoGamesServer) 2 = Some game2"
    and g1: "getGame (storage twoGamesServer) 1 = Some (game1 1)"
    by (simp_all add: twoGamesServer_def twoGamesStore_def getGame_def)
  have s1: "getPlayerBySessionId (storage twoGamesServer) ''s1''
              = Some (mkPlayer 1 ''s1'' True False 0)"
    and a: "getPlayerBySessionId (storage twoGamesServer) ''a'' = None"
    by (simp_all add: twoGamesServer_def twoGamesStore_def getPlayerBySessionId_def vals_def
        mkPlayer_def)
  have t1: "truthyNum (pl_gameId (joinPayload sid 1)) = Some 1" for sid
    by (simp add: joinPayload_def truthyNum_def)
  have ts: "truthyStr (pl_sessionId (joinPayload ''s1'' 1)) = Some ''s1''"
    "truthyStr (pl_sessionId (joinPayload ''a'' 1)) = Some ''a''"
    "truthyStr (pl_sessionId (joinPayload ''a'' 2)) = Some ''a''"
    by (simp_all add: joinPayload_def truthyStr_def)
  have n: "getPlayersByGameId (storage twoGamesServer) 2 = []"
    "getPlayersByGameId (storage twoGamesServer) 1 \<noteq> []"
    "playerIdCounter (storage twoGamesServer) = 2"
    "AList.update 2 x (players (storage twoGamesServer)) = players twoGamesStore @ [(2, x)]"
    for x
    by (simp_all add: twoGamesServer_def twoGamesStore_def getPlayersByGameId_def vals_def
        mkPlayer_def)
  from C7_join_creates_player [OF t1 ts(1) g1, of "''7''" "newConn 1"] s1
  have one: "storage (fst (handleJoin ''7'' (newConn 1) (joinPayload ''s1'' 1) twoGamesServer))
     = storage twoGamesServer"
    by blast
  from C7_join_creates_player [OF join_truthy(1) ts(3) g2, of "''7''" "newConn 2"] a
  obtain p2 where p2:
    "storage (fst (handleJoin ''7'' (newConn 2) (joinPayload ''a'' 2) twoGamesServer)) =
       (storage twoGamesServer)\<lparr>playerIdCounter := playerIdCounter (storage twoGamesServer) + 1,
          players := AList.update (playerIdCounter (storage twoGamesServer)) p2
                       (players (storage twoGamesServer))\<rparr>"
    "p_gameId p2 = 2" "p_sessionId p2 = ''a''"
    "p_isAdmin p2 = (getPlayersByGameId (storage twoGamesServer) 2 = [])"
    by blast
  from C7_join_creates_player [OF t1 ts(2) g1, of "''7''" "newConn 2"] a
  obtain p3 where p3:
    "storage (fst (handleJoin ''7'' (newConn 2) (joinPayload ''a'' 1) twoGamesServer)) =
       (storage twoGamesServer)\<lparr>playerIdCounter := playerIdCounter (storage twoGamesServer) + 1,
          players := AList.update (playerIdCounter (storage twoGamesServer)) p3
                       (players (storage twoGamesServer))\<rparr>"
    "p_gameId p3 = 1" "p_sessionId p3 = ''a''"
    "p_isAdmin p3 = (getPlayersByGameId (storage twoGamesServer) 1 = [])"
    by blast
  have two: "\<exists>newPlayer.
      players (storage (fst (handleJoin ''7'' (newConn 2) (joinPayload ''a'' 2) twoGamesServer)))
        = players twoGamesStore @ [(2, newPlayer)] \<and>
      p_gameId newPlayer = 2 \<and> p_sessionId newPlayer = ''a'' \<and> p_isAdmin newPlayer"
    using p2 by (intro exI [of _ p2]) (simp add: n)
  have three: "\<exists>newPlayer.
      players (storage (fst (handleJoin ''7'' (newConn 2) (joinPayload ''a'' 1) twoGamesServer)))
        = players twoGamesStore @ [(2, newPlayer)] \<and>
      p_gameId newPlayer = 1 \<and> p_sessionId newPlayer = ''a'' \<and> \<not> p_isAdmin newPlayer"
    using p3 by (intro exI [of _ p3]) (simp add: n)
  show ?thesis
    by (intro conjI g2 g1 s1 a one two three)
qed

section \<open>C6: cancelRound and newRound\<close>

lemma fold_delete_matching:
  assumes "distinct (map fst al)"
  shows "fold AList.delete (map fst (filter P al)) al = filter (\<lambda>e. \<not> P e) al"
proof -
  have "filter (\<lambda>e. fst e \<notin> set (map fst (filter P al))) al = filter (\<lambda>e. \<not> P e) al"
  proof (rule filter_cong [OF refl])
    fix e assume e: "e \<in> set al"
    show "(fst e \<notin> set (map fst (filter P al))) = (\<not> P e)"
    proof (cases "P e")
      case True
      with e show ?thesis by force
    next
      case False
      have "fst e \<notin> set (map fst (filter P al))"
      proof
        assume "fst e \<in> set (map fst (filter P al))"
        then obtain x where x: "x \<in> set al" "P x" "fst x = fst e" by auto
        with e assms have "x = e"
          by (metis eq_key_imp_eq_value prod.collapse)
        with x False show False by simp
      qed
      with False show ?thesis by simp
    qed
  qed
  then show ?thesis by (simp add: fold_delete_keys_filter)
qed

lemma cancelRound_exact:
  assumes "getGame s gameId = Some game"
    and "distinct (map fst (definitions s))" and "distinct (map fst (votes s))"
  shows "cancelRound s gameId =
           Inr (s\<lparr>definitions := filter (\<lambda>(k, d). \<not> (d_gameId d = gameId \<and>
                                      d_round d = numOr (g_currentRound game) 1)) (definitions s),
                  votes := filter (\<lambda>(k, v). \<not> (v_gameId v = gameId \<and>
                                      v_round v = numOr (g_currentRound game) 1)) (votes s),
                  games := AList.update gameId (game\<lparr>g_phase := 1, g_currentWord := Some []\<rparr>)
                             (games s)\<rparr>,
                game\<lparr>g_phase := 1, g_currentWord := Some []\<rparr>)"
  using assms
  by (simp add: cancelRound_def clearDefinitionsAndVotesByRound_def Let_def
      fold_delete_matching case_prod_unfold)

lemma handleCancelRound_admin:
  assumes "truthyNum (c_gameId c) = Some gameId" and "truthyStr (c_sessionId c) = Some sid"
    and "getPlayerBySessionId (storage srv) sid = Some player" and "p_isAdmin player"
    and "cancelRound (storage srv) gameId = Inr (s1, updatedGame)"
    and "getGame s1 gameId = Some updatedGame"
  shows "storage (fst (handleCancelRound c pl srv)) = s1 \<and>
         \<not> list_ex (\<lambda>(w, msg). isError msg) (snd (snd (handleCancelRound c pl srv)))"
proof -
  have run: "handleCancelRound c pl srv =
          stateAndBroadcast (srv\<lparr>storage := s1\<rparr>) c gameId (numOr (g_currentRound updatedGame) 1)"
    using assms by (simp add: handleCancelRound_def)
  have "getGame (storage (srv\<lparr>storage := s1\<rparr>)) gameId = Some updatedGame"
    using assms(6) by simp
  from stateAndBroadcast_sent [OF this, of c "numOr (g_currentRound updatedGame) 1"]
  obtain gs where
    "stateAndBroadcast (srv\<lparr>storage := s1\<rparr>) c gameId (numOr (g_currentRound updatedGame) 1) =
       (srv\<lparr>storage := s1\<rparr>, c, broadcastGameState (srv\<lparr>storage := s1\<rparr>) gameId gs)"
    by blast
  with run show ?thesis by (simp add: broadcast_no_isError)
qed

lemma handleCancelRound_no_player:
  assumes "truthyNum (c_gameId c) = Some gameId" and "truthyStr (c_sessionId c) = Some sid"
    and "getPlayerBySessionId (storage srv) sid = None"
  shows "handleCancelRound c pl srv =
           (srv, c, [(c_ws c, ErrorMessage ''Player not found. Please rejoin the game.'')])"
  using assms by (simp add: handleCancelRound_def reply_def)

lemma handleNewRound_done:
  assumes "truthyNum (c_gameId c) = Some gameId" and "truthyStr (c_sessionId c) = Some sid"
    and "getPlayerBySessionId (storage srv) sid = Some player" and "\<not> isSpectatorPlayer player"
    and "startNewRound (storage srv) gameId = Inr (s2, updatedGame)"
    and "getGame s2 gameId = Some updatedGame"
  shows "storage (fst (handleNewRound c pl srv)) = s2 \<and>
         \<not> list_ex (\<lambda>(w, msg). isError msg) (snd (snd (handleNewRound c pl srv)))"
proof -
  have run: "handleNewRound c pl srv =
          stateAndBroadcast (srv\<lparr>storage := s2\<rparr>) c gameId (g_currentRound updatedGame)"
    using assms by (simp add: handleNewRound_def)
  have "getGame (storage (srv\<lparr>storage := s2\<rparr>)) gameId = Some updatedGame"
    using assms(6) by simp
  from stateAndBroadcast_sent [OF this, of c "g_currentRound updatedGame"]
  obtain gs where
    "stateAndBroadcast (srv\<lparr>storage := s2\<rparr>) c gameId (g_currentRound updatedGame) =
       (srv\<lparr>storage := s2\<rparr>, c, broadcastGameState (srv\<lparr>storage := s2\<rparr>) gameId gs)"
    by blast
  with run show ?thesis by (simp add: broadcast_no_isError)
qed

lemma startNewRound_exact:
  assumes "getGame s gameId = Some game"
  shows "startNewRound s gameId =
           Inr (s\<lparr>games := AList.update gameId
                     (game\<lparr>g_phase := 1, g_currentWord := Some [],
                           g_currentRound := numOr (g_currentRound game) 1 + 1\<rparr>) (games s)\<rparr>,
                game\<lparr>g_phase := 1, g_currentWord := Some [],
                      g_currentRound := numOr (g_currentRound game) 1 + 1\<rparr>)"
  using assms by (simp add: startNewRound_def Let_def)

lemma definitions_query_after_clear:
  "(g, r) \<noteq> (gameId, rd) \<Longrightarrow>
   filter (\<lambda>d. d_gameId d = g \<and> d_round d = r)
     (map snd (filter (\<lambda>(k, d). \<not> (d_gameId d = gameId \<and> d_round d = rd)) al))
   = filter (\<lambda>d. d_gameId d = g \<and> d_round d = r) (map snd al)"
  by (induction al) auto

lemma votes_query_after_clear:
  "(g, r) \<noteq> (gameId, rd) \<Longrightarrow>
   filter (\<lambda>v. v_gameId v = g \<and> v_round v = r)
     (map snd (filter (\<lambda>(k, v). \<not> (v_gameId v = gameId \<and> v_round v = rd)) al))
   = filter (\<lambda>v. v_gameId v = g \<and> v_round v = r) (map snd al)"
  by (induction al) auto

text \<open>
  C6, as stated, fails on "admin-only". Session s1 belongs to player 1, a player and the
  admin of game 1; game 2 has the single player 3. Session s1 joins game 2 on a new
  connection, which creates no player, and then sends cancelRound: the router finds player 1
  by the session id, sees the admin flag, and cancels the round of game 2. Definition 3 is
  deleted and game 2 is back in WordEntry, on the command of someone who is no player of
  game 2.
\<close>

theorem C6_admin_of_other_game_counterexample:
  "storage crossServer = historyStore \<and>
   fst (snd (handleMessage ''7'' (newConn 1) (joinMsg ''s1'' 2) historyServer))
     = conn 1 ''s1'' 2 \<and>
   getPlayerBySessionId historyStore ''s1'' = Some (mkPlayer 1 ''s1'' True False 0) \<and>
   p_gameId (mkPlayer 1 ''s1'' True False 0) = 1 \<and>
   map p_id (getPlayersByGameId historyStore 2) = [3] \<and>
   map d_id (getDefinitionsByGameId historyStore 2 1) = [3] \<and>
   map_option g_phase (getGame historyStore 2) = Some 2 \<and>
   getDefinitionsByGameId
     (storage (fst (handleMessage ''7'' (conn 1 ''s1'' 2) cancelMsg crossServer))) 2 1 = [] \<and>
   map_option g_phase
     (getGame (storage (fst (handleMessage ''7'' (conn 1 ''s1'' 2) cancelMsg crossServer))) 2)
     = Some 1 \<and>
   \<not> list_ex (\<lambda>(w, msg). isError msg)
       (snd (snd (handleMessage ''7'' (conn 1 ''s1'' 2) cancelMsg crossServer)))"
proof -
  let ?gB = "game2\<lparr>g_phase := 2, g_currentWord := Some (utf16 ''zarf'')\<rparr>"
  have g: "getGame (storage historyServer) 2 = Some ?gB"
    by (simp add: historyServer_def historyStore_def getGame_def)
  have p: "getPlayerBySessionId historyStore ''s1'' = Some (mkPlayer 1 ''s1'' True False 0)"
    by (simp add: historyStore_def getPlayerBySessionId_def vals_def mkPlayer_def)
  have hs: "storage historyServer = historyStore"
    by (simp add: historyServer_def)
  have j: "handleMessage ''7'' (newConn 1) (joinMsg ''s1'' 2) historyServer
          = handleJoin ''7'' (newConn 1) (joinPayload ''s1'' 2) historyServer"
    by (simp add: handleMessage_def joinMsg_def)
  have st: "storage crossServer = historyStore"
    unfolding crossServer_def j
    using handleJoin_existing_game(1) [OF join_truthy(1) join_truthy(2) g, of "''s1''"]
    by (simp add: hs joinPlayer_existing [OF p])
  have cn: "fst (snd (handleMessage ''7'' (newConn 1) (joinMsg ''s1'' 2) historyServer))
     = conn 1 ''s1'' 2"
    unfolding j
    using handleJoin_existing_game(2) [OF join_truthy(1) join_truthy(2) g, of "''s1''"]
    by (simp add: newConn_def conn_def joinPayload_def)
  have c: "truthyNum (c_gameId (conn 1 ''s1'' 2)) = Some 2"
    "truthyStr (c_sessionId (conn 1 ''s1'' 2)) = Some ''s1''"
    by (simp_all add: conn_def truthyNum_def truthyStr_def)
  have pc: "getPlayerBySessionId (storage crossServer) ''s1''
              = Some (mkPlayer 1 ''s1'' True False 0)"
    "p_isAdmin (mkPlayer 1 ''s1'' True False 0)"
    by (simp_all add: st p mkPlayer_def)
  have gc: "getGame (storage crossServer) 2 = Some ?gB"
    by (simp add: st historyStore_def getGame_def)
  have dist: "distinct (map fst (definitions (storage crossServer)))"
    "distinct (map fst (votes (storage crossServer)))"
    by (simp_all add: st historyStore_def)
  note cr = cancelRound_exact [OF gc dist]
  have after: "getGame
      ((storage crossServer)\<lparr>definitions := filter (\<lambda>(k, d). \<not> (d_gameId d = 2 \<and>
                                      d_round d = numOr (g_currentRound ?gB) 1))
                                 (definitions (storage crossServer)),
                  votes := filter (\<lambda>(k, v). \<not> (v_gameId v = 2 \<and>
                                      v_round v = numOr (g_currentRound ?gB) 1))
                             (votes (storage crossServer)),
                  games := AList.update 2 (?gB\<lparr>g_phase := 1, g_currentWord := Some []\<rparr>)
                             (games (storage crossServer))\<rparr>) 2
      = Some (?gB\<lparr>g_phase := 1, g_currentWord := Some []\<rparr>)"
    by (simp add: getGame_def update_conv')
  note ran = handleCancelRound_admin [OF c pc cr after, of emptyPayload]
  have m: "handleMessage ''7'' (conn 1 ''s1'' 2) cancelMsg crossServer
           = handleCancelRound (conn 1 ''s1'' 2) emptyPayload crossServer"
    by (simp add: handleMessage_def cancelMsg_def)
  have before: "p_gameId (mkPlayer 1 ''s1'' True False 0) = 1"
    "map p_id (getPlayersByGameId historyStore 2) = [3]"
    "map d_id (getDefinitionsByGameId historyStore 2 1) = [3]"
    "map_option g_phase (getGame historyStore 2) = Some 2"
    by (simp_all add: historyStore_def getPlayersByGameId_def getDefinitionsByGameId_def
        getGame_def vals_def mkPlayer_def mkDefinition_def game2_def)
  have emptied: "getDefinitionsByGameId
     (storage (fst (handleMessage ''7'' (conn 1 ''s1'' 2) cancelMsg crossServer))) 2 1 = []"
    unfolding m ran [THEN conjunct1]
    by (simp add: st historyStore_def getDefinitionsByGameId_def vals_def mkDefinition_def
        game2_def numOr_def)
  have phase: "map_option g_phase
     (getGame (storage (fst (handleMessage ''7'' (conn 1 ''s1'' 2) cancelMsg crossServer))) 2)
     = Some 1"
    unfolding m ran [THEN conjunct1]
    by (simp add: getGame_def update_conv')
  have quiet: "\<not> list_ex (\<lambda>(w, msg). isError msg)
       (snd (snd (handleMessage ''7'' (conn 1 ''s1'' 2) cancelMsg crossServer)))"
    unfolding m by (rule ran [THEN conjunct2])
  show ?thesis
    by (intro conjI st cn p before emptied phase quiet)
qed

text \<open>
  C6, amended. The cancelRound command is carried out when the sender's session resolves to a
  player whose admin flag is set, a player of whatever game, since the lookup is by session
  id alone; it is refused, with an error to the sender and nothing changed, when that
  player's flag is not set or when no player is found. Carried out on a stored game whose
  currentRound is positive, in a store that holds each key once, it is the store's
  cancelRound: the game gets phase WordEntry (1) and the empty word and keeps currentRound;
  exactly the definitions and votes of that game and round are deleted, so the round-scoped
  queries for that round return nothing and those for any other game or round return what
  they returned before; players, other games and counters are untouched. newRound, carried
  out for a sender who is not a spectator, is the store's startNewRound: phase WordEntry,
  the empty word, currentRound plus exactly 1, and every definition, vote, player and
  other game as before.
\<close>

theorem C6_cancelRound_newRound:
  assumes "getGame (storage srv) gameId = Some game" and "0 < g_currentRound game"
    and "distinct (map fst (definitions (storage srv)))"
    and "distinct (map fst (votes (storage srv)))"
  shows "(\<exists>s1.
            s1 = (storage srv)
                   \<lparr>definitions := filter (\<lambda>(k, d). \<not> (d_gameId d = gameId \<and>
                                              d_round d = g_currentRound game))
                                     (definitions (storage srv)),
                    votes := filter (\<lambda>(k, v). \<not> (v_gameId v = gameId \<and>
                                        v_round v = g_currentRound game))
                               (votes (storage srv)),
                    games := AList.update gameId (game\<lparr>g_phase := 1, g_currentWord := Some []\<rparr>)
                               (games (storage srv))\<rparr> \<and>
            cancelRound (storage srv) gameId
              = Inr (s1, game\<lparr>g_phase := 1, g_currentWord := Some []\<rparr>) \<and>
            getGame s1 gameId = Some (game\<lparr>g_phase := 1, g_currentWord := Some []\<rparr>) \<and>
            g_currentRound (game\<lparr>g_phase := 1, g_currentWord := Some []\<rparr>)
              = g_currentRound game \<and>
            (\<forall>k. k \<noteq> gameId \<longrightarrow> getGame s1 k = getGame (storage srv) k) \<and>
            getDefinitionsByGameId s1 gameId (g_currentRound game) = [] \<and>
            getVotesByGameId s1 gameId (g_currentRound game) = [] \<and>
            (\<forall>g r. (g, r) \<noteq> (gameId, g_currentRound game) \<longrightarrow>
               getDefinitionsByGameId s1 g r = getDefinitionsByGameId (storage srv) g r \<and>
               getVotesByGameId s1 g r = getVotesByGameId (storage srv) g r) \<and>
            players s1 = players (storage srv) \<and>
            (\<forall>c pl sid player.
               truthyNum (c_gameId c) = Some gameId \<and> truthyStr (c_sessionId c) = Some sid \<and>
               getPlayerBySessionId (storage srv) sid = Some player \<longrightarrow>
               (if p_isAdmin player
                then storage (fst (handleCancelRound c pl srv)) = s1 \<and>
                     \<not> list_ex (\<lambda>(w, msg). isError msg) (snd (snd (handleCancelRound c pl srv)))
                else handleCancelRound c pl srv =
                       (srv, c, [(c_ws c,
                          ErrorMessage ''Only admins can cancel the current round.'')]))) \<and>
            (\<forall>c pl sid.
               truthyNum (c_gameId c) = Some gameId \<and> truthyStr (c_sessionId c) = Some sid \<and>
               getPlayerBySessionId (storage srv) sid = None \<longrightarrow>
               handleCancelRound c pl srv =
                 (srv, c, [(c_ws c,
                    ErrorMessage ''Player not found. Please rejoin the game.'')]))) \<and>
         (\<exists>s2.
            s2 = (storage srv)
                   \<lparr>games := AList.update gameId
                               (game\<lparr>g_phase := 1, g_currentWord := Some [],
                                     g_currentRound := g_currentRound game + 1\<rparr>)
                               (games (storage srv))\<rparr> \<and>
            startNewRound (storage srv) gameId
              = Inr (s2, game\<lparr>g_phase := 1, g_currentWord := Some [],
                              g_currentRound := g_currentRound game + 1\<rparr>) \<and>
            getGame s2 gameId
              = Some (game\<lparr>g_phase := 1, g_currentWord := Some [],
                           g_currentRound := g_currentRound game + 1\<rparr>) \<and>
            (\<forall>k. k \<noteq> gameId \<longrightarrow> getGame s2 k = getGame (storage srv) k) \<and>
            definitions s2 = definitions (storage srv) \<and> votes s2 = votes (storage srv) \<and>
            players s2 = players (storage srv) \<and>
            (\<forall>c pl sid player.
               truthyNum (c_gameId c) = Some gameId \<and> truthyStr (c_sessionId c) = Some sid \<and>
               getPlayerBySessionId (storage srv) sid = Some player \<and>
               \<not> isSpectatorPlayer player \<longrightarrow>
               storage (fst (handleNewRound c pl srv)) = s2 \<and>
               \<not> list_ex (\<lambda>(w, msg). isError msg) (snd (snd (handleNewRound c pl srv)))))"
proof (intro conjI)
  let ?g1 = "game\<lparr>g_phase := 1, g_currentWord := Some []\<rparr>"
  let ?s1 = "(storage srv)
                   \<lparr>definitions := filter (\<lambda>(k, d). \<not> (d_gameId d = gameId \<and>
                                              d_round d = g_currentRound game))
                                     (definitions (storage srv)),
                    votes := filter (\<lambda>(k, v). \<not> (v_gameId v = gameId \<and>
                                        v_round v = g_currentRound game))
                               (votes (storage srv)),
                    games := AList.update gameId ?g1 (games (storage srv))\<rparr>"
  from assms(2) have r: "numOr (g_currentRound game) 1 = g_currentRound game"
    by (simp add: numOr_def)
  have run: "cancelRound (storage srv) gameId = Inr (?s1, ?g1)"
    using cancelRound_exact [OF assms(1,3,4)] by (simp add: r)
  have gg: "getGame ?s1 gameId = Some ?g1"
    by (simp add: getGame_def update_conv')
  have other: "\<forall>k. k \<noteq> gameId \<longrightarrow> getGame ?s1 k = getGame (storage srv) k"
    by (simp add: getGame_def update_conv')
  have empty: "getDefinitionsByGameId ?s1 gameId (g_currentRound game) = []"
    "getVotesByGameId ?s1 gameId (g_currentRound game) = []"
    by (auto simp: getDefinitionsByGameId_def getVotesByGameId_def vals_def filter_empty_conv)
  have frame: "\<forall>g r. (g, r) \<noteq> (gameId, g_currentRound game) \<longrightarrow>
               getDefinitionsByGameId ?s1 g r = getDefinitionsByGameId (storage srv) g r \<and>
               getVotesByGameId ?s1 g r = getVotesByGameId (storage srv) g r"
  proof (intro allI impI)
    fix g r assume ne: "(g, r) \<noteq> (gameId, g_currentRound game)"
    show "getDefinitionsByGameId ?s1 g r = getDefinitionsByGameId (storage srv) g r \<and>
          getVotesByGameId ?s1 g r = getVotesByGameId (storage srv) g r"
      unfolding getDefinitionsByGameId_def getVotesByGameId_def vals_def
      using definitions_query_after_clear [OF ne, of "definitions (storage srv)"]
        votes_query_after_clear [OF ne, of "votes (storage srv)"]
      by simp
  qed
  have gate: "\<forall>c pl sid player.
               truthyNum (c_gameId c) = Some gameId \<and> truthyStr (c_sessionId c) = Some sid \<and>
               getPlayerBySessionId (storage srv) sid = Some player \<longrightarrow>
               (if p_isAdmin player
                then storage (fst (handleCancelRound c pl srv)) = ?s1 \<and>
                     \<not> list_ex (\<lambda>(w, msg). isError msg) (snd (snd (handleCancelRound c pl srv)))
                else handleCancelRound c pl srv =
                       (srv, c, [(c_ws c,
                          ErrorMessage ''Only admins can cancel the current round.'')]))"
    using handleCancelRound_admin [OF _ _ _ _ run gg] handleCancelRound_not_admin
    by (metis (no_types, lifting))
  have nobody: "\<forall>c pl sid.
               truthyNum (c_gameId c) = Some gameId \<and> truthyStr (c_sessionId c) = Some sid \<and>
               getPlayerBySessionId (storage srv) sid = None \<longrightarrow>
               handleCancelRound c pl srv =
                 (srv, c, [(c_ws c,
                    ErrorMessage ''Player not found. Please rejoin the game.'')])"
    using handleCancelRound_no_player by blast
  from run gg other empty frame gate nobody
  show "\<exists>s1.
            s1 = ?s1 \<and>
            cancelRound (storage srv) gameId = Inr (s1, ?g1) \<and>
            getGame s1 gameId = Some ?g1 \<and>
            g_currentRound ?g1 = g_currentRound game \<and>
            (\<forall>k. k \<noteq> gameId \<longrightarrow> getGame s1 k = getGame (storage srv) k) \<and>
            getDefinitionsByGameId s1 gameId (g_currentRound game) = [] \<and>
            getVotesByGameId s1 gameId (g_currentRound game) = [] \<and>
            (\<forall>g r. (g, r) \<noteq> (gameId, g_currentRound game) \<longrightarrow>
               getDefinitionsByGameId s1 g r = getDefinitionsByGameId (storage srv) g r \<and>
               getVotesByGameId s1 g r = getVotesByGameId (storage srv) g r) \<and>
            players s1 = players (storage srv) \<and>
            (\<forall>c pl sid player.
               truthyNum (c_gameId c) = Some gameId \<and> truthyStr (c_sessionId c) = Some sid \<and>
               getPlayerBySessionId (storage srv) sid = Some player \<longrightarrow>
               (if p_isAdmin player
                then storage (fst (handleCancelRound c pl srv)) = s1 \<and>
                     \<not> list_ex (\<lambda>(w, msg). isError msg) (snd (snd (handleCancelRound c pl srv)))
                else handleCancelRound c pl srv =
                       (srv, c, [(c_ws c,
                          ErrorMessage ''Only admins can cancel the current round.'')]))) \<and>
            (\<forall>c pl sid.
               truthyNum (c_gameId c) = Some gameId \<and> truthyStr (c_sessionId c) = Some sid \<and>
               getPlayerBySessionId (storage srv) sid = None \<longrightarrow>
               handleCancelRound c pl srv =
                 (srv, c, [(c_ws c,
                    ErrorMessage ''Player not found. Please rejoin the game.'')]))"
    by (intro exI [of _ ?s1] conjI refl) simp_all
next
  let ?g2 = "game\<lparr>g_phase := 1, g_currentWord := Some [],
                   g_currentRound := g_currentRound game + 1\<rparr>"
  let ?s2 = "(storage srv)\<lparr>games := AList.update gameId ?g2 (games (storage srv))\<rparr>"
  from assms(2) have r: "numOr (g_currentRound game) 1 = g_currentRound game"
    by (simp add: numOr_def)
  have run: "startNewRound (storage srv) gameId = Inr (?s2, ?g2)"
    using startNewRound_exact [OF assms(1)] by (simp add: r)
  have gg: "getGame ?s2 gameId = Some ?g2"
    by (simp add: getGame_def update_conv')
  have other: "\<forall>k. k \<noteq> gameId \<longrightarrow> getGame ?s2 k = getGame (storage srv) k"
    by (simp add: getGame_def update_conv')
  have router: "\<forall>c pl sid player.
               truthyNum (c_gameId c) = Some gameId \<and> truthyStr (c_sessionId c) = Some sid \<and>
               getPlayerBySessionId (storage srv) sid = Some player \<and>
               \<not> isSpectatorPlayer player \<longrightarrow>
               storage (fst (handleNewRound c pl srv)) = ?s2 \<and>
               \<not> list_ex (\<lambda>(w, msg). isError msg) (snd (snd (handleNewRound c pl srv)))"
    using handleNewRound_done [OF _ _ _ _ run gg] by blast
  from run gg other router
  show "\<exists>s2.
            s2 = ?s2 \<and>
            startNewRound (storage srv) gameId = Inr (s2, ?g2) \<and>
            getGame s2 gameId = Some ?g2 \<and>
            (\<forall>k. k \<noteq> gameId \<longrightarrow> getGame s2 k = getGame (storage srv) k) \<and>
            definitions s2 = definitions (storage srv) \<and> votes s2 = votes (storage srv) \<and>
            players s2 = players (storage srv) \<and>
            (\<forall>c pl sid player.
               truthyNum (c_gameId c) = Some gameId \<and> truthyStr (c_sessionId c) = Some sid \<and>
               getPlayerBySessionId (storage srv) sid = Some player \<and>
               \<not> isSpectatorPlayer player \<longrightarrow>
               storage (fst (handleNewRound c pl srv)) = s2 \<and>
               \<not> list_ex (\<lambda>(w, msg). isError msg) (snd (snd (handleNewRound c pl srv))))"
    by (intro exI [of _ ?s2] conjI refl) simp_all
qed

lemma historyServer_facts:
  "getGame (storage historyServer) 1 = Some (game1 3\<lparr>g_currentRound := 2\<rparr>)"
  "0 < g_currentRound (game1 3\<lparr>g_currentRound := 2\<rparr>)"
  "distinct (map fst (definitions (storage historyServer)))"
  "distinct (map fst (votes (storage historyServer)))"
  by (simp_all add: historyServer_def historyStore_def getGame_def game1_def)

lemma historyServer_senders:
  "truthyNum (c_gameId (conn w sid 1)) = Some 1"
  "sid \<noteq> [] \<Longrightarrow> truthyStr (c_sessionId (conn w sid 1)) = Some sid"
  "getPlayerBySessionId (storage historyServer) ''s1'' = Some (mkPlayer 1 ''s1'' True False 0)"
  "getPlayerBySessionId (storage historyServer) ''s2'' = Some (mkPlayer 2 ''s2'' False False 0)"
  "getPlayerBySessionId (storage historyServer) ''zz'' = None"
  by (simp_all add: conn_def truthyNum_def truthyStr_def historyServer_def historyStore_def
      getPlayerBySessionId_def vals_def mkPlayer_def)

theorem C6_cancelRound_newRound_witness:
  "getGame (storage historyServer) 1 = Some (game1 3\<lparr>g_currentRound := 2\<rparr>) \<and>
   0 < g_currentRound (game1 3\<lparr>g_currentRound := 2\<rparr>) \<and>
   distinct (map fst (definitions (storage historyServer))) \<and>
   distinct (map fst (votes (storage historyServer))) \<and>
   map fst (definitions (storage historyServer)) = [1, 2, 3] \<and>
   map fst (definitions (storage (fst (handleCancelRound (conn 1 ''s1'' 1) emptyPayload
                                         historyServer)))) = [1, 3] \<and>
   map fst (votes (storage (fst (handleCancelRound (conn 1 ''s1'' 1) emptyPayload
                                   historyServer)))) = [1, 3] \<and>
   getGame (storage (fst (handleCancelRound (conn 1 ''s1'' 1) emptyPayload historyServer))) 1
     = Some (game1 1\<lparr>g_currentWord := Some [], g_currentRound := 2\<rparr>) \<and>
   getGame (storage (fst (handleCancelRound (conn 1 ''s1'' 1) emptyPayload historyServer))) 2
     = getGame (storage historyServer) 2 \<and>
   \<not> list_ex (\<lambda>(w, msg). isError msg)
       (snd (snd (handleCancelRound (conn 1 ''s1'' 1) emptyPayload historyServer))) \<and>
   handleCancelRound (conn 2 ''s2'' 1) emptyPayload historyServer
     = (historyServer, conn 2 ''s2'' 1,
        [(2, ErrorMessage ''Only admins can cancel the current round.'')]) \<and>
   handleCancelRound (conn 3 ''zz'' 1) emptyPayload historyServer
     = (historyServer, conn 3 ''zz'' 1,
        [(3, ErrorMessage ''Player not found. Please rejoin the game.'')]) \<and>
   getGame (storage (fst (handleNewRound (conn 2 ''s2'' 1) emptyPayload historyServer))) 1
     = Some (game1 1\<lparr>g_currentWord := Some [], g_currentRound := 3\<rparr>) \<and>
   definitions (storage (fst (handleNewRound (conn 2 ''s2'' 1) emptyPayload historyServer)))
     = definitions (storage historyServer)"
proof -
  let ?gA = "game1 3\<lparr>g_currentRound := 2\<rparr>"
  note c6 = C6_cancelRound_newRound [OF historyServer_facts]
  from c6 obtain s1 where s1:
    "s1 = (storage historyServer)
            \<lparr>definitions := filter (\<lambda>(k, d). \<not> (d_gameId d = 1 \<and> d_round d = g_currentRound ?gA))
                              (definitions (storage historyServer)),
             votes := filter (\<lambda>(k, v). \<not> (v_gameId v = 1 \<and> v_round v = g_currentRound ?gA))
                        (votes (storage historyServer)),
             games := AList.update 1 (?gA\<lparr>g_phase := 1, g_currentWord := Some []\<rparr>)
                        (games (storage historyServer))\<rparr>"
    and other1: "\<forall>k. k \<noteq> 1 \<longrightarrow> getGame s1 k = getGame (storage historyServer) k"
    and gate: "\<forall>c pl sid player.
        truthyNum (c_gameId c) = Some 1 \<and> truthyStr (c_sessionId c) = Some sid \<and>
        getPlayerBySessionId (storage historyServer) sid = Some player \<longrightarrow>
        (if p_isAdmin player
         then storage (fst (handleCancelRound c pl historyServer)) = s1 \<and>
              \<not> list_ex (\<lambda>(w, msg). isError msg)
                  (snd (snd (handleCancelRound c pl historyServer)))
         else handleCancelRound c pl historyServer =
                (historyServer, c, [(c_ws c,
                   ErrorMessage ''Only admins can cancel the current round.'')]))"
    and nobody: "\<forall>c pl sid.
        truthyNum (c_gameId c) = Some 1 \<and> truthyStr (c_sessionId c) = Some sid \<and>
        getPlayerBySessionId (storage historyServer) sid = None \<longrightarrow>
        handleCancelRound c pl historyServer =
          (historyServer, c, [(c_ws c,
             ErrorMessage ''Player not found. Please rejoin the game.'')])"
    by (elim conjE exE) blast
  from c6 obtain s2 where s2:
    "s2 = (storage historyServer)
            \<lparr>games := AList.update 1
                        (?gA\<lparr>g_phase := 1, g_currentWord := Some [],
                             g_currentRound := g_currentRound ?gA + 1\<rparr>)
                        (games (storage historyServer))\<rparr>"
    and router: "\<forall>c pl sid player.
        truthyNum (c_gameId c) = Some 1 \<and> truthyStr (c_sessionId c) = Some sid \<and>
        getPlayerBySessionId (storage historyServer) sid = Some player \<and>
        \<not> isSpectatorPlayer player \<longrightarrow>
        storage (fst (handleNewRound c pl historyServer)) = s2 \<and>
        \<not> list_ex (\<lambda>(w, msg). isError msg) (snd (snd (handleNewRound c pl historyServer)))"
    by (elim conjE exE) blast
  have flags: "p_isAdmin (mkPlayer 1 ''s1'' True False 0)"
    "\<not> p_isAdmin (mkPlayer 2 ''s2'' False False 0)"
    "\<not> isSpectatorPlayer (mkPlayer 2 ''s2'' False False 0)"
    by (simp_all add: mkPlayer_def isSpectatorPlayer_def SPECTATOR_def PLAYER_def)
  have ws: "c_ws (conn 2 ''s2'' 1) = 2" "c_ws (conn 3 ''zz'' 1) = 3"
    by (simp_all add: conn_def)
  from gate historyServer_senders(1) [of 1 "''s1''"] historyServer_senders(2) [of "''s1''" 1]
    historyServer_senders(3) flags(1)
  have admin: "storage (fst (handleCancelRound (conn 1 ''s1'' 1) emptyPayload historyServer)) = s1"
    "\<not> list_ex (\<lambda>(w, msg). isError msg)
        (snd (snd (handleCancelRound (conn 1 ''s1'' 1) emptyPayload historyServer)))"
    by (metis list.distinct(1))+
  from gate historyServer_senders(1) [of 2 "''s2''"] historyServer_senders(2) [of "''s2''" 2]
    historyServer_senders(4) flags(2) ws
  have refused: "handleCancelRound (conn 2 ''s2'' 1) emptyPayload historyServer
     = (historyServer, conn 2 ''s2'' 1,
        [(2, ErrorMessage ''Only admins can cancel the current round.'')])"
    by (metis list.distinct(1))
  from nobody historyServer_senders(1) [of 3 "''zz''"] historyServer_senders(2) [of "''zz''" 3]
    historyServer_senders(5) ws
  have unknown: "handleCancelRound (conn 3 ''zz'' 1) emptyPayload historyServer
     = (historyServer, conn 3 ''zz'' 1,
        [(3, ErrorMessage ''Player not found. Please rejoin the game.'')])"
    by (metis list.distinct(1))
  from router historyServer_senders(1) [of 2 "''s2''"] historyServer_senders(2) [of "''s2''" 2]
    historyServer_senders(4) flags(3)
  have next_round: "storage (fst (handleNewRound (conn 2 ''s2'' 1) emptyPayload historyServer)) = s2"
    by (metis list.distinct(1))
  have keys: "map fst (definitions (storage historyServer)) = [1, 2, 3]"
    "map fst (definitions s1) = [1, 3]" "map fst (votes s1) = [1, 3]"
    "getGame s1 1 = Some (game1 1\<lparr>g_currentWord := Some [], g_currentRound := 2\<rparr>)"
    "getGame s2 1 = Some (game1 1\<lparr>g_currentWord := Some [], g_currentRound := 3\<rparr>)"
    "definitions s2 = definitions (storage historyServer)"
    by (simp_all add: s1 s2 historyServer_def historyStore_def mkDefinition_def mkVote_def
        game1_def getGame_def)
  from other1 have g2: "getGame s1 2 = getGame (storage historyServer) 2" by simp
  show ?thesis
    unfolding admin(1) next_round
    by (intro conjI historyServer_facts keys g2 admin(2) refused unknown)
qed

end
